theory Spec2Isabelle
  imports Main "HOL-Library.Word"
begin

section \<open>Values exchanged with the outside\<close>

text \<open>
  The behaviours of \<^verbatim>\<open>bet_placement.py\<close> and \<^verbatim>\<open>reedem.py\<close> are generators: they
  suspend at every external call and resume with its response. The embedding makes the
  outside explicit. A run is given the finite list of responses that the contract-call
  boundary delivers, in the order in which they arrive; every external call consumes the
  next one and records the request that was sent. A run that needs more responses than
  the list holds has not returned: its outcome is \<open>Pending\<close>.
\<close>

type_synonym bytes = "8 word list"

text \<open>The values found in a response body (\<^verbatim>\<open>Dict[str, Any]\<close>).\<close>

datatype pyval = PyInt int | PyStr string | PyBool bool | PyDict "(string \<times> int) list"

datatype error = ValueError | TypeError | AttributeError

datatype 'a outcome = Pending | Raised error | Returned 'a

definition and_then :: "'a outcome \<Rightarrow> ('a \<Rightarrow> 'b outcome) \<Rightarrow> 'b outcome" where
  "and_then m f = (case m of Pending \<Rightarrow> Pending | Raised e \<Rightarrow> Raised e | Returned x \<Rightarrow> f x)"

definition raising :: "error + 'a \<Rightarrow> ('a \<Rightarrow> 'b outcome) \<Rightarrow> 'b outcome" where
  "raising m f = (case m of Inl e \<Rightarrow> Raised e | Inr x \<Rightarrow> f x)"

text \<open>Python's truth value of an object (\<^verbatim>\<open>if x\<close>, \<^verbatim>\<open>not x\<close>).\<close>

fun truthy :: "pyval \<Rightarrow> bool" where
  "truthy (PyInt i) = (i \<noteq> 0)"
| "truthy (PyStr s) = (s \<noteq> [])"
| "truthy (PyBool b) = b"
| "truthy (PyDict d) = (d \<noteq> [])"

datatype performative = GET_RAW_TRANSACTION | GET_STATE | RAW_TRANSACTION | STATE | ERROR

datatype contract =
    ERC20 | FixedProductMarketMakerContract | MultiSendContract | GnosisSafeContract
  | ConditionalTokensContract | RealitioContract | RealitioProxyContract

text \<open>
  \<^verbatim>\<open>MultisendBatch\<close> is declared in \<^verbatim>\<open>models.py\<close>, which is not among the sources. The
  behaviours construct it with \<^verbatim>\<open>to\<close> and \<^verbatim>\<open>data\<close> only; the third field is the
  native-currency value of the specification's call entry, left at its default.
\<close>

record MultisendBatch =
  to :: string
  data :: bytes
  batch_value :: int

definition MultisendBatch :: "string \<Rightarrow> bytes \<Rightarrow> MultisendBatch" where
  "MultisendBatch t d = \<lparr>to = t, data = d, batch_value = 0\<rparr>"

text \<open>The \<^verbatim>\<open>fromBlock\<close> of a claim: a block number or a tag such as \<^verbatim>\<open>"earliest"\<close>.\<close>

datatype block_ref = BlockNumber int | BlockTag string

datatype arg =
    ArgInt int | ArgStr string | ArgBytes bytes | ArgBlock block_ref
  | ArgTxs "MultisendBatch list" | ArgList "arg list"

record request =
  req_performative :: performative
  contract_address :: string
  contract_id :: contract
  contract_callable :: string
  kwargs :: "(string \<times> arg) list"

record response_msg =
  performative :: performative
  body :: "string \<rightharpoonup> pyval"

text \<open>The contract-call boundary: requests sent so far, responses still to arrive.\<close>

record world =
  sent :: "request list"
  pending :: "response_msg list"

section \<open>Imported names\<close>

text \<open>
  Constants and functions that the behaviours import from packages outside the sources
  (\<^verbatim>\<open>SAFE_GAS\<close>, \<^verbatim>\<open>TX_HASH_LENGTH\<close>, \<^verbatim>\<open>SafeOperation.DELEGATE_CALL.value\<close>,
  \<^verbatim>\<open>hash_payload_to_hex\<close>, \<^verbatim>\<open>auto_round_id\<close>) and the Python built-ins whose result
  depends on the text of a string (\<^verbatim>\<open>int\<close>, \<^verbatim>\<open>str\<close>, \<^verbatim>\<open>str.lower\<close>,
  \<^verbatim>\<open>HexBytes\<close>, \<^verbatim>\<open>bytes.fromhex\<close>) are parameters of the model. A built-in that can raise returns
  the exception on the left.
\<close>

record imported =
  SAFE_GAS :: int
  TX_HASH_LENGTH :: nat
  DELEGATE_CALL :: int
  py_int :: "pyval \<Rightarrow> error + int"
  py_str :: "pyval \<Rightarrow> string"
  HexBytes :: "pyval \<Rightarrow> error + bytes"
  bytes_fromhex :: "string \<Rightarrow> error + bytes"
  py_lower :: "string \<Rightarrow> string"
  hash_payload_to_hex :: "string \<Rightarrow> int \<Rightarrow> int \<Rightarrow> string \<Rightarrow> bytes \<Rightarrow> int \<Rightarrow> error + string"
  auto_round_id :: string

text \<open>
  What a behaviour reads and never writes: \<^verbatim>\<open>self.context\<close>, \<^verbatim>\<open>self.params\<close> and
  \<^verbatim>\<open>self.synchronized_data\<close>. \<open>investment_amount\<close> is the value of the property of
  that name (\<^verbatim>\<open>params.get_bet_amount(synchronized_data.confidence)\<close>).
\<close>

record environment =
  agent_address :: string
  safe_contract_address :: string
  sampled_bet_collateralToken :: string
  sampled_bet_id :: string
  investment_amount :: int
  vote :: int
  multisend_address :: string
  conditional_tokens_address :: string
  realitio_proxy_address :: string
  realitio_address :: string
  dust_threshold :: int
  redeeming_batch_size :: int

section \<open>The retry-poll controller\<close>

text \<open>
  A waitable step performs one external call and returns a boolean. It is embedded as
  the request it sends, built from the state before the call, and the handler of the
  response, which returns the boolean and the new state, or raises.
\<close>

type_synonym 's step = "('s \<Rightarrow> error + request) \<times> (response_msg \<Rightarrow> 's \<Rightarrow> error + bool \<times> 's)"

text \<open>
  Modelled from the spec: \<^verbatim>\<open>wait_for_condition_with_sleep\<close> of the base behaviour is
  not among the sources. Section 4.1: the controller invokes the step repeatedly until it
  reports success; there is no maximum number of attempts. Every attempt builds the
  step's request, which can raise, sends it and consumes one response; with no response
  left the run is waiting.
\<close>

fun wait_loop :: "'s step \<Rightarrow> 's \<Rightarrow> request list \<Rightarrow> response_msg list \<Rightarrow> ('s \<times> world) outcome" where
  "wait_loop st s log [] = raising (fst st s) (\<lambda>rq. Pending)"
| "wait_loop st s log (r # rs) =
     raising (fst st s) (\<lambda>rq.
     raising (snd st r s) (\<lambda>(ok, s').
       if ok then Returned (s', \<lparr>sent = log @ [rq], pending = rs\<rparr>)
       else wait_loop st s' (log @ [rq]) rs))"

definition wait_for_condition_with_sleep :: "'s step \<Rightarrow> 's \<Rightarrow> world \<Rightarrow> ('s \<times> world) outcome" where
  "wait_for_condition_with_sleep st s w = wait_loop st s (sent w) (pending w)"

text \<open>\<^verbatim>\<open>for step in (...): yield from self.wait_for_condition_with_sleep(step)\<close>\<close>

fun for_steps :: "'s step list \<Rightarrow> 's \<Rightarrow> world \<Rightarrow> ('s \<times> world) outcome" where
  "for_steps [] s w = Returned (s, w)"
| "for_steps (st # sts) s w =
     and_then (wait_for_condition_with_sleep st s w) (\<lambda>(s', w'). for_steps sts s' w')"

section \<open>State of the behaviours\<close>

text \<open>
  The attributes that both behaviours use to assemble the multisend transaction, then the
  attributes that each \<^verbatim>\<open>__init__\<close> adds. In this revision \<^verbatim>\<open>BetPlacementBehaviour\<close>
  declares the shared attributes itself; \<^verbatim>\<open>RedeemBehaviour\<close> inherits them from the
  base behaviour.
\<close>

record base_state =
  multisend_batches :: "MultisendBatch list"
  multisend_data :: bytes
  safe_tx_hash :: string

record bet_state = base_state +
  balance :: int
  buy_amount :: int

definition bet_init :: bet_state where
  "bet_init = \<lparr>multisend_batches = [], multisend_data = [], safe_tx_hash = [],
     balance = 0, buy_amount = 0\<rparr>"

text \<open>
  The terminal payload, as the list of positional arguments its constructor is called
  with (\<^verbatim>\<open>MultisigTxPayload\<close> is imported from \<^verbatim>\<open>payloads.py\<close>, whose copy among the
  sources does not declare it).
\<close>

datatype payload = MultisigTxPayload "string option list"

section \<open>Bet placement\<close>

definition ETHER_VALUE :: int where
  "ETHER_VALUE = 0"

definition collateral_token :: "environment \<Rightarrow> string" where
  "collateral_token c = sampled_bet_collateralToken c"

definition market_maker_contract_address :: "environment \<Rightarrow> string" where
  "market_maker_contract_address c = sampled_bet_id c"

definition sufficient_balance :: "environment \<Rightarrow> bet_state \<Rightarrow> bool" where
  "sufficient_balance c s = (balance s \<ge> investment_amount c)"

definition outcome_index :: "environment \<Rightarrow> int" where
  "outcome_index c = vote c"

definition multi_send_txs :: "'a base_state_scheme \<Rightarrow> MultisendBatch list" where
  "multi_send_txs s = multisend_batches s"

text \<open>\<^verbatim>\<open>len(x)\<close> and \<^verbatim>\<open>x[2:]\<close> on a value of a response body.\<close>

fun py_len :: "pyval \<Rightarrow> error + nat" where
  "py_len (PyStr s) = Inr (length s)"
| "py_len (PyDict d) = Inr (length d)"
| "py_len (PyInt i) = Inl TypeError"
| "py_len (PyBool b) = Inl TypeError"

fun py_slice_from_2 :: "pyval \<Rightarrow> error + string" where
  "py_slice_from_2 (PyStr s) = Inr (drop 2 s)"
| "py_slice_from_2 (PyDict d) = Inl TypeError"
| "py_slice_from_2 (PyInt i) = Inl TypeError"
| "py_slice_from_2 (PyBool b) = Inl TypeError"

definition check_balance_request :: "environment \<Rightarrow> request" where
  "check_balance_request c =
     \<lparr>req_performative = GET_RAW_TRANSACTION, contract_address = collateral_token c,
      contract_id = ERC20, contract_callable = ''check_balance'',
      kwargs = [(''account'', ArgStr (safe_contract_address c))]\<rparr>"

definition check_balance :: "imported \<Rightarrow> response_msg \<Rightarrow> bet_state \<Rightarrow> error + bool \<times> bet_state" where
  "check_balance lib response_msg s =
     (if performative response_msg \<noteq> RAW_TRANSACTION then Inr (False, s)
      else case body response_msg ''balance'' of
        None \<Rightarrow> Inr (False, s)
      | Some b \<Rightarrow> (case py_int lib b of
          Inl e \<Rightarrow> Inl e
        | Inr i \<Rightarrow> Inr (True, s\<lparr>balance := i\<rparr>)))"

definition build_approval_tx_request :: "environment \<Rightarrow> request" where
  "build_approval_tx_request c =
     \<lparr>req_performative = GET_STATE, contract_address = collateral_token c,
      contract_id = ERC20, contract_callable = ''build_approval_tx'',
      kwargs = [(''spender'', ArgStr (market_maker_contract_address c)),
                (''amount'', ArgInt (investment_amount c))]\<rparr>"

definition build_approval_tx ::
  "imported \<Rightarrow> environment \<Rightarrow> response_msg \<Rightarrow> bet_state \<Rightarrow> error + bool \<times> bet_state" where
  "build_approval_tx lib c response_msg s =
     (if performative response_msg \<noteq> STATE then Inr (False, s)
      else case body response_msg ''data'' of
        None \<Rightarrow> Inr (False, s)
      | Some approval_data \<Rightarrow> (case HexBytes lib approval_data of
          Inl e \<Rightarrow> Inl e
        | Inr d \<Rightarrow> Inr (True, s\<lparr>multisend_batches :=
            multisend_batches s @ [MultisendBatch (collateral_token c) d]\<rparr>)))"

definition calc_buy_amount_request :: "environment \<Rightarrow> request" where
  "calc_buy_amount_request c =
     \<lparr>req_performative = GET_RAW_TRANSACTION, contract_address = market_maker_contract_address c,
      contract_id = FixedProductMarketMakerContract, contract_callable = ''calc_buy_amount'',
      kwargs = [(''investment_amount'', ArgInt (investment_amount c)),
                (''outcome_index'', ArgInt (outcome_index c))]\<rparr>"

definition calc_buy_amount :: "imported \<Rightarrow> response_msg \<Rightarrow> bet_state \<Rightarrow> error + bool \<times> bet_state" where
  "calc_buy_amount lib response_msg s =
     (if performative response_msg \<noteq> RAW_TRANSACTION then Inr (False, s)
      else case body response_msg ''amount'' of
        None \<Rightarrow> Inr (False, s)
      | Some a \<Rightarrow> (case py_int lib a of
          Inl e \<Rightarrow> Inl e
        | Inr i \<Rightarrow> Inr (True, s\<lparr>buy_amount := i\<rparr>)))"

definition build_buy_tx_request :: "environment \<Rightarrow> bet_state \<Rightarrow> request" where
  "build_buy_tx_request c s =
     \<lparr>req_performative = GET_STATE, contract_address = market_maker_contract_address c,
      contract_id = FixedProductMarketMakerContract, contract_callable = ''get_buy_data'',
      kwargs = [(''investment_amount'', ArgInt (investment_amount c)),
                (''outcome_index'', ArgInt (outcome_index c)),
                (''min_outcome_tokens_to_buy'', ArgInt (buy_amount s))]\<rparr>"

definition build_buy_tx ::
  "imported \<Rightarrow> environment \<Rightarrow> response_msg \<Rightarrow> bet_state \<Rightarrow> error + bool \<times> bet_state" where
  "build_buy_tx lib c response_msg s =
     (if performative response_msg \<noteq> STATE then Inr (False, s)
      else case body response_msg ''data'' of
        None \<Rightarrow> Inr (False, s)
      | Some buy_data \<Rightarrow> (case HexBytes lib buy_data of
          Inl e \<Rightarrow> Inl e
        | Inr d \<Rightarrow> Inr (True, s\<lparr>multisend_batches :=
            multisend_batches s @ [MultisendBatch (market_maker_contract_address c) d]\<rparr>)))"

definition build_multisend_data_request :: "environment \<Rightarrow> 'a base_state_scheme \<Rightarrow> request" where
  "build_multisend_data_request c s =
     \<lparr>req_performative = GET_RAW_TRANSACTION, contract_address = multisend_address c,
      contract_id = MultiSendContract, contract_callable = ''get_tx_data'',
      kwargs = [(''multi_send_txs'', ArgTxs (multi_send_txs s))]\<rparr>"

definition build_multisend_data ::
  "imported \<Rightarrow> response_msg \<Rightarrow> 'a base_state_scheme \<Rightarrow> error + bool \<times> 'a base_state_scheme" where
  "build_multisend_data lib response_msg s =
     (if performative response_msg \<noteq> RAW_TRANSACTION then Inr (False, s)
      else case body response_msg ''data'' of
        None \<Rightarrow> Inr (False, s)
      | Some d \<Rightarrow> (case bytes_fromhex lib (drop 2 (py_str lib d)) of
          Inl e \<Rightarrow> Inl e
        | Inr bs \<Rightarrow> Inr (True, s\<lparr>multisend_data := bs\<rparr>)))"

definition build_safe_tx_hash_request ::
  "imported \<Rightarrow> environment \<Rightarrow> 'a base_state_scheme \<Rightarrow> request" where
  "build_safe_tx_hash_request lib c s =
     \<lparr>req_performative = GET_STATE, contract_address = safe_contract_address c,
      contract_id = GnosisSafeContract, contract_callable = ''get_raw_safe_transaction_hash'',
      kwargs = [(''to_address'', ArgStr (multisend_address c)),
                (''value'', ArgInt ETHER_VALUE),
                (''data'', ArgBytes (multisend_data s)),
                (''safe_tx_gas'', ArgInt (SAFE_GAS lib)),
                (''operation'', ArgInt (DELEGATE_CALL lib))]\<rparr>"

definition build_safe_tx_hash ::
  "imported \<Rightarrow> response_msg \<Rightarrow> 'a base_state_scheme \<Rightarrow> error + bool \<times> 'a base_state_scheme" where
  "build_safe_tx_hash lib response_msg s =
     (if performative response_msg \<noteq> STATE then Inr (False, s)
      else case body response_msg ''tx_hash'' of
        None \<Rightarrow> Inr (False, s)
      | Some tx_hash \<Rightarrow> (case py_len tx_hash of
          Inl e \<Rightarrow> Inl e
        | Inr n \<Rightarrow>
            if n \<noteq> TX_HASH_LENGTH lib then Inr (False, s)
            else (case py_slice_from_2 tx_hash of
              Inl e \<Rightarrow> Inl e
            | Inr h \<Rightarrow> Inr (True, s\<lparr>safe_tx_hash := h\<rparr>))))"

definition bet_steps :: "imported \<Rightarrow> environment \<Rightarrow> bet_state step list" where
  "bet_steps lib c =
     [(\<lambda>s. Inr (build_approval_tx_request c), build_approval_tx lib c),
      (\<lambda>s. Inr (calc_buy_amount_request c), calc_buy_amount lib),
      (\<lambda>s. Inr (build_buy_tx_request c s), build_buy_tx lib c),
      (\<lambda>s. Inr (build_multisend_data_request c s), build_multisend_data lib),
      (\<lambda>s. Inr (build_safe_tx_hash_request lib c s), build_safe_tx_hash lib)]"

definition bet_prepare_safe_tx ::
  "imported \<Rightarrow> environment \<Rightarrow> bet_state \<Rightarrow> world \<Rightarrow> (string \<times> bet_state \<times> world) outcome" where
  "bet_prepare_safe_tx lib c s w =
     and_then (for_steps (bet_steps lib c) s w) (\<lambda>(s', w').
     raising (hash_payload_to_hex lib (safe_tx_hash s') ETHER_VALUE (SAFE_GAS lib)
                (multisend_address c) (multisend_data s') (DELEGATE_CALL lib)) (\<lambda>hex.
     Returned (hex, s', w')))"

definition bet_async_act ::
  "imported \<Rightarrow> environment \<Rightarrow> bet_state \<Rightarrow> world \<Rightarrow> (payload \<times> bet_state \<times> world) outcome" where
  "bet_async_act lib c s w =
     and_then (wait_for_condition_with_sleep (\<lambda>s. Inr (check_balance_request c), check_balance lib) s w)
       (\<lambda>(s1, w1).
     if sufficient_balance c s1 then
       and_then (bet_prepare_safe_tx lib c s1 w1) (\<lambda>(betting_tx_hex, s2, w2).
       Returned (MultisigTxPayload [Some (agent_address c), Some betting_tx_hex], s2, w2))
     else Returned (MultisigTxPayload [Some (agent_address c), None], s1, w1))"

section \<open>Redeeming: data\<close>

text \<open>
  \<^verbatim>\<open>RedeemInfo\<close>, \<^verbatim>\<open>FPMM\<close> and \<^verbatim>\<open>Condition\<close> are declared in \<^verbatim>\<open>redeem_info.py\<close>,
  which is not among the sources. The records hold the attributes that the behaviour
  reads; \<open>current_answer_index\<close> and \<open>claimable_amount\<close> are the values of the
  properties of these names.
\<close>

record Condition =
  cond_id :: bytes
  index_sets :: "int list"
  outcomeSlotCount :: int

record Question =
  question_id :: bytes
  question_data :: string

record FPMM =
  collateralToken :: string
  condition :: Condition
  question :: Question
  templateId :: int
  creationTimestamp :: int
  current_answer_index :: int

record RedeemInfo =
  fpmm :: FPMM
  outcomeIndex :: int
  transactionHash :: string
  claimable_amount :: int

datatype fetch_status = SUCCESS | IN_PROGRESS | FAIL

definition ZERO_BYTES :: bytes where
  "ZERO_BYTES = replicate 32 0"

definition DEFAULT_FROM_BLOCK :: string where
  "DEFAULT_FROM_BLOCK = ''earliest''"

record redeem_state = base_state +
  already_resolved :: pyval
  payouts :: pyval
  from_block :: block_ref
  built_data :: "bytes option"
  redeem_info :: "RedeemInfo list"
  current_redeem_info_attr :: "RedeemInfo option"
  expected_winnings :: int

text \<open>
  \<^verbatim>\<open>__init__\<close>. The three attributes of the base behaviour start empty, as those of
  \<^verbatim>\<open>BetPlacementBehaviour\<close> do (specification, section 5: every per-run structure is
  freshly constructed at the start of a run).
\<close>

definition redeem_init :: redeem_state where
  "redeem_init = \<lparr>multisend_batches = [], multisend_data = [], safe_tx_hash = [],
     already_resolved = PyBool False, payouts = PyDict [],
     from_block = BlockTag DEFAULT_FROM_BLOCK, built_data = None, redeem_info = [],
     current_redeem_info_attr = None, expected_winnings = 0\<rparr>"

subsection \<open>Properties\<close>

definition current_redeem_info :: "redeem_state \<Rightarrow> error + RedeemInfo" where
  "current_redeem_info s =
     (case current_redeem_info_attr s of None \<Rightarrow> Inl ValueError | Some info \<Rightarrow> Inr info)"

definition current_fpmm :: "redeem_state \<Rightarrow> error + FPMM" where
  "current_fpmm s = map_sum id fpmm (current_redeem_info s)"

definition current_condition :: "redeem_state \<Rightarrow> error + Condition" where
  "current_condition s = map_sum id condition (current_fpmm s)"

definition current_question_id :: "redeem_state \<Rightarrow> error + bytes" where
  "current_question_id s = map_sum id (\<lambda>f. question_id (question f)) (current_fpmm s)"

definition current_collateral_token :: "redeem_state \<Rightarrow> error + string" where
  "current_collateral_token s = map_sum id collateralToken (current_fpmm s)"

definition current_condition_id :: "redeem_state \<Rightarrow> error + bytes" where
  "current_condition_id s = map_sum id cond_id (current_condition s)"

definition current_index_sets :: "redeem_state \<Rightarrow> error + int list" where
  "current_index_sets s = map_sum id index_sets (current_condition s)"

definition safe_address_lower :: "imported \<Rightarrow> environment \<Rightarrow> string" where
  "safe_address_lower lib c = py_lower lib (safe_contract_address c)"

text \<open>
  The setter of \<^verbatim>\<open>from_block\<close>: \<^verbatim>\<open>int(from_block)\<close>, and the default when that
  raises \<^verbatim>\<open>ValueError\<close>; any other exception propagates.
\<close>

definition from_block_setter :: "imported \<Rightarrow> pyval \<Rightarrow> redeem_state \<Rightarrow> error + redeem_state" where
  "from_block_setter lib v s =
     (case py_int lib v of
        Inr i \<Rightarrow> Inr (s\<lparr>from_block := BlockNumber i\<rparr>)
      | Inl ValueError \<Rightarrow> Inr (s\<lparr>from_block := BlockTag DEFAULT_FROM_BLOCK\<rparr>)
      | Inl e \<Rightarrow> Inl e)"

definition payouts_setter :: "pyval \<Rightarrow> redeem_state \<Rightarrow> error + redeem_state" where
  "payouts_setter v s = Inr (s\<lparr>payouts := v\<rparr>)"

definition already_resolved_setter :: "pyval \<Rightarrow> redeem_state \<Rightarrow> error + redeem_state" where
  "already_resolved_setter flag s = Inr (s\<lparr>already_resolved := flag\<rparr>)"

definition built_data_setter :: "imported \<Rightarrow> pyval \<Rightarrow> redeem_state \<Rightarrow> error + redeem_state" where
  "built_data_setter lib v s =
     (case HexBytes lib v of Inl e \<Rightarrow> Inl e | Inr d \<Rightarrow> Inr (s\<lparr>built_data := Some d\<rparr>))"

section \<open>Redeeming: discovery of the trades\<close>

text \<open>
  Modelled from the spec: \<^verbatim>\<open>_prepare_fetching\<close> and \<^verbatim>\<open>_fetch_redeem_info\<close> of the
  querying behaviour are not among the sources. Section 6: the trade-history source
  answers a paged query with a page of candidate records and a status. The source is
  given as the list of its answers: \<open>NoMore\<close> when \<^verbatim>\<open>_prepare_fetching\<close> returns false
  and leaves the status as it is, \<open>Page chunk status\<close> when it returns true and
  \<^verbatim>\<open>_fetch_redeem_info\<close> then returns \<open>chunk\<close> and leaves \<open>status\<close>. The records of a
  chunk are given as the \<^verbatim>\<open>RedeemInfo\<close> that \<^verbatim>\<open>RedeemInfo(**trade)\<close> constructs.
\<close>

datatype trades_answer = NoMore | Page "RedeemInfo list option" fetch_status

fun get_redeem_info ::
  "redeem_state \<Rightarrow> fetch_status \<Rightarrow> trades_answer list
    \<Rightarrow> (redeem_state \<times> fetch_status \<times> trades_answer list) outcome" where
  "get_redeem_info s fs [] = Pending"
| "get_redeem_info s fs (NoMore # rest) =
     Returned (if fs \<noteq> SUCCESS then s\<lparr>redeem_info := []\<rparr> else s, fs, rest)"
| "get_redeem_info s fs (Page trades_market_chunk fs' # rest) =
     (case trades_market_chunk of
        None \<Rightarrow> get_redeem_info s fs' rest
      | Some redeem_updates \<Rightarrow>
          get_redeem_info (s\<lparr>redeem_info := redeem_info s @ redeem_updates\<rparr>) fs' rest)"

section \<open>Redeeming: steps\<close>

text \<open>
  Modelled from the spec: \<^verbatim>\<open>contract_interact\<close> of the base behaviour is not among the
  sources. Section 6: a response of the wrong kind or without the expected field is a
  failure, the step returns false; otherwise the field is stored through the setter of
  the attribute named by \<^verbatim>\<open>placeholder\<close>.
\<close>

definition contract_interact ::
  "string \<Rightarrow> (pyval \<Rightarrow> 's \<Rightarrow> error + 's) \<Rightarrow> response_msg \<Rightarrow> 's \<Rightarrow> error + bool \<times> 's" where
  "contract_interact data_key placeholder response_msg s =
     (if performative response_msg \<noteq> RAW_TRANSACTION then Inr (False, s)
      else case body response_msg data_key of
        None \<Rightarrow> Inr (False, s)
      | Some d \<Rightarrow> (case placeholder d s of Inl e \<Rightarrow> Inl e | Inr s' \<Rightarrow> Inr (True, s')))"

text \<open>The request that \<^verbatim>\<open>_conditional_tokens_interact\<close> sends.\<close>

definition conditional_tokens_request ::
  "environment \<Rightarrow> string \<Rightarrow> (string \<times> arg) list \<Rightarrow> request" where
  "conditional_tokens_request c callable kw =
     \<lparr>req_performative = GET_RAW_TRANSACTION, contract_address = conditional_tokens_address c,
      contract_id = ConditionalTokensContract, contract_callable = callable, kwargs = kw\<rparr>"

definition check_already_redeemed_request ::
  "imported \<Rightarrow> environment \<Rightarrow> redeem_state \<Rightarrow> error + request" where
  "check_already_redeemed_request lib c s =
     Inr (conditional_tokens_request c ''check_redeemed''
       [(''redeemer'', ArgStr (safe_address_lower lib c)),
        (''collateral_tokens'', ArgList (map (\<lambda>rc. ArgStr (collateralToken (fpmm rc))) (redeem_info s))),
        (''parent_collection_ids'', ArgList (map (\<lambda>rc. ArgBytes ZERO_BYTES) (redeem_info s))),
        (''condition_ids'', ArgList (map (\<lambda>rc. ArgBytes (cond_id (condition (fpmm rc)))) (redeem_info s))),
        (''index_sets'', ArgList (map (\<lambda>rc. ArgList (map ArgInt (index_sets (condition (fpmm rc))))) (redeem_info s))),
        (''trade_tx_hashes'', ArgList (map (\<lambda>rc. ArgStr (transactionHash rc)) (redeem_info s)))])"

definition check_already_redeemed :: "response_msg \<Rightarrow> redeem_state \<Rightarrow> error + bool \<times> redeem_state" where
  "check_already_redeemed = contract_interact ''payouts'' payouts_setter"

definition is_winning_position :: "redeem_state \<Rightarrow> error + bool" where
  "is_winning_position s =
     map_sum id (\<lambda>info. outcomeIndex info = current_answer_index (fpmm info)) (current_redeem_info s)"

definition is_dust :: "environment \<Rightarrow> redeem_state \<Rightarrow> error + bool" where
  "is_dust c s = map_sum id (\<lambda>info. claimable_amount info < dust_threshold c) (current_redeem_info s)"

definition check_already_resolved_request :: "environment \<Rightarrow> redeem_state \<Rightarrow> error + request" where
  "check_already_resolved_request c s =
     map_sum id (\<lambda>cid. conditional_tokens_request c ''check_resolved'' [(''condition_id'', ArgBytes cid)])
       (current_condition_id s)"

definition check_already_resolved :: "response_msg \<Rightarrow> redeem_state \<Rightarrow> error + bool \<times> redeem_state" where
  "check_already_resolved = contract_interact ''resolved'' already_resolved_setter"

text \<open>
  The common end of the three builders: \<^verbatim>\<open>if not result: return False\<close>, then the
  batch with \<^verbatim>\<open>HexBytes(self.built_data)\<close> is appended.
\<close>

definition append_built_data ::
  "string \<Rightarrow> error + bool \<times> redeem_state \<Rightarrow> error + bool \<times> redeem_state" where
  "append_built_data target result =
     (case result of
        Inl e \<Rightarrow> Inl e
      | Inr (ok, s) \<Rightarrow>
          if \<not> ok then Inr (False, s)
          else (case built_data s of
            None \<Rightarrow> Inl TypeError
          | Some d \<Rightarrow> Inr (True, s\<lparr>multisend_batches :=
              multisend_batches s @ [MultisendBatch target d]\<rparr>)))"

definition build_resolve_data_request :: "environment \<Rightarrow> redeem_state \<Rightarrow> error + request" where
  "build_resolve_data_request c s =
     map_sum id (\<lambda>f.
       \<lparr>req_performative = GET_RAW_TRANSACTION, contract_address = realitio_proxy_address c,
        contract_id = RealitioProxyContract, contract_callable = ''build_resolve_tx'',
        kwargs = [(''question_id'', ArgBytes (question_id (question f))),
                  (''template_id'', ArgInt (templateId f)),
                  (''question'', ArgStr (question_data (question f))),
                  (''num_outcomes'', ArgInt (outcomeSlotCount (condition f)))]\<rparr>)
       (current_fpmm s)"

definition build_resolve_data ::
  "imported \<Rightarrow> environment \<Rightarrow> response_msg \<Rightarrow> redeem_state \<Rightarrow> error + bool \<times> redeem_state" where
  "build_resolve_data lib c response_msg s =
     append_built_data (realitio_proxy_address c)
       (contract_interact ''data'' (built_data_setter lib) response_msg s)"

definition build_claim_data_request :: "environment \<Rightarrow> redeem_state \<Rightarrow> error + request" where
  "build_claim_data_request c s =
     map_sum id (\<lambda>qid.
       \<lparr>req_performative = GET_RAW_TRANSACTION, contract_address = realitio_address c,
        contract_id = RealitioContract, contract_callable = ''build_claim_winnings'',
        kwargs = [(''from_block'', ArgBlock (from_block s)),
                  (''question_id'', ArgBytes qid)]\<rparr>)
       (current_question_id s)"

definition build_claim_data ::
  "imported \<Rightarrow> environment \<Rightarrow> response_msg \<Rightarrow> redeem_state \<Rightarrow> error + bool \<times> redeem_state" where
  "build_claim_data lib c response_msg s =
     append_built_data (realitio_address c)
       (contract_interact ''data'' (built_data_setter lib) response_msg s)"

definition build_redeem_data_request :: "environment \<Rightarrow> redeem_state \<Rightarrow> error + request" where
  "build_redeem_data_request c s =
     (case current_redeem_info s of
        Inl e \<Rightarrow> Inl e
      | Inr info \<Rightarrow> Inr (conditional_tokens_request c ''build_redeem_positions_tx''
          [(''collateral_token'', ArgStr (collateralToken (fpmm info))),
           (''parent_collection_id'', ArgBytes ZERO_BYTES),
           (''condition_id'', ArgBytes (cond_id (condition (fpmm info)))),
           (''index_sets'', ArgList (map ArgInt (index_sets (condition (fpmm info)))))]))"

definition build_redeem_data ::
  "imported \<Rightarrow> environment \<Rightarrow> response_msg \<Rightarrow> redeem_state \<Rightarrow> error + bool \<times> redeem_state" where
  "build_redeem_data lib c response_msg s =
     append_built_data (conditional_tokens_address c)
       (contract_interact ''data'' (built_data_setter lib) response_msg s)"

section \<open>Redeeming: the workflow\<close>

definition clean_redeem_info ::
  "imported \<Rightarrow> environment \<Rightarrow> redeem_state \<Rightarrow> world \<Rightarrow> (redeem_state \<times> world) outcome" where
  "clean_redeem_info lib c s w =
     and_then (wait_for_condition_with_sleep
                (check_already_redeemed_request lib c, check_already_redeemed) s w) (\<lambda>(s1, w1).
     case payouts s1 of
       PyDict p \<Rightarrow>
         (let payout_so_far = sum_list (map snd p) in
          if payout_so_far > 0
          then Returned (s1\<lparr>redeem_info :=
                 filter (\<lambda>info. transactionHash info \<notin> set (map fst p)) (redeem_info s1)\<rparr>, w1)
          else Returned (s1, w1))
     | _ \<Rightarrow> Raised AttributeError)"

text \<open>
  Modelled from the spec: \<^verbatim>\<open>_fetch_block_number\<close> of the querying behaviour is not
  among the sources. Section 6: the block-index lookup answers a query by timestamp with
  a block and a status. The lookup is given as the list of its answers; every call
  consumes one, returns its block and leaves its status.
\<close>

fun fetch_block_number_loop ::
  "((string \<rightharpoonup> pyval) \<times> fetch_status) list
    \<Rightarrow> ((string \<rightharpoonup> pyval) \<times> fetch_status \<times> ((string \<rightharpoonup> pyval) \<times> fetch_status) list) outcome" where
  "fetch_block_number_loop [] = Pending"
| "fetch_block_number_loop ((block, fs) # rest) =
     (if fs \<noteq> IN_PROGRESS then Returned (block, fs, rest) else fetch_block_number_loop rest)"

definition get_block_number ::
  "imported \<Rightarrow> redeem_state \<Rightarrow> ((string \<rightharpoonup> pyval) \<times> fetch_status) list
    \<Rightarrow> (bool \<times> redeem_state \<times> fetch_status \<times> ((string \<rightharpoonup> pyval) \<times> fetch_status) list) outcome" where
  "get_block_number lib s lookups =
     raising (current_redeem_info s) (\<lambda>info.
     and_then (fetch_block_number_loop lookups) (\<lambda>(block, fs, rest).
     if fs = SUCCESS then
       raising (from_block_setter lib
                 (case block ''id'' of None \<Rightarrow> PyStr DEFAULT_FROM_BLOCK | Some v \<Rightarrow> v) s) (\<lambda>s'.
       Returned (True, s', fs, rest))
     else Returned (True, s, fs, rest)))"

definition prepare_single_redeem ::
  "imported \<Rightarrow> environment \<Rightarrow> redeem_state \<Rightarrow> world \<Rightarrow> (redeem_state \<times> world) outcome" where
  "prepare_single_redeem lib c s w =
     and_then (wait_for_condition_with_sleep
                (check_already_resolved_request c, check_already_resolved) s w) (\<lambda>(s1, w1).
     for_steps
       ((if truthy (already_resolved s1) then []
         else [(build_resolve_data_request c, build_resolve_data lib c)])
        @ [(build_claim_data_request c, build_claim_data lib c),
           (build_redeem_data_request c, build_redeem_data lib c)])
       s1 w1)"

definition process_candidate ::
  "imported \<Rightarrow> environment \<Rightarrow> RedeemInfo \<Rightarrow> redeem_state \<Rightarrow> world
    \<Rightarrow> (bool \<times> redeem_state \<times> world) outcome" where
  "process_candidate lib c redeem_candidate s w =
     (let s1 = s\<lparr>current_redeem_info_attr := Some redeem_candidate\<rparr> in
      raising (is_winning_position s1) (\<lambda>winning.
      if \<not> winning then Returned (False, s1, w)
      else raising (is_dust c s1) (\<lambda>dust.
      if dust then Returned (False, s1, w)
      else and_then (prepare_single_redeem lib c s1 w) (\<lambda>(s2, w2).
           raising (current_redeem_info s2) (\<lambda>info.
           Returned (True, s2\<lparr>expected_winnings := expected_winnings s2 + claimable_amount info\<rparr>, w2))))))"

text \<open>
  The loop of \<^verbatim>\<open>_prepare_safe_tx\<close> over the candidates, with \<^verbatim>\<open>winnings_found\<close> as
  an accumulator: \<^verbatim>\<open>continue\<close> on a candidate that is not a non-dust winning one,
  \<^verbatim>\<open>break\<close> when the number of batches equals \<^verbatim>\<open>redeeming_batch_size\<close>.
\<close>

fun candidates_loop ::
  "imported \<Rightarrow> environment \<Rightarrow> RedeemInfo list \<Rightarrow> bool \<Rightarrow> redeem_state \<Rightarrow> world
    \<Rightarrow> (bool \<times> redeem_state \<times> world) outcome" where
  "candidates_loop lib c [] winnings_found s w = Returned (winnings_found, s, w)"
| "candidates_loop lib c (redeem_candidate # rest) winnings_found s w =
     and_then (process_candidate lib c redeem_candidate s w) (\<lambda>(is_non_dust_winning, s', w').
     if \<not> is_non_dust_winning then candidates_loop lib c rest winnings_found s' w'
     else if int (length (multisend_batches s')) = redeeming_batch_size c
          then Returned (True, s', w')
          else candidates_loop lib c rest True s' w')"

text \<open>
  Modelled from the spec: \<^verbatim>\<open>_build_multisend_data\<close>,
  \<^verbatim>\<open>_build_multisend_safe_tx_hash\<close> and \<^verbatim>\<open>tx_hex\<close> of the base behaviour are not
  among the sources. Section 4.4, step 5: encoding and hashing have the mechanics of
  steps 6 to 8 of the bet placement, applied to the accumulated batch.
\<close>

definition tx_hex :: "imported \<Rightarrow> environment \<Rightarrow> 'a base_state_scheme \<Rightarrow> error + string" where
  "tx_hex lib c s =
     hash_payload_to_hex lib (safe_tx_hash s) ETHER_VALUE (SAFE_GAS lib)
       (multisend_address c) (multisend_data s) (DELEGATE_CALL lib)"

definition multisend_steps :: "imported \<Rightarrow> environment \<Rightarrow> 'a base_state_scheme step list" where
  "multisend_steps lib c =
     [(\<lambda>s. Inr (build_multisend_data_request c s), build_multisend_data lib),
      (\<lambda>s. Inr (build_safe_tx_hash_request lib c s), build_safe_tx_hash lib)]"

definition redeem_prepare_safe_tx ::
  "imported \<Rightarrow> environment \<Rightarrow> redeem_state \<Rightarrow> world
    \<Rightarrow> (string option \<times> redeem_state \<times> world) outcome" where
  "redeem_prepare_safe_tx lib c s w =
     and_then (candidates_loop lib c (redeem_info s) False s w) (\<lambda>(winnings_found, s1, w1).
     if \<not> winnings_found then Returned (None, s1, w1)
     else and_then (for_steps (multisend_steps lib c) s1 w1) (\<lambda>(s2, w2).
          raising (tx_hex lib c s2) (\<lambda>hex. Returned (Some hex, s2, w2))))"

text \<open>
  \<^verbatim>\<open>async_act\<close>. Besides the payload it returns the final state, the status and the
  rest of the trade-history source, and the contract-call boundary.
\<close>

definition redeem_async_act ::
  "imported \<Rightarrow> environment \<Rightarrow> redeem_state \<Rightarrow> fetch_status \<Rightarrow> trades_answer list \<Rightarrow> world
    \<Rightarrow> (payload \<times> redeem_state \<times> world) outcome" where
  "redeem_async_act lib c s fs trades w =
     and_then (get_redeem_info s fs trades) (\<lambda>(s1, fs1, trades1).
     and_then (clean_redeem_info lib c s1 w) (\<lambda>(s2, w2).
     and_then (redeem_prepare_safe_tx lib c s2 w2) (\<lambda>(redeem_tx_hex, s3, w3).
     let tx_submitter = (if redeem_tx_hex \<noteq> None then Some (auto_round_id lib) else None) in
     Returned (MultisigTxPayload [Some (agent_address c), tx_submitter, redeem_tx_hex], s3, w3))))"

section \<open>Notions used in the statements\<close>

text \<open>A handler that reports failure leaves the state as it was.\<close>

definition fail_unchanged :: "(response_msg \<Rightarrow> 's \<Rightarrow> error + bool \<times> 's) \<Rightarrow> bool" where
  "fail_unchanged h = (\<forall>r s s'. h r s = Inr (False, s') \<longrightarrow> s' = s)"

text \<open>The contract methods that the steps of one redeeming action call.\<close>

definition redeem_callables :: "string set" where
  "redeem_callables = {''check_resolved'', ''build_resolve_tx'', ''build_claim_winnings'',
     ''build_redeem_positions_tx''}"

text \<open>The condition under which \<^verbatim>\<open>_process_candidate\<close> goes on to build calls.\<close>

definition non_dust_winning :: "environment \<Rightarrow> RedeemInfo \<Rightarrow> bool" where
  "non_dust_winning c info =
     (outcomeIndex info = current_answer_index (fpmm info) \<and> \<not> claimable_amount info < dust_threshold c)"

text \<open>
  A batch made of redeeming actions only: each is a claim followed by a redeem, with a
  resolve in front when the market had to be resolved.
\<close>

fun redeem_shape :: "environment \<Rightarrow> MultisendBatch list \<Rightarrow> bool" where
  "redeem_shape c [] = True"
| "redeem_shape c [a] = False"
| "redeem_shape c (a # b # rest) =
     ((to a = realitio_address c \<and> to b = conditional_tokens_address c \<and> redeem_shape c rest)
      \<or> (case rest of
            [] \<Rightarrow> False
          | d # rest' \<Rightarrow> to a = realitio_proxy_address c \<and> to b = realitio_address c
              \<and> to d = conditional_tokens_address c \<and> redeem_shape c rest'))"

text \<open>The requests of the two closing steps: encoding the multisend, hashing the safe transaction.\<close>

definition encodes_or_hashes :: "request \<Rightarrow> bool" where
  "encodes_or_hashes rq =
     (contract_callable rq = ''get_tx_data'' \<or> contract_callable rq = ''get_raw_safe_transaction_hash'')"

text \<open>
  The idempotency filter as the specification words it: the candidates whose transaction
  hash has a recorded payout that is strictly positive are excluded, every other
  candidate is retained.
\<close>

definition spec_idempotency_filter :: "(string \<times> int) list \<Rightarrow> RedeemInfo list \<Rightarrow> RedeemInfo list" where
  "spec_idempotency_filter P C =
     filter (\<lambda>info. case map_of P (transactionHash info) of None \<Rightarrow> True | Some v \<Rightarrow> \<not> v > 0) C"

text \<open>Projections of an outcome, for stating what a run returned.\<close>

fun returned :: "'a outcome \<Rightarrow> bool" where
  "returned (Returned x) = True"
| "returned Pending = False"
| "returned (Raised e) = False"

fun candidates_after :: "(redeem_state \<times> world) outcome \<Rightarrow> RedeemInfo list option" where
  "candidates_after (Returned (s, w)) = Some (redeem_info s)"
| "candidates_after Pending = None"
| "candidates_after (Raised e) = None"

fun positional_args :: "payload \<Rightarrow> string option list" where
  "positional_args (MultisigTxPayload args) = args"

text \<open>A response that a step takes for a failure: the wrong kind, or the field is missing.\<close>

definition failed_response :: "performative \<Rightarrow> string \<Rightarrow> response_msg \<Rightarrow> bool" where
  "failed_response expected data_key r = (performative r \<noteq> expected \<or> body r data_key = None)"

fun final_state :: "('p \<times> 's \<times> world) outcome \<Rightarrow> 's option" where
  "final_state (Returned (p, s, w)) = Some s"
| "final_state Pending = None"
| "final_state (Raised e) = None"

fun state_after :: "('s \<times> world) outcome \<Rightarrow> 's option" where
  "state_after (Returned (s, w)) = Some s"
| "state_after Pending = None"
| "state_after (Raised e) = None"

text \<open>
  The responses that one step under the controller consumes: every one but the last is
  taken for a failure, and the last carries the value \<open>v\<close> in the expected field of a
  response of the expected kind.
\<close>

definition answered :: "performative \<Rightarrow> string \<Rightarrow> response_msg list \<Rightarrow> pyval \<Rightarrow> bool" where
  "answered expected data_key consumed v =
     (consumed \<noteq> [] \<and> list_all (failed_response expected data_key) (butlast consumed)
      \<and> performative (last consumed) = expected \<and> body (last consumed) data_key = Some v)"

text \<open>
  The calls of one redeeming action for a candidate, written out: the question whether
  the condition is resolved, the resolve call, the claim call from a block on, the redeem
  call.
\<close>

definition resolved_query :: "environment \<Rightarrow> RedeemInfo \<Rightarrow> request" where
  "resolved_query c cand =
     \<lparr>req_performative = GET_RAW_TRANSACTION, contract_address = conditional_tokens_address c,
      contract_id = ConditionalTokensContract, contract_callable = ''check_resolved'',
      kwargs = [(''condition_id'', ArgBytes (cond_id (condition (fpmm cand))))]\<rparr>"

definition resolve_call :: "environment \<Rightarrow> RedeemInfo \<Rightarrow> request" where
  "resolve_call c cand =
     \<lparr>req_performative = GET_RAW_TRANSACTION, contract_address = realitio_proxy_address c,
      contract_id = RealitioProxyContract, contract_callable = ''build_resolve_tx'',
      kwargs = [(''question_id'', ArgBytes (question_id (question (fpmm cand)))),
                (''template_id'', ArgInt (templateId (fpmm cand))),
                (''question'', ArgStr (question_data (question (fpmm cand)))),
                (''num_outcomes'', ArgInt (outcomeSlotCount (condition (fpmm cand))))]\<rparr>"

definition claim_call :: "environment \<Rightarrow> block_ref \<Rightarrow> RedeemInfo \<Rightarrow> request" where
  "claim_call c block cand =
     \<lparr>req_performative = GET_RAW_TRANSACTION, contract_address = realitio_address c,
      contract_id = RealitioContract, contract_callable = ''build_claim_winnings'',
      kwargs = [(''from_block'', ArgBlock block),
                (''question_id'', ArgBytes (question_id (question (fpmm cand))))]\<rparr>"

definition redeem_call :: "environment \<Rightarrow> RedeemInfo \<Rightarrow> request" where
  "redeem_call c cand =
     \<lparr>req_performative = GET_RAW_TRANSACTION, contract_address = conditional_tokens_address c,
      contract_id = ConditionalTokensContract, contract_callable = ''build_redeem_positions_tx'',
      kwargs = [(''collateral_token'', ArgStr (collateralToken (fpmm cand))),
                (''parent_collection_id'', ArgBytes (replicate 32 0)),
                (''condition_id'', ArgBytes (cond_id (condition (fpmm cand)))),
                (''index_sets'', ArgList (map ArgInt (index_sets (condition (fpmm cand)))))]\<rparr>"

text \<open>
  An error response is one that no step accepts: its kind is neither of the two kinds
  that the steps expect. What a run shows, apart from the requests it sent and the error
  responses it left: its result and the other responses left.
\<close>

definition error_response :: "response_msg \<Rightarrow> bool" where
  "error_response r = (performative r \<noteq> RAW_TRANSACTION \<and> performative r \<noteq> STATE)"

definition answers :: "response_msg list \<Rightarrow> response_msg list" where
  "answers rs = filter (\<lambda>r. \<not> error_response r) rs"

fun shown :: "('a \<times> world) outcome \<Rightarrow> ('a \<times> response_msg list) outcome" where
  "shown (Returned (x, w)) = Returned (x, answers (pending w))"
| "shown Pending = Pending"
| "shown (Raised e) = Raised e"

fun shown_run :: "('p \<times> 's \<times> world) outcome \<Rightarrow> ('p \<times> 's \<times> response_msg list) outcome" where
  "shown_run (Returned (p, s, w)) = Returned (p, s, answers (pending w))"
| "shown_run Pending = Pending"
| "shown_run (Raised e) = Raised e"

section \<open>Concrete data for the examples\<close>

text \<open>
  A choice of the imported names, for evaluating the behaviours on examples. The
  constants are those of the imported packages (gas 0, hashes of 66 characters,
  delegate call 1). \<^verbatim>\<open>int\<close> of a string reads decimal digits after an optional
  sign, \<^verbatim>\<open>bytes.fromhex\<close> reads pairs of hexadecimal digits, \<^verbatim>\<open>HexBytes\<close> of a
  string reads it likewise after an optional \<^verbatim>\<open>0x\<close>, and the payload hex joins the
  hash, the value and the gas on 32 bytes each, the target, the operation on one byte and
  the data, as the specification lists them (section 6). Texts with blanks or
  underscores, and \<^verbatim>\<open>HexBytes\<close> of a value that is not a string, are left out: the
  examples have none.
\<close>

fun digits_value :: "int \<Rightarrow> string \<Rightarrow> int option" where
  "digits_value acc [] = Some acc"
| "digits_value acc (ch # rest) =
     (let n = (of_char ch :: nat) in
      if 48 \<le> n \<and> n \<le> 57 then digits_value (10 * acc + int (n - 48)) rest else None)"

definition signed_value :: "string \<Rightarrow> int option" where
  "signed_value s =
     (case s of
        [] \<Rightarrow> None
      | ch # rest \<Rightarrow>
          if ch = CHR ''-'' then (if rest = [] then None else map_option uminus (digits_value 0 rest))
          else if ch = CHR ''+'' then (if rest = [] then None else digits_value 0 rest)
          else digits_value 0 s)"

fun example_py_int :: "pyval \<Rightarrow> error + int" where
  "example_py_int (PyInt i) = Inr i"
| "example_py_int (PyBool b) = Inr (if b then 1 else 0)"
| "example_py_int (PyStr s) = (case signed_value s of None \<Rightarrow> Inl ValueError | Some i \<Rightarrow> Inr i)"
| "example_py_int (PyDict d) = Inl TypeError"

definition hex_char :: "nat \<Rightarrow> char" where
  "hex_char n = ''0123456789abcdef'' ! (n mod 16)"

fun to_hex :: "nat \<Rightarrow> nat \<Rightarrow> string" where
  "to_hex 0 n = []"
| "to_hex (Suc k) n = to_hex k (n div 16) @ [hex_char n]"

fun hex_digit :: "char \<Rightarrow> nat option" where
  "hex_digit ch =
     (let n = (of_char ch :: nat) in
      if 48 \<le> n \<and> n \<le> 57 then Some (n - 48)
      else if 97 \<le> n \<and> n \<le> 102 then Some (n - 87)
      else if 65 \<le> n \<and> n \<le> 70 then Some (n - 55)
      else None)"

fun unhex :: "string \<Rightarrow> bytes option" where
  "unhex [] = Some []"
| "unhex [a] = None"
| "unhex (a # b # rest) =
     (case (hex_digit a, hex_digit b, unhex rest) of
        (Some x, Some y, Some bs) \<Rightarrow> Some (of_nat (16 * x + y) # bs)
      | _ \<Rightarrow> None)"

definition example_bytes_fromhex :: "string \<Rightarrow> error + bytes" where
  "example_bytes_fromhex s = (case unhex s of None \<Rightarrow> Inl ValueError | Some bs \<Rightarrow> Inr bs)"

fun example_HexBytes :: "pyval \<Rightarrow> error + bytes" where
  "example_HexBytes (PyStr s) =
     (let h = (if take 2 s = ''0x'' \<or> take 2 s = ''0X'' then drop 2 s else s);
          h' = (if odd (length h) then CHR ''0'' # h else h)
      in example_bytes_fromhex h')"
| "example_HexBytes (PyInt i) = Inl TypeError"
| "example_HexBytes (PyBool b) = Inl TypeError"
| "example_HexBytes (PyDict d) = Inl TypeError"

fun decimal :: "nat \<Rightarrow> nat \<Rightarrow> string" where
  "decimal 0 n = []"
| "decimal (Suc k) n = (if n < 10 then [char_of (48 + n)] else decimal k (n div 10) @ [char_of (48 + n mod 10)])"

definition int_text :: "int \<Rightarrow> string" where
  "int_text i = (if i < 0 then CHR ''-'' # decimal (Suc (nat (- i))) (nat (- i))
                 else decimal (Suc (nat i)) (nat i))"

fun items_text :: "(string \<times> int) list \<Rightarrow> string" where
  "items_text [] = []"
| "items_text [(k, v)] = [CHR 0x27] @ k @ [CHR 0x27] @ '': '' @ int_text v"
| "items_text ((k, v) # rest) = [CHR 0x27] @ k @ [CHR 0x27] @ '': '' @ int_text v @ '', '' @ items_text rest"

fun example_py_str :: "pyval \<Rightarrow> string" where
  "example_py_str (PyStr s) = s"
| "example_py_str (PyInt i) = int_text i"
| "example_py_str (PyBool b) = (if b then ''True'' else ''False'')"
| "example_py_str (PyDict d) = ''{'' @ items_text d @ ''}''"

definition example_hash_payload_to_hex ::
  "string \<Rightarrow> int \<Rightarrow> int \<Rightarrow> string \<Rightarrow> bytes \<Rightarrow> int \<Rightarrow> error + string" where
  "example_hash_payload_to_hex h v g t d op =
     (if length h \<noteq> 64 \<or> length t \<noteq> 42 \<or> v < 0 \<or> g < 0 \<or> op < 0 then Inl ValueError
      else Inr (h @ to_hex 64 (nat v) @ to_hex 64 (nat g) @ t @ to_hex 2 (nat op)
                @ concat (map (\<lambda>b. to_hex 2 (unat b)) d)))"

fun ascii_lower :: "string \<Rightarrow> string" where
  "ascii_lower [] = []"
| "ascii_lower (ch # rest) =
     (let n = (of_char ch :: nat) in
      (if 65 \<le> n \<and> n \<le> 90 then char_of (n + 32) else ch) # ascii_lower rest)"

definition example_lib :: imported where
  "example_lib = \<lparr>SAFE_GAS = 0, TX_HASH_LENGTH = 66, DELEGATE_CALL = 1,
     py_int = example_py_int, py_str = example_py_str, HexBytes = example_HexBytes,
     bytes_fromhex = example_bytes_fromhex, py_lower = ascii_lower,
     hash_payload_to_hex = example_hash_payload_to_hex,
     auto_round_id = ''redeem_round''\<rparr>"

definition example_multisend :: string where
  "example_multisend = ''0xA238CBeb142c10Ef7Ad8442C6D1f9E89e07e7761''"

definition example_tx_hash :: string where
  "example_tx_hash = ''0x'' @ replicate 64 (CHR ''a'')"

definition example_env :: environment where
  "example_env = \<lparr>agent_address = ''agent'', safe_contract_address = ''0xSafe'',
     sampled_bet_collateralToken = ''0xToken'', sampled_bet_id = ''0xMarket'',
     investment_amount = 150, vote = 1, multisend_address = example_multisend,
     conditional_tokens_address = ''0xCT'', realitio_proxy_address = ''0xProxy'',
     realitio_address = ''0xRealitio'', dust_threshold = 10, redeeming_batch_size = 4\<rparr>"

definition reply :: "performative \<Rightarrow> string \<Rightarrow> pyval \<Rightarrow> response_msg" where
  "reply p k v = \<lparr>performative = p, body = [k \<mapsto> v]\<rparr>"

definition example_fpmm :: "int \<Rightarrow> FPMM" where
  "example_fpmm answer = \<lparr>collateralToken = ''0xToken'',
     condition = \<lparr>cond_id = [1], index_sets = [1, 2], outcomeSlotCount = 2\<rparr>,
     question = \<lparr>question_id = [2], question_data = ''q''\<rparr>,
     templateId = 2, creationTimestamp = 1000, current_answer_index = answer\<rparr>"

definition example_trade :: "string \<Rightarrow> int \<Rightarrow> int \<Rightarrow> int \<Rightarrow> RedeemInfo" where
  "example_trade tx outcome answer amount =
     \<lparr>fpmm = example_fpmm answer, outcomeIndex = outcome, transactionHash = tx,
      claimable_amount = amount\<rparr>"

definition no_world :: world where
  "no_world = \<lparr>sent = [], pending = []\<rparr>"

definition example_payouts :: "(string \<times> int) list" where
  "example_payouts = [(''0xaa'', 5), (''0xbb'', 0)]"

definition example_candidates :: "RedeemInfo list" where
  "example_candidates = [example_trade ''0xaa'' 1 1 50, example_trade ''0xbb'' 1 1 60,
     example_trade ''0xcc'' 1 1 70]"

definition example_clean_run :: "(redeem_state \<times> world) outcome" where
  "example_clean_run =
     clean_redeem_info example_lib example_env (redeem_init\<lparr>redeem_info := example_candidates\<rparr>)
       \<lparr>sent = [], pending = [reply RAW_TRANSACTION ''payouts'' (PyDict example_payouts)]\<rparr>"

text \<open>The responses to one redeeming action on a market that is not resolved yet.\<close>

definition example_redeem_replies :: "response_msg list" where
  "example_redeem_replies =
     [reply RAW_TRANSACTION ''resolved'' (PyBool False),
      reply RAW_TRANSACTION ''data'' (PyStr ''0x01''),
      reply RAW_TRANSACTION ''data'' (PyStr ''0x02''),
      reply RAW_TRANSACTION ''data'' (PyStr ''0x03'')]"

text \<open>A bet placement with a sufficient balance, whose first balance check fails.\<close>

definition example_bet_replies :: "response_msg list" where
  "example_bet_replies =
     [reply ERROR ''balance'' (PyInt 100),
      reply RAW_TRANSACTION ''balance'' (PyInt 200),
      reply STATE ''data'' (PyStr ''0xaa''),
      reply RAW_TRANSACTION ''amount'' (PyInt 7),
      reply STATE ''data'' (PyStr ''0xbb''),
      reply RAW_TRANSACTION ''data'' (PyStr ''0xcc''),
      reply STATE ''tx_hash'' (PyStr example_tx_hash)]"

definition example_bet_run :: "(payload \<times> bet_state \<times> world) outcome" where
  "example_bet_run =
     bet_async_act example_lib example_env bet_init \<lparr>sent = [], pending = example_bet_replies\<rparr>"

definition example_poor_run :: "(payload \<times> bet_state \<times> world) outcome" where
  "example_poor_run =
     bet_async_act example_lib example_env bet_init
       \<lparr>sent = [], pending = [reply RAW_TRANSACTION ''balance'' (PyInt 100)]\<rparr>"

text \<open>
  A redemption: two trades found, both winning and above the dust threshold, on markets
  that are not resolved yet, nothing paid out so far.
\<close>

definition example_winners :: "RedeemInfo list" where
  "example_winners = [example_trade ''0xcc'' 1 1 70, example_trade ''0xee'' 1 1 80]"

definition example_redeem_world :: world where
  "example_redeem_world = \<lparr>sent = [], pending =
     [reply RAW_TRANSACTION ''payouts'' (PyDict [])]
     @ example_redeem_replies @ example_redeem_replies
     @ [reply RAW_TRANSACTION ''data'' (PyStr ''0xcc''),
        reply STATE ''tx_hash'' (PyStr example_tx_hash)]\<rparr>"

definition example_redeem_run :: "(payload \<times> redeem_state \<times> world) outcome" where
  "example_redeem_run =
     redeem_async_act example_lib example_env redeem_init IN_PROGRESS
       [Page (Some example_winners) SUCCESS, NoMore] example_redeem_world"

text \<open>The same trades, found on two pages with an empty answer in between.\<close>

definition example_redeem_run_paged :: "(payload \<times> redeem_state \<times> world) outcome" where
  "example_redeem_run_paged =
     redeem_async_act example_lib example_env redeem_init IN_PROGRESS
       [Page (Some [example_trade ''0xcc'' 1 1 70]) IN_PROGRESS, Page None IN_PROGRESS,
        Page (Some [example_trade ''0xee'' 1 1 80]) SUCCESS, NoMore] example_redeem_world"

text \<open>A redemption whose discovery fails after a first page, and one with a losing trade only.\<close>

definition example_failed_discovery :: "trades_answer list" where
  "example_failed_discovery = [Page (Some example_winners) IN_PROGRESS, Page None FAIL, NoMore]"

definition example_nothing_world :: world where
  "example_nothing_world = \<lparr>sent = [], pending = [reply RAW_TRANSACTION ''payouts'' (PyDict [])]\<rparr>"

definition example_losing_run :: "(payload \<times> redeem_state \<times> world) outcome" where
  "example_losing_run =
     redeem_async_act example_lib example_env redeem_init IN_PROGRESS
       [Page (Some [example_trade ''0xdd'' 0 1 50]) SUCCESS, NoMore] example_nothing_world"

text \<open>The preparation of the bet once the balance is known, and one redeeming action.\<close>

definition example_prepare_run :: "(string \<times> bet_state \<times> world) outcome" where
  "example_prepare_run =
     bet_prepare_safe_tx example_lib example_env (bet_init\<lparr>balance := 200\<rparr>)
       \<lparr>sent = [], pending = drop 2 example_bet_replies\<rparr>"

definition example_single_redeem :: "(redeem_state \<times> world) outcome" where
  "example_single_redeem =
     prepare_single_redeem example_lib example_env
       (redeem_init\<lparr>current_redeem_info_attr := Some (example_trade ''0xcc'' 1 1 70)\<rparr>)
       \<lparr>sent = [], pending = example_redeem_replies\<rparr>"

text \<open>A response of the wrong kind, and the state of a redemption that has a current candidate.\<close>

definition example_bad_reply :: response_msg where
  "example_bad_reply = reply ERROR ''message'' (PyStr ''boom'')"

definition example_current :: redeem_state where
  "example_current = redeem_init\<lparr>current_redeem_info_attr := Some (example_trade ''0xcc'' 1 1 70)\<rparr>"

section \<open>The controller and the steps\<close>

lemma and_then_Returned:
  "and_then m f = Returned y \<longleftrightarrow> (\<exists>x. m = Returned x \<and> f x = Returned y)"
  by (cases m) (simp_all add: and_then_def)

lemma returned_iff: "returned m \<longleftrightarrow> (\<exists>x. m = Returned x)"
  by (cases m) simp_all

lemma raising_Returned:
  "raising m f = Returned y \<longleftrightarrow> (\<exists>x. m = Inr x \<and> f x = Returned y)"
  by (cases m) (simp_all add: raising_def)

lemma wait_loop_Returned:
  assumes fu: "fail_unchanged h"
  shows "wait_loop (rqf, h) s log rs = Returned (s', w') \<Longrightarrow>
    \<exists>rq fails r. rqf s = Inr rq \<and> h r s = Inr (True, s') \<and> rs = fails @ r # pending w'
      \<and> sent w' = log @ replicate (Suc (length fails)) rq
      \<and> (\<forall>f\<in>set fails. h f s = Inr (False, s))"
proof (induction rs arbitrary: log)
  case Nil
  then show ?case by (simp add: raising_def split: sum.splits)
next
  case (Cons r rs)
  from Cons.prems obtain rq ok s1 where rq: "rqf s = Inr rq" and h: "h r s = Inr (ok, s1)"
    and rest: "(if ok then Returned (s1, \<lparr>sent = log @ [rq], pending = rs\<rparr>)
               else wait_loop (rqf, h) s1 (log @ [rq]) rs) = Returned (s', w')"
    by (auto simp: raising_Returned)
  show ?case
  proof (cases ok)
    case True
    with rest h rq show ?thesis
      by (intro exI[of _ rq] exI[of _ "[]"] exI[of _ r]) auto
  next
    case False
    with h fu have s1: "s1 = s" by (auto simp: fail_unchanged_def)
    from False rest s1 have "wait_loop (rqf, h) s (log @ [rq]) rs = Returned (s', w')" by simp
    from Cons.IH[OF this] obtain rq' fails r' where
      a: "rqf s = Inr rq'" "h r' s = Inr (True, s')" "rs = fails @ r' # pending w'"
         "sent w' = (log @ [rq]) @ replicate (Suc (length fails)) rq'"
         "\<forall>f\<in>set fails. h f s = Inr (False, s)"
      by blast
    from a(1) rq have "rq' = rq" by simp
    with a h False s1 show ?thesis
      by (intro exI[of _ rq] exI[of _ "r # fails"] exI[of _ r']) (auto simp: replicate_append_same)
  qed
qed

lemma wait_Returned:
  assumes "wait_for_condition_with_sleep (rqf, h) s w = Returned (s', w')" and "fail_unchanged h"
  shows "\<exists>rq fails r. rqf s = Inr rq \<and> h r s = Inr (True, s') \<and> pending w = fails @ r # pending w'
      \<and> sent w' = sent w @ replicate (Suc (length fails)) rq
      \<and> (\<forall>f\<in>set fails. h f s = Inr (False, s))"
  using wait_loop_Returned[OF assms(2), of rqf s "sent w" "pending w" s' w'] assms(1)
  by (simp add: wait_for_condition_with_sleep_def)

lemma for_steps_Cons_Returned:
  "for_steps (st # sts) s w = Returned (s', w') \<longleftrightarrow>
     (\<exists>s1 w1. wait_for_condition_with_sleep st s w = Returned (s1, w1) \<and> for_steps sts s1 w1 = Returned (s', w'))"
  by (auto simp: and_then_Returned)

lemma for_steps_Nil_Returned:
  "for_steps [] s w = Returned (s', w') \<longleftrightarrow> s' = s \<and> w' = w"
  by auto

lemma check_balance_fail: "fail_unchanged (check_balance lib)"
  by (auto simp: fail_unchanged_def check_balance_def split: if_splits option.splits sum.splits)

lemma check_balance_True:
  "check_balance lib r s = Inr (True, s') \<Longrightarrow> \<exists>i. s' = s\<lparr>balance := i\<rparr>"
  by (auto simp: check_balance_def split: if_splits option.splits sum.splits)

lemma build_approval_tx_fail: "fail_unchanged (build_approval_tx lib c)"
  by (auto simp: fail_unchanged_def build_approval_tx_def split: if_splits option.splits sum.splits)

lemma build_approval_tx_True:
  "build_approval_tx lib c r s = Inr (True, s') \<Longrightarrow>
     \<exists>d. s' = s\<lparr>multisend_batches := multisend_batches s @ [MultisendBatch (collateral_token c) d]\<rparr>"
  by (auto simp: build_approval_tx_def split: if_splits option.splits sum.splits)

lemma calc_buy_amount_fail: "fail_unchanged (calc_buy_amount lib)"
  by (auto simp: fail_unchanged_def calc_buy_amount_def split: if_splits option.splits sum.splits)

lemma calc_buy_amount_True:
  "calc_buy_amount lib r s = Inr (True, s') \<Longrightarrow> \<exists>i. s' = s\<lparr>buy_amount := i\<rparr>"
  by (auto simp: calc_buy_amount_def split: if_splits option.splits sum.splits)

lemma build_buy_tx_fail: "fail_unchanged (build_buy_tx lib c)"
  by (auto simp: fail_unchanged_def build_buy_tx_def split: if_splits option.splits sum.splits)

lemma build_buy_tx_True:
  "build_buy_tx lib c r s = Inr (True, s') \<Longrightarrow>
     \<exists>d. s' = s\<lparr>multisend_batches := multisend_batches s @ [MultisendBatch (market_maker_contract_address c) d]\<rparr>"
  by (auto simp: build_buy_tx_def split: if_splits option.splits sum.splits)

lemma build_multisend_data_fail: "fail_unchanged (build_multisend_data lib)"
  by (auto simp: fail_unchanged_def build_multisend_data_def split: if_splits option.splits sum.splits)

lemma build_multisend_data_True:
  "build_multisend_data lib r s = Inr (True, s') \<Longrightarrow>
     \<exists>d. performative r = RAW_TRANSACTION \<and> body r ''data'' = Some d
        \<and> bytes_fromhex lib (drop 2 (py_str lib d)) = Inr (multisend_data s')
        \<and> s' = s\<lparr>multisend_data := multisend_data s'\<rparr>"
  by (auto simp: build_multisend_data_def split: if_splits option.splits sum.splits)

lemma build_safe_tx_hash_fail: "fail_unchanged (build_safe_tx_hash lib)"
  by (auto simp: fail_unchanged_def build_safe_tx_hash_def split: if_splits option.splits sum.splits)

lemma py_slice_from_2_Inr: "py_slice_from_2 v = Inr h \<longleftrightarrow> (\<exists>t. v = PyStr t \<and> h = drop 2 t)"
  by (cases v) auto

lemma build_safe_tx_hash_True:
  "build_safe_tx_hash lib r s = Inr (True, s') \<Longrightarrow>
     \<exists>tx_hash. performative r = STATE \<and> body r ''tx_hash'' = Some (PyStr tx_hash)
        \<and> length tx_hash = TX_HASH_LENGTH lib
        \<and> s' = s\<lparr>safe_tx_hash := drop 2 tx_hash\<rparr>"
  by (auto simp: build_safe_tx_hash_def py_slice_from_2_Inr split: if_splits option.splits sum.splits)


lemma multisend_steps_Returned:
  assumes "for_steps (multisend_steps lib c) s w = Returned (s', w')"
  shows "\<exists>n4 n5 r4 r5 d tx_hash.
      s' = s\<lparr>multisend_data := multisend_data s', safe_tx_hash := drop 2 tx_hash\<rparr>
    \<and> sent w' = sent w @ replicate (Suc n4) (build_multisend_data_request c s)
                 @ replicate (Suc n5) (build_safe_tx_hash_request lib c s')
    \<and> r4 \<in> set (pending w) \<and> performative r4 = RAW_TRANSACTION \<and> body r4 ''data'' = Some d
    \<and> bytes_fromhex lib (drop 2 (py_str lib d)) = Inr (multisend_data s')
    \<and> r5 \<in> set (pending w) \<and> performative r5 = STATE \<and> body r5 ''tx_hash'' = Some (PyStr tx_hash)
    \<and> length tx_hash = TX_HASH_LENGTH lib"
proof -
  from assms obtain s4 w4 where
    a: "wait_for_condition_with_sleep (\<lambda>s. Inr (build_multisend_data_request c s), build_multisend_data lib) s w = Returned (s4, w4)"
    and b: "wait_for_condition_with_sleep (\<lambda>s. Inr (build_safe_tx_hash_request lib c s), build_safe_tx_hash lib) s4 w4 = Returned (s', w')"
    by (auto simp: multisend_steps_def for_steps_Cons_Returned for_steps_Nil_Returned simp del: for_steps.simps)
  from wait_Returned[OF a build_multisend_data_fail] obtain f4 r4 where
    a1: "build_multisend_data lib r4 s = Inr (True, s4)" and a2: "pending w = f4 @ r4 # pending w4"
    and a3: "sent w4 = sent w @ replicate (Suc (length f4)) (build_multisend_data_request c s)"
    by (auto simp del: replicate.simps)
  from wait_Returned[OF b build_safe_tx_hash_fail] obtain f5 r5 where
    b1: "build_safe_tx_hash lib r5 s4 = Inr (True, s')" and b2: "pending w4 = f5 @ r5 # pending w'"
    and b3: "sent w' = sent w4 @ replicate (Suc (length f5)) (build_safe_tx_hash_request lib c s4)"
    by (auto simp del: replicate.simps)
  from build_multisend_data_True[OF a1] obtain d where
    d: "performative r4 = RAW_TRANSACTION" "body r4 ''data'' = Some d"
       "bytes_fromhex lib (drop 2 (py_str lib d)) = Inr (multisend_data s4)"
       "s4 = s\<lparr>multisend_data := multisend_data s4\<rparr>" by blast
  from build_safe_tx_hash_True[OF b1] obtain tx_hash where
    h: "performative r5 = STATE" "body r5 ''tx_hash'' = Some (PyStr tx_hash)"
       "length tx_hash = TX_HASH_LENGTH lib" "s' = s4\<lparr>safe_tx_hash := drop 2 tx_hash\<rparr>" by blast
  have md: "multisend_data s' = multisend_data s4" by (subst h(4)) simp
  have rq: "build_safe_tx_hash_request lib c s4 = build_safe_tx_hash_request lib c s'"
    by (simp add: build_safe_tx_hash_request_def md)
  have s': "s' = s\<lparr>multisend_data := multisend_data s', safe_tx_hash := drop 2 tx_hash\<rparr>"
    using d(4) h(4) md by (metis)
  have r4: "r4 \<in> set (pending w)" using a2 by simp
  have r5: "r5 \<in> set (pending w)" using a2 b2 by simp
  show ?thesis
    using s' a3 b3 rq d h md r4 r5
    by (intro exI[of _ "length f4"] exI[of _ "length f5"] exI[of _ r4] exI[of _ r5] exI[of _ d] exI[of _ tx_hash])
       (simp only: append_assoc simp_thms)
qed

lemma for_steps_append:
  "for_steps (xs @ ys) s w = and_then (for_steps xs s w) (\<lambda>(s', w'). for_steps ys s' w')"
proof (induction xs arbitrary: s w)
  case Nil
  show ?case by (simp add: and_then_def)
next
  case (Cons st xs)
  show ?case
    by (cases "wait_for_condition_with_sleep st s w") (auto simp: and_then_def Cons.IH)
qed

lemma bet_steps_split:
  "bet_steps lib c =
     [(\<lambda>s. Inr (build_approval_tx_request c), build_approval_tx lib c),
      (\<lambda>s. Inr (calc_buy_amount_request c), calc_buy_amount lib),
      (\<lambda>s. Inr (build_buy_tx_request c s), build_buy_tx lib c)] @ multisend_steps lib c"
  by (simp add: bet_steps_def multisend_steps_def)

lemma bet_build_steps_Returned:
  assumes "for_steps
     [(\<lambda>s. Inr (build_approval_tx_request c), build_approval_tx lib c),
      (\<lambda>s. Inr (calc_buy_amount_request c), calc_buy_amount lib),
      (\<lambda>s. Inr (build_buy_tx_request c s), build_buy_tx lib c)] s w = Returned (s', w')"
  shows "\<exists>n1 n2 n3 d1 d2.
      s' = s\<lparr>multisend_batches := multisend_batches s @
               [MultisendBatch (collateral_token c) d1,
                MultisendBatch (market_maker_contract_address c) d2],
             buy_amount := buy_amount s'\<rparr>
    \<and> sent w' = sent w @ replicate (Suc n1) (build_approval_tx_request c)
                 @ replicate (Suc n2) (calc_buy_amount_request c)
                 @ replicate (Suc n3) (build_buy_tx_request c s')
    \<and> set (pending w') \<subseteq> set (pending w)"
proof -
  from assms obtain s1 w1 s2 w2 where
    a: "wait_for_condition_with_sleep (\<lambda>s. Inr (build_approval_tx_request c), build_approval_tx lib c) s w = Returned (s1, w1)"
    and b: "wait_for_condition_with_sleep (\<lambda>s. Inr (calc_buy_amount_request c), calc_buy_amount lib) s1 w1 = Returned (s2, w2)"
    and e: "wait_for_condition_with_sleep (\<lambda>s. Inr (build_buy_tx_request c s), build_buy_tx lib c) s2 w2 = Returned (s', w')"
    by (auto simp: for_steps_Cons_Returned for_steps_Nil_Returned simp del: for_steps.simps)
  from wait_Returned[OF a build_approval_tx_fail] obtain f1 r1 where
    a1: "build_approval_tx lib c r1 s = Inr (True, s1)" and a2: "pending w = f1 @ r1 # pending w1"
    and a3: "sent w1 = sent w @ replicate (Suc (length f1)) (build_approval_tx_request c)"
    by (auto simp del: replicate.simps)
  from wait_Returned[OF b calc_buy_amount_fail] obtain f2 r2 where
    b1: "calc_buy_amount lib r2 s1 = Inr (True, s2)" and b2: "pending w1 = f2 @ r2 # pending w2"
    and b3: "sent w2 = sent w1 @ replicate (Suc (length f2)) (calc_buy_amount_request c)"
    by (auto simp del: replicate.simps)
  from wait_Returned[OF e build_buy_tx_fail] obtain f3 r3 where
    e1: "build_buy_tx lib c r3 s2 = Inr (True, s')" and e2: "pending w2 = f3 @ r3 # pending w'"
    and e3: "sent w' = sent w2 @ replicate (Suc (length f3)) (build_buy_tx_request c s2)"
    by (auto simp del: replicate.simps)
  from build_approval_tx_True[OF a1] obtain d1 where
    s1: "s1 = s\<lparr>multisend_batches := multisend_batches s @ [MultisendBatch (collateral_token c) d1]\<rparr>"
    by blast
  from calc_buy_amount_True[OF b1] obtain i where s2: "s2 = s1\<lparr>buy_amount := i\<rparr>" by blast
  from build_buy_tx_True[OF e1] obtain d2 where
    s3: "s' = s2\<lparr>multisend_batches := multisend_batches s2 @ [MultisendBatch (market_maker_contract_address c) d2]\<rparr>"
    by blast
  have ba: "buy_amount s' = buy_amount s2" by (subst s3) simp
  have rq: "build_buy_tx_request c s2 = build_buy_tx_request c s'"
    by (simp add: build_buy_tx_request_def ba)
  have st: "s' = s\<lparr>multisend_batches := multisend_batches s @
               [MultisendBatch (collateral_token c) d1,
                MultisendBatch (market_maker_contract_address c) d2],
             buy_amount := buy_amount s'\<rparr>"
    by (simp add: s3 s2 s1)
  have sub: "set (pending w') \<subseteq> set (pending w)"
    using a2 b2 e2 by auto
  show ?thesis
    using st a3 b3 e3 rq sub
    by (intro exI[of _ "length f1"] exI[of _ "length f2"] exI[of _ "length f3"] exI[of _ d1] exI[of _ d2])
       (simp only: append_assoc simp_thms)
qed

lemma bet_prepare_safe_tx_Returned:
  assumes "bet_prepare_safe_tx lib c s w = Returned (hex, s', w')"
  shows "\<exists>n1 n2 n3 n4 n5 d1 d2 r4 r5 d tx_hash.
      s' = s\<lparr>multisend_batches := multisend_batches s @
               [MultisendBatch (collateral_token c) d1,
                MultisendBatch (market_maker_contract_address c) d2],
             multisend_data := multisend_data s', safe_tx_hash := drop 2 tx_hash,
             buy_amount := buy_amount s'\<rparr>
    \<and> sent w' = sent w @ replicate (Suc n1) (build_approval_tx_request c)
                 @ replicate (Suc n2) (calc_buy_amount_request c)
                 @ replicate (Suc n3) (build_buy_tx_request c s')
                 @ replicate (Suc n4) (build_multisend_data_request c s')
                 @ replicate (Suc n5) (build_safe_tx_hash_request lib c s')
    \<and> r4 \<in> set (pending w) \<and> performative r4 = RAW_TRANSACTION \<and> body r4 ''data'' = Some d
    \<and> bytes_fromhex lib (drop 2 (py_str lib d)) = Inr (multisend_data s')
    \<and> r5 \<in> set (pending w) \<and> performative r5 = STATE \<and> body r5 ''tx_hash'' = Some (PyStr tx_hash)
    \<and> length tx_hash = TX_HASH_LENGTH lib
    \<and> hash_payload_to_hex lib (drop 2 tx_hash) ETHER_VALUE (SAFE_GAS lib) (multisend_address c)
         (multisend_data s') (DELEGATE_CALL lib) = Inr hex"
proof -
  from assms obtain s3 w3 where
    a: "for_steps [(\<lambda>s. Inr (build_approval_tx_request c), build_approval_tx lib c),
      (\<lambda>s. Inr (calc_buy_amount_request c), calc_buy_amount lib),
      (\<lambda>s. Inr (build_buy_tx_request c s), build_buy_tx lib c)] s w = Returned (s3, w3)"
    and b: "for_steps (multisend_steps lib c) s3 w3 = Returned (s', w')"
    and h: "hash_payload_to_hex lib (safe_tx_hash s') ETHER_VALUE (SAFE_GAS lib) (multisend_address c)
         (multisend_data s') (DELEGATE_CALL lib) = Inr hex"
    unfolding bet_prepare_safe_tx_def bet_steps_split for_steps_append
    by (auto simp: and_then_Returned raising_Returned)
  from bet_build_steps_Returned[OF a] obtain n1 n2 n3 d1 d2 where
    s3: "s3 = s\<lparr>multisend_batches := multisend_batches s @
               [MultisendBatch (collateral_token c) d1,
                MultisendBatch (market_maker_contract_address c) d2],
             buy_amount := buy_amount s3\<rparr>"
    and l3: "sent w3 = sent w @ replicate (Suc n1) (build_approval_tx_request c)
                 @ replicate (Suc n2) (calc_buy_amount_request c)
                 @ replicate (Suc n3) (build_buy_tx_request c s3)"
    and sub: "set (pending w3) \<subseteq> set (pending w)"
    by blast
  from multisend_steps_Returned[OF b] obtain n4 n5 r4 r5 d tx_hash where
    s5: "s' = s3\<lparr>multisend_data := multisend_data s', safe_tx_hash := drop 2 tx_hash\<rparr>"
    and l5: "sent w' = sent w3 @ replicate (Suc n4) (build_multisend_data_request c s3)
                 @ replicate (Suc n5) (build_safe_tx_hash_request lib c s')"
    and r: "r4 \<in> set (pending w3)" "performative r4 = RAW_TRANSACTION" "body r4 ''data'' = Some d"
      "bytes_fromhex lib (drop 2 (py_str lib d)) = Inr (multisend_data s')"
      "r5 \<in> set (pending w3)" "performative r5 = STATE" "body r5 ''tx_hash'' = Some (PyStr tx_hash)"
      "length tx_hash = TX_HASH_LENGTH lib"
    by blast
  have ba: "buy_amount s' = buy_amount s3" and mb: "multisend_batches s' = multisend_batches s3"
    and sh: "safe_tx_hash s' = drop 2 tx_hash"
    by (subst s5, simp)+
  have rq3: "build_buy_tx_request c s3 = build_buy_tx_request c s'"
    by (simp add: build_buy_tx_request_def ba)
  have rq4: "build_multisend_data_request c s3 = build_multisend_data_request c s'"
    by (simp add: build_multisend_data_request_def multi_send_txs_def mb)
  have st: "s' = s\<lparr>multisend_batches := multisend_batches s @
               [MultisendBatch (collateral_token c) d1,
                MultisendBatch (market_maker_contract_address c) d2],
             multisend_data := multisend_data s', safe_tx_hash := drop 2 tx_hash,
             buy_amount := buy_amount s'\<rparr>"
    by (subst s5, subst s3, simp add: ba)
  have lg: "sent w' = sent w @ replicate (Suc n1) (build_approval_tx_request c)
                 @ replicate (Suc n2) (calc_buy_amount_request c)
                 @ replicate (Suc n3) (build_buy_tx_request c s')
                 @ replicate (Suc n4) (build_multisend_data_request c s')
                 @ replicate (Suc n5) (build_safe_tx_hash_request lib c s')"
    by (simp only: l5 l3 rq3 rq4 append_assoc)
  have r4: "r4 \<in> set (pending w)" and r5: "r5 \<in> set (pending w)"
    using r(1,5) sub by auto
  have hh: "hash_payload_to_hex lib (drop 2 tx_hash) ETHER_VALUE (SAFE_GAS lib) (multisend_address c)
         (multisend_data s') (DELEGATE_CALL lib) = Inr hex"
    using h sh by simp
  show ?thesis
    using st lg r4 r5 r(2,3,4,6,7,8) hh
    by (intro exI[of _ n1] exI[of _ n2] exI[of _ n3] exI[of _ n4] exI[of _ n5] exI[of _ d1]
          exI[of _ d2] exI[of _ r4] exI[of _ r5] exI[of _ d] exI[of _ tx_hash])
       (simp only: simp_thms)
qed

lemma wait_sent:
  assumes "wait_for_condition_with_sleep (rqf, h) s w = Returned (s', w')" and "fail_unchanged h"
  shows "\<exists>rq n r. rqf s = Inr rq \<and> sent w' = sent w @ replicate (Suc n) rq
      \<and> r \<in> set (pending w) \<and> h r s = Inr (True, s') \<and> set (pending w') \<subseteq> set (pending w)"
proof -
  from wait_Returned[OF assms] obtain rq fails r where
    a: "rqf s = Inr rq" "h r s = Inr (True, s')" "pending w = fails @ r # pending w'"
       "sent w' = sent w @ replicate (Suc (length fails)) rq" by blast
  have "r \<in> set (pending w)" "set (pending w') \<subseteq> set (pending w)" using a(3) by auto
  with a show ?thesis by blast
qed

lemma contract_interact_fail:
  "fail_unchanged (contract_interact k setter)"
  by (auto simp: fail_unchanged_def contract_interact_def split: if_splits option.splits sum.splits)

lemma contract_interact_True:
  "contract_interact k setter r s = Inr (True, s') \<Longrightarrow>
     \<exists>d. performative r = RAW_TRANSACTION \<and> body r k = Some d \<and> setter d s = Inr s'"
  by (auto simp: contract_interact_def split: if_splits option.splits sum.splits)

lemma check_already_redeemed_fail: "fail_unchanged check_already_redeemed"
  by (simp add: check_already_redeemed_def contract_interact_fail)

lemma check_already_redeemed_True:
  "check_already_redeemed r s = Inr (True, s') \<Longrightarrow>
     \<exists>p. body r ''payouts'' = Some p \<and> s' = s\<lparr>payouts := p\<rparr>"
  by (auto simp: check_already_redeemed_def payouts_setter_def dest!: contract_interact_True)

lemma check_already_resolved_fail: "fail_unchanged check_already_resolved"
  by (simp add: check_already_resolved_def contract_interact_fail)

lemma check_already_resolved_True:
  "check_already_resolved r s = Inr (True, s') \<Longrightarrow>
     \<exists>flag. body r ''resolved'' = Some flag \<and> s' = s\<lparr>already_resolved := flag\<rparr>"
  by (auto simp: check_already_resolved_def already_resolved_setter_def dest!: contract_interact_True)

lemma append_built_data_cases:
  assumes "append_built_data target (contract_interact ''data'' (built_data_setter lib) r s) = Inr (ok, s')"
  shows "if ok then \<exists>d. s' = s\<lparr>built_data := Some d,
                 multisend_batches := multisend_batches s @ [MultisendBatch target d]\<rparr>
         else s' = s"
  using assms
  by (auto simp: append_built_data_def contract_interact_def built_data_setter_def
           split: if_splits option.splits sum.splits)

lemma build_resolve_data_fail: "fail_unchanged (build_resolve_data lib c)"
  using append_built_data_cases by (fastforce simp: fail_unchanged_def build_resolve_data_def)

lemma build_claim_data_fail: "fail_unchanged (build_claim_data lib c)"
  using append_built_data_cases by (fastforce simp: fail_unchanged_def build_claim_data_def)

lemma build_redeem_data_fail: "fail_unchanged (build_redeem_data lib c)"
  using append_built_data_cases by (fastforce simp: fail_unchanged_def build_redeem_data_def)

lemma build_resolve_data_True:
  "build_resolve_data lib c r s = Inr (True, s') \<Longrightarrow>
     \<exists>d. s' = s\<lparr>built_data := Some d,
            multisend_batches := multisend_batches s @ [MultisendBatch (realitio_proxy_address c) d]\<rparr>"
  using append_built_data_cases[of "realitio_proxy_address c" lib r s True s']
  by (simp add: build_resolve_data_def)

lemma build_claim_data_True:
  "build_claim_data lib c r s = Inr (True, s') \<Longrightarrow>
     \<exists>d. s' = s\<lparr>built_data := Some d,
            multisend_batches := multisend_batches s @ [MultisendBatch (realitio_address c) d]\<rparr>"
  using append_built_data_cases[of "realitio_address c" lib r s True s']
  by (simp add: build_claim_data_def)

lemma build_redeem_data_True:
  "build_redeem_data lib c r s = Inr (True, s') \<Longrightarrow>
     \<exists>d. s' = s\<lparr>built_data := Some d,
            multisend_batches := multisend_batches s @ [MultisendBatch (conditional_tokens_address c) d]\<rparr>"
  using append_built_data_cases[of "conditional_tokens_address c" lib r s True s']
  by (simp add: build_redeem_data_def)

lemma check_already_resolved_request_callable:
  "check_already_resolved_request c s = Inr rq \<Longrightarrow> contract_callable rq = ''check_resolved''"
  by (cases "current_condition_id s")
     (auto simp: check_already_resolved_request_def conditional_tokens_request_def)

lemma build_resolve_data_request_callable:
  "build_resolve_data_request c s = Inr rq \<Longrightarrow> contract_callable rq = ''build_resolve_tx''"
  by (cases "current_fpmm s") (auto simp: build_resolve_data_request_def)

lemma build_claim_data_request_callable:
  "build_claim_data_request c s = Inr rq \<Longrightarrow> contract_callable rq = ''build_claim_winnings''"
  by (cases "current_question_id s") (auto simp: build_claim_data_request_def)

lemma build_redeem_data_request_callable:
  "build_redeem_data_request c s = Inr rq \<Longrightarrow> contract_callable rq = ''build_redeem_positions_tx''"
  by (cases "current_redeem_info s")
     (auto simp: build_redeem_data_request_def conditional_tokens_request_def)

lemma wait_builder:
  assumes w: "wait_for_condition_with_sleep (rqf, h) s w = Returned (s', w')"
    and fu: "fail_unchanged h"
    and tr: "\<And>r s'. h r s = Inr (True, s') \<Longrightarrow>
       \<exists>d. s' = s\<lparr>built_data := Some d, multisend_batches := multisend_batches s @ [MultisendBatch target d]\<rparr>"
    and cl: "\<And>rq. rqf s = Inr rq \<Longrightarrow> contract_callable rq = name"
  shows "\<exists>d new. s' = s\<lparr>built_data := Some d,
                     multisend_batches := multisend_batches s @ [MultisendBatch target d]\<rparr>
      \<and> sent w' = sent w @ new \<and> new \<noteq> [] \<and> (\<forall>rq\<in>set new. contract_callable rq = name)
      \<and> set (pending w') \<subseteq> set (pending w)"
proof -
  from wait_sent[OF w fu] obtain rq n r where
    a: "rqf s = Inr rq" "sent w' = sent w @ replicate (Suc n) rq" "h r s = Inr (True, s')"
       "set (pending w') \<subseteq> set (pending w)" by blast
  from tr[OF a(3)] obtain d where
    d: "s' = s\<lparr>built_data := Some d, multisend_batches := multisend_batches s @ [MultisendBatch target d]\<rparr>"
    by blast
  have "\<forall>x\<in>set (replicate (Suc n) rq). contract_callable x = name"
    using cl[OF a(1)] by simp
  moreover have "replicate (Suc n) rq \<noteq> []" by simp
  ultimately show ?thesis using d a(2,4) by blast
qed

lemma wait_claim:
  assumes "wait_for_condition_with_sleep (build_claim_data_request c, build_claim_data lib c) s w = Returned (s', w')"
  shows "\<exists>d new. s' = s\<lparr>built_data := Some d,
                     multisend_batches := multisend_batches s @ [MultisendBatch (realitio_address c) d]\<rparr>
      \<and> sent w' = sent w @ new \<and> new \<noteq> [] \<and> (\<forall>rq\<in>set new. contract_callable rq = ''build_claim_winnings'')
      \<and> set (pending w') \<subseteq> set (pending w)"
  by (rule wait_builder[OF assms build_claim_data_fail build_claim_data_True
        build_claim_data_request_callable])

lemma wait_redeem:
  assumes "wait_for_condition_with_sleep (build_redeem_data_request c, build_redeem_data lib c) s w = Returned (s', w')"
  shows "\<exists>d new. s' = s\<lparr>built_data := Some d,
                     multisend_batches := multisend_batches s @ [MultisendBatch (conditional_tokens_address c) d]\<rparr>
      \<and> sent w' = sent w @ new \<and> new \<noteq> [] \<and> (\<forall>rq\<in>set new. contract_callable rq = ''build_redeem_positions_tx'')
      \<and> set (pending w') \<subseteq> set (pending w)"
  by (rule wait_builder[OF assms build_redeem_data_fail build_redeem_data_True
        build_redeem_data_request_callable])

lemma wait_resolve:
  assumes "wait_for_condition_with_sleep (build_resolve_data_request c, build_resolve_data lib c) s w = Returned (s', w')"
  shows "\<exists>d new. s' = s\<lparr>built_data := Some d,
                     multisend_batches := multisend_batches s @ [MultisendBatch (realitio_proxy_address c) d]\<rparr>
      \<and> sent w' = sent w @ new \<and> new \<noteq> [] \<and> (\<forall>rq\<in>set new. contract_callable rq = ''build_resolve_tx'')
      \<and> set (pending w') \<subseteq> set (pending w)"
  by (rule wait_builder[OF assms build_resolve_data_fail build_resolve_data_True
        build_resolve_data_request_callable])

lemma wait_check_resolved:
  assumes "wait_for_condition_with_sleep (check_already_resolved_request c, check_already_resolved) s w = Returned (s', w')"
  shows "\<exists>flag new. s' = s\<lparr>already_resolved := flag\<rparr>
      \<and> sent w' = sent w @ new \<and> new \<noteq> [] \<and> (\<forall>rq\<in>set new. contract_callable rq = ''check_resolved'')
      \<and> set (pending w') \<subseteq> set (pending w)"
proof -
  from wait_sent[OF assms check_already_resolved_fail] obtain rq n r where
    a: "check_already_resolved_request c s = Inr rq" "sent w' = sent w @ replicate (Suc n) rq"
       "check_already_resolved r s = Inr (True, s')"
       "set (pending w') \<subseteq> set (pending w)" by blast
  from check_already_resolved_True[OF a(3)] obtain flag where f: "s' = s\<lparr>already_resolved := flag\<rparr>"
    by blast
  have "\<forall>x\<in>set (replicate (Suc n) rq). contract_callable x = ''check_resolved''"
    using check_already_resolved_request_callable[OF a(1)] by simp
  moreover have "replicate (Suc n) rq \<noteq> []" by simp
  ultimately show ?thesis using f a(2,4) by blast
qed

lemma prepare_single_redeem_Returned:
  assumes "prepare_single_redeem lib c s w = Returned (s', w')"
  shows "\<exists>d1 d2 d3 new.
      s' = s\<lparr>already_resolved := already_resolved s', built_data := Some d3,
             multisend_batches := multisend_batches s @
               (if truthy (already_resolved s') then [] else [MultisendBatch (realitio_proxy_address c) d1])
               @ [MultisendBatch (realitio_address c) d2,
                  MultisendBatch (conditional_tokens_address c) d3]\<rparr>
    \<and> sent w' = sent w @ new \<and> new \<noteq> []
    \<and> (\<forall>rq\<in>set new. contract_callable rq \<in> redeem_callables)
    \<and> set (pending w') \<subseteq> set (pending w)"
proof -
  from assms obtain s1 w1 where
    a: "wait_for_condition_with_sleep (check_already_resolved_request c, check_already_resolved) s w = Returned (s1, w1)"
    and b: "for_steps
       ((if truthy (already_resolved s1) then []
         else [(build_resolve_data_request c, build_resolve_data lib c)])
        @ [(build_claim_data_request c, build_claim_data lib c),
           (build_redeem_data_request c, build_redeem_data lib c)]) s1 w1 = Returned (s', w')"
    by (auto simp: prepare_single_redeem_def and_then_Returned)
  from wait_check_resolved[OF a] obtain flag n0 where
    s1: "s1 = s\<lparr>already_resolved := flag\<rparr>" and l1: "sent w1 = sent w @ n0" "n0 \<noteq> []"
      "\<forall>rq\<in>set n0. contract_callable rq = ''check_resolved''"
      "set (pending w1) \<subseteq> set (pending w)" by blast
  have fl: "already_resolved s1 = flag" by (simp add: s1)
  show ?thesis
  proof (cases "truthy flag")
    case True
    with b fl obtain s2 w2 where
      c2: "wait_for_condition_with_sleep (build_claim_data_request c, build_claim_data lib c) s1 w1 = Returned (s2, w2)"
      and c3: "wait_for_condition_with_sleep (build_redeem_data_request c, build_redeem_data lib c) s2 w2 = Returned (s', w')"
      by (auto simp: for_steps_Cons_Returned for_steps_Nil_Returned simp del: for_steps.simps)
    from wait_claim[OF c2] obtain d2 n2 where
      s2: "s2 = s1\<lparr>built_data := Some d2,
                     multisend_batches := multisend_batches s1 @ [MultisendBatch (realitio_address c) d2]\<rparr>"
      and l2: "sent w2 = sent w1 @ n2" "\<forall>rq\<in>set n2. contract_callable rq = ''build_claim_winnings''"
        "set (pending w2) \<subseteq> set (pending w1)" by blast
    from wait_redeem[OF c3] obtain d3 n3 where
      s3: "s' = s2\<lparr>built_data := Some d3,
                     multisend_batches := multisend_batches s2 @ [MultisendBatch (conditional_tokens_address c) d3]\<rparr>"
      and l3: "sent w' = sent w2 @ n3" "\<forall>rq\<in>set n3. contract_callable rq = ''build_redeem_positions_tx''"
        "set (pending w') \<subseteq> set (pending w2)" by blast
    have ar: "already_resolved s' = flag" by (simp add: s3 s2 s1)
    have st: "s' = s\<lparr>already_resolved := already_resolved s', built_data := Some d3,
             multisend_batches := multisend_batches s @
               (if truthy (already_resolved s') then [] else [MultisendBatch (realitio_proxy_address c) d2])
               @ [MultisendBatch (realitio_address c) d2,
                  MultisendBatch (conditional_tokens_address c) d3]\<rparr>"
      unfolding ar using True by (simp add: s3 s2 s1)
    have lg: "sent w' = sent w @ (n0 @ n2 @ n3)" by (simp add: l1 l2 l3)
    have ne: "n0 @ n2 @ n3 \<noteq> []" using l1(2) by simp
    have cs: "\<forall>rq\<in>set (n0 @ n2 @ n3). contract_callable rq \<in> redeem_callables"
      using l1(3) l2(2) l3(2) by (auto simp: redeem_callables_def)
    have sub: "set (pending w') \<subseteq> set (pending w)" using l1(4) l2(3) l3(3) by blast
    from st lg ne cs sub show ?thesis by blast
  next
    case False
    with b fl obtain s1' w1' s2 w2 where
      c1: "wait_for_condition_with_sleep (build_resolve_data_request c, build_resolve_data lib c) s1 w1 = Returned (s1', w1')"
      and c2: "wait_for_condition_with_sleep (build_claim_data_request c, build_claim_data lib c) s1' w1' = Returned (s2, w2)"
      and c3: "wait_for_condition_with_sleep (build_redeem_data_request c, build_redeem_data lib c) s2 w2 = Returned (s', w')"
      by (auto simp: for_steps_Cons_Returned for_steps_Nil_Returned simp del: for_steps.simps)
    from wait_resolve[OF c1] obtain d1 n1 where
      s1': "s1' = s1\<lparr>built_data := Some d1,
                     multisend_batches := multisend_batches s1 @ [MultisendBatch (realitio_proxy_address c) d1]\<rparr>"
      and l1': "sent w1' = sent w1 @ n1" "\<forall>rq\<in>set n1. contract_callable rq = ''build_resolve_tx''"
        "set (pending w1') \<subseteq> set (pending w1)" by blast
    from wait_claim[OF c2] obtain d2 n2 where
      s2: "s2 = s1'\<lparr>built_data := Some d2,
                     multisend_batches := multisend_batches s1' @ [MultisendBatch (realitio_address c) d2]\<rparr>"
      and l2: "sent w2 = sent w1' @ n2" "\<forall>rq\<in>set n2. contract_callable rq = ''build_claim_winnings''"
        "set (pending w2) \<subseteq> set (pending w1')" by blast
    from wait_redeem[OF c3] obtain d3 n3 where
      s3: "s' = s2\<lparr>built_data := Some d3,
                     multisend_batches := multisend_batches s2 @ [MultisendBatch (conditional_tokens_address c) d3]\<rparr>"
      and l3: "sent w' = sent w2 @ n3" "\<forall>rq\<in>set n3. contract_callable rq = ''build_redeem_positions_tx''"
        "set (pending w') \<subseteq> set (pending w2)" by blast
    have ar: "already_resolved s' = flag" by (simp add: s3 s2 s1' s1)
    have st: "s' = s\<lparr>already_resolved := already_resolved s', built_data := Some d3,
             multisend_batches := multisend_batches s @
               (if truthy (already_resolved s') then [] else [MultisendBatch (realitio_proxy_address c) d1])
               @ [MultisendBatch (realitio_address c) d2,
                  MultisendBatch (conditional_tokens_address c) d3]\<rparr>"
      unfolding ar using False by (simp add: s3 s2 s1' s1)
    have lg: "sent w' = sent w @ (n0 @ n1 @ n2 @ n3)" by (simp add: l1 l1' l2 l3)
    have ne: "n0 @ n1 @ n2 @ n3 \<noteq> []" using l1(2) by simp
    have cs: "\<forall>rq\<in>set (n0 @ n1 @ n2 @ n3). contract_callable rq \<in> redeem_callables"
      using l1(3) l1'(2) l2(2) l3(2) by (auto simp: redeem_callables_def)
    have sub: "set (pending w') \<subseteq> set (pending w)" using l1(4) l1'(3) l2(3) l3(3) by blast
    from st lg ne cs sub show ?thesis by blast
  qed
qed

lemma process_candidate_skip:
  "\<not> non_dust_winning c cand \<Longrightarrow>
   process_candidate lib c cand s w = Returned (False, s\<lparr>current_redeem_info_attr := Some cand\<rparr>, w)"
  by (auto simp: process_candidate_def non_dust_winning_def is_winning_position_def is_dust_def
       current_redeem_info_def raising_def Let_def)

lemma process_candidate_build:
  assumes nd: "non_dust_winning c cand"
    and r: "process_candidate lib c cand s w = Returned (ok, s', w')"
  shows "ok \<and> (\<exists>d1 d2 d3 new.
      s' = s\<lparr>already_resolved := already_resolved s', built_data := Some d3,
             current_redeem_info_attr := Some cand,
             expected_winnings := expected_winnings s + claimable_amount cand,
             multisend_batches := multisend_batches s @
               (if truthy (already_resolved s') then [] else [MultisendBatch (realitio_proxy_address c) d1])
               @ [MultisendBatch (realitio_address c) d2,
                  MultisendBatch (conditional_tokens_address c) d3]\<rparr>
    \<and> sent w' = sent w @ new \<and> new \<noteq> []
    \<and> (\<forall>rq\<in>set new. contract_callable rq \<in> redeem_callables)
    \<and> set (pending w') \<subseteq> set (pending w))"
proof -
  let ?s1 = "s\<lparr>current_redeem_info_attr := Some cand\<rparr>"
  from nd r obtain s2 w2 info where
    p: "prepare_single_redeem lib c ?s1 w = Returned (s2, w2)"
    and i: "current_redeem_info s2 = Inr info"
    and e: "ok" "s' = s2\<lparr>expected_winnings := expected_winnings s2 + claimable_amount info\<rparr>" "w' = w2"
    by (auto simp: process_candidate_def non_dust_winning_def is_winning_position_def is_dust_def
         current_redeem_info_def raising_def Let_def and_then_Returned split: option.splits)
  from prepare_single_redeem_Returned[OF p] obtain d1 d2 d3 new where
    s2: "s2 = ?s1\<lparr>already_resolved := already_resolved s2, built_data := Some d3,
             multisend_batches := multisend_batches ?s1 @
               (if truthy (already_resolved s2) then [] else [MultisendBatch (realitio_proxy_address c) d1])
               @ [MultisendBatch (realitio_address c) d2,
                  MultisendBatch (conditional_tokens_address c) d3]\<rparr>"
    and l: "sent w2 = sent w @ new" "new \<noteq> []"
      "\<forall>rq\<in>set new. contract_callable rq \<in> redeem_callables"
      "set (pending w2) \<subseteq> set (pending w)" by blast
  have cur: "current_redeem_info_attr s2 = Some cand" by (subst s2) simp
  with i have info: "info = cand" by (simp add: current_redeem_info_def)
  have ew: "expected_winnings s2 = expected_winnings s" by (subst s2) simp
  have ar: "already_resolved s' = already_resolved s2" by (simp add: e(2))
  have st: "s' = s\<lparr>already_resolved := already_resolved s', built_data := Some d3,
             current_redeem_info_attr := Some cand,
             expected_winnings := expected_winnings s + claimable_amount cand,
             multisend_batches := multisend_batches s @
               (if truthy (already_resolved s') then [] else [MultisendBatch (realitio_proxy_address c) d1])
               @ [MultisendBatch (realitio_address c) d2,
                  MultisendBatch (conditional_tokens_address c) d3]\<rparr>"
    unfolding ar e(2) info ew by (subst s2) simp
  from st l e show ?thesis by blast
qed

lemma candidates_loop_none:
  "\<forall>cand\<in>set cs. \<not> non_dust_winning c cand \<Longrightarrow>
   candidates_loop lib c cs found s w =
     Returned (found, if cs = [] then s else s\<lparr>current_redeem_info_attr := Some (last cs)\<rparr>, w)"
proof (induction cs arbitrary: s)
  case Nil
  show ?case by simp
next
  case (Cons cand cs)
  then show ?case
    by (cases cs) (simp_all add: process_candidate_skip and_then_def)
qed

lemma sum_list_pos_member:
  fixes xs :: "int list"
  assumes "\<forall>x\<in>set xs. 0 \<le> x" and "v \<in> set xs" and "0 < v"
  shows "0 < sum_list xs"
  using assms
proof (induction xs)
  case Nil
  then show ?case by simp
next
  case (Cons x xs)
  have "0 \<le> sum_list xs" using Cons.prems(1) by (simp add: sum_list_nonneg)
  with Cons show ?case by (cases "v = x") (auto simp: add_nonneg_pos add_pos_nonneg)
qed

lemma clean_redeem_info_Returned:
  assumes "clean_redeem_info lib c s w = Returned (s', w')"
  shows "\<exists>P rq n r. payouts s' = PyDict P
     \<and> s' = s\<lparr>payouts := PyDict P, redeem_info :=
          (if sum_list (map snd P) > 0
           then filter (\<lambda>info. transactionHash info \<notin> fst ` set P) (redeem_info s)
           else redeem_info s)\<rparr>
     \<and> r \<in> set (pending w) \<and> body r ''payouts'' = Some (PyDict P)
     \<and> check_already_redeemed_request lib c s = Inr rq
     \<and> sent w' = sent w @ replicate (Suc n) rq
     \<and> set (pending w') \<subseteq> set (pending w)"
proof -
  from assms obtain s1 w1 where
    a: "wait_for_condition_with_sleep (check_already_redeemed_request lib c, check_already_redeemed) s w
          = Returned (s1, w1)"
    and b: "(case payouts s1 of
       PyDict p \<Rightarrow>
         (let payout_so_far = sum_list (map snd p) in
          if payout_so_far > 0
          then Returned (s1\<lparr>redeem_info :=
                 filter (\<lambda>info. transactionHash info \<notin> set (map fst p)) (redeem_info s1)\<rparr>, w1)
          else Returned (s1, w1))
     | _ \<Rightarrow> Raised AttributeError) = Returned (s', w')"
    by (auto simp: clean_redeem_info_def and_then_Returned)
  from wait_sent[OF a check_already_redeemed_fail] obtain rq n r where
    c: "check_already_redeemed_request lib c s = Inr rq" "sent w1 = sent w @ replicate (Suc n) rq"
       "r \<in> set (pending w)" "check_already_redeemed r s = Inr (True, s1)"
       "set (pending w1) \<subseteq> set (pending w)" by blast
  from check_already_redeemed_True[OF c(4)] obtain p where
    p: "body r ''payouts'' = Some p" "s1 = s\<lparr>payouts := p\<rparr>" by blast
  have ps: "payouts s1 = p" by (simp add: p(2))
  from b ps obtain P where P: "p = PyDict P" by (cases p) auto
  have w': "w' = w1" using b ps P by (auto simp: Let_def split: if_splits)
  have s': "s' = s\<lparr>payouts := PyDict P, redeem_info :=
          (if sum_list (map snd P) > 0
           then filter (\<lambda>info. transactionHash info \<notin> fst ` set P) (redeem_info s)
           else redeem_info s)\<rparr>"
    using b ps P by (auto simp: Let_def p(2) split: if_splits)
  have "payouts s' = PyDict P" by (subst s') simp
  with s' p P c w' show ?thesis by blast
qed

lemma to_MultisendBatch [simp]: "to (MultisendBatch t d) = t"
  by (simp add: MultisendBatch_def)

lemma redeem_shape_segment:
  "redeem_shape c rest \<Longrightarrow>
   redeem_shape c (((if resolved then [] else [MultisendBatch (realitio_proxy_address c) d1])
     @ [MultisendBatch (realitio_address c) d2, MultisendBatch (conditional_tokens_address c) d3]) @ rest)"
  by simp

lemma candidates_loop_Returned:
  "candidates_loop lib c cs found s w = Returned (found', s', w') \<Longrightarrow>
     redeem_info s' = redeem_info s \<and> multisend_data s' = multisend_data s
   \<and> safe_tx_hash s' = safe_tx_hash s \<and> payouts s' = payouts s
   \<and> (\<exists>entries. multisend_batches s' = multisend_batches s @ entries \<and> redeem_shape c entries)
   \<and> (\<exists>new. sent w' = sent w @ new \<and> (\<forall>rq\<in>set new. contract_callable rq \<in> redeem_callables))
   \<and> set (pending w') \<subseteq> set (pending w)
   \<and> (found \<longrightarrow> found')
   \<and> (\<not> found' \<longrightarrow> w' = w \<and> multisend_batches s' = multisend_batches s
        \<and> expected_winnings s' = expected_winnings s)
   \<and> (found' \<and> \<not> found \<longrightarrow> multisend_batches s' \<noteq> multisend_batches s \<and> sent w' \<noteq> sent w)"
proof (induction cs arbitrary: found s w)
  case Nil
  then show ?case by (auto intro: exI[of _ "[]"])
next
  case (Cons cand cs)
  show ?case
  proof (cases "non_dust_winning c cand")
    case False
    let ?s1 = "s\<lparr>current_redeem_info_attr := Some cand\<rparr>"
    from Cons.prems False have "candidates_loop lib c cs found ?s1 w = Returned (found', s', w')"
      by (simp add: process_candidate_skip and_then_def)
    from Cons.IH[OF this] show ?thesis by simp
  next
    case True
    from Cons.prems obtain ok s1 w1 where
      p: "process_candidate lib c cand s w = Returned (ok, s1, w1)"
      and rest: "(if \<not> ok then candidates_loop lib c cs found s1 w1
        else if int (length (multisend_batches s1)) = redeeming_batch_size c
             then Returned (True, s1, w1)
             else candidates_loop lib c cs True s1 w1) = Returned (found', s', w')"
      by (auto simp: and_then_Returned)
    from process_candidate_build[OF True p] obtain d1 d2 d3 new where
      ok: ok
      and s1: "s1 = s\<lparr>already_resolved := already_resolved s1, built_data := Some d3,
             current_redeem_info_attr := Some cand,
             expected_winnings := expected_winnings s + claimable_amount cand,
             multisend_batches := multisend_batches s @
               (if truthy (already_resolved s1) then [] else [MultisendBatch (realitio_proxy_address c) d1])
               @ [MultisendBatch (realitio_address c) d2,
                  MultisendBatch (conditional_tokens_address c) d3]\<rparr>"
      and l: "sent w1 = sent w @ new" "new \<noteq> []"
        "\<forall>rq\<in>set new. contract_callable rq \<in> redeem_callables"
        "set (pending w1) \<subseteq> set (pending w)"
      by blast
    let ?seg = "(if truthy (already_resolved s1) then [] else [MultisendBatch (realitio_proxy_address c) d1])
               @ [MultisendBatch (realitio_address c) d2,
                  MultisendBatch (conditional_tokens_address c) d3]"
    have f1: "redeem_info s1 = redeem_info s" "multisend_data s1 = multisend_data s"
      "safe_tx_hash s1 = safe_tx_hash s" "payouts s1 = payouts s"
      by (subst s1, simp)+
    have mb1: "multisend_batches s1 = multisend_batches s @ ?seg"
      by (subst s1) simp
    have segne: "?seg \<noteq> []" by simp
    show ?thesis
    proof (cases "int (length (multisend_batches s1)) = redeeming_batch_size c")
      case True
      with rest ok have e: "found' = True" "s' = s1" "w' = w1" by auto
      have sh: "redeem_shape c ?seg"
        using redeem_shape_segment[of c "[]" "truthy (already_resolved s1)" d1 d2 d3] by simp
      have "multisend_batches s1 \<noteq> multisend_batches s" using mb1 segne by simp
      moreover have "sent w1 \<noteq> sent w" using l(1,2) by simp
      ultimately show ?thesis
        unfolding e using f1 mb1 sh l by blast
    next
      case False
      with rest ok have "candidates_loop lib c cs True s1 w1 = Returned (found', s', w')" by simp
      from Cons.IH[OF this] obtain entries new' where
        ih: "redeem_info s' = redeem_info s1" "multisend_data s' = multisend_data s1"
          "safe_tx_hash s' = safe_tx_hash s1" "payouts s' = payouts s1"
          "multisend_batches s' = multisend_batches s1 @ entries" "redeem_shape c entries"
          "sent w' = sent w1 @ new'" "\<forall>rq\<in>set new'. contract_callable rq \<in> redeem_callables"
          "set (pending w') \<subseteq> set (pending w1)" "found'"
        by blast
      have mb: "multisend_batches s' = multisend_batches s @ (?seg @ entries)"
        using ih(5) mb1 by simp
      have sh: "redeem_shape c (?seg @ entries)"
        by (rule redeem_shape_segment[OF ih(6)])
      have lg: "sent w' = sent w @ (new @ new')" using ih(7) l(1) by simp
      have cs: "\<forall>rq\<in>set (new @ new'). contract_callable rq \<in> redeem_callables"
        using ih(8) l(3) by auto
      have ne: "multisend_batches s' \<noteq> multisend_batches s" using mb segne by simp
      have ne2: "sent w' \<noteq> sent w" using lg l(2) by simp
      have sub: "set (pending w') \<subseteq> set (pending w)" using ih(9) l(4) by blast
      show ?thesis
        using ih(1-4,10) f1 mb sh lg cs ne ne2 sub by (simp only: simp_thms) blast
    qed
  qed
qed

lemma get_redeem_info_Returned:
  "get_redeem_info s fs trades = Returned (s1, fs1, rest) \<Longrightarrow>
     s1 = s\<lparr>redeem_info := redeem_info s1\<rparr> \<and> (fs1 \<noteq> SUCCESS \<longrightarrow> redeem_info s1 = [])"
proof (induction s fs trades rule: get_redeem_info.induct)
  case (1 s fs)
  then show ?case by simp
next
  case (2 s fs rest')
  then show ?case by (auto split: if_splits)
next
  case (3 s fs chunk fs' rest')
  show ?case
  proof (cases chunk)
    case None
    with 3 show ?thesis by simp
  next
    case (Some ts)
    with "3.prems" have r: "get_redeem_info (s\<lparr>redeem_info := redeem_info s @ ts\<rparr>) fs' rest'
        = Returned (s1, fs1, rest)" by simp
    from "3.IH"(2)[OF Some r] have
      a: "s1 = s\<lparr>redeem_info := redeem_info s @ ts\<rparr>\<lparr>redeem_info := redeem_info s1\<rparr>"
      and b: "fs1 \<noteq> SUCCESS \<longrightarrow> redeem_info s1 = []" by blast+
    from a have "s1 = s\<lparr>redeem_info := redeem_info s1\<rparr>" by simp
    with b show ?thesis by blast
  qed
qed

lemma redeem_async_act_Returned:
  "redeem_async_act lib c s fs trades w = Returned (p, s', w') \<Longrightarrow>
     \<exists>s1 fs1 rest s2 w2 hx. get_redeem_info s fs trades = Returned (s1, fs1, rest)
       \<and> clean_redeem_info lib c s1 w = Returned (s2, w2)
       \<and> redeem_prepare_safe_tx lib c s2 w2 = Returned (hx, s', w')
       \<and> p = MultisigTxPayload [Some (agent_address c),
               if hx \<noteq> None then Some (auto_round_id lib) else None, hx]"
  by (auto simp: redeem_async_act_def and_then_Returned Let_def) blast

lemma redeem_prepare_safe_tx_none:
  assumes "\<forall>cand\<in>set (redeem_info s). \<not> non_dust_winning c cand"
  shows "redeem_prepare_safe_tx lib c s w =
     Returned (None, if redeem_info s = [] then s
                     else s\<lparr>current_redeem_info_attr := Some (last (redeem_info s))\<rparr>, w)"
  by (simp add: redeem_prepare_safe_tx_def candidates_loop_none[OF assms] and_then_def)

lemma redeem_prepare_safe_tx_Returned:
  assumes "redeem_prepare_safe_tx lib c s w = Returned (hx, s', w')"
  shows "redeem_info s' = redeem_info s \<and> payouts s' = payouts s
    \<and> (hx = None \<longrightarrow> w' = w \<and> multisend_batches s' = multisend_batches s
          \<and> multisend_data s' = multisend_data s \<and> safe_tx_hash s' = safe_tx_hash s
          \<and> expected_winnings s' = expected_winnings s)
    \<and> (\<forall>hex. hx = Some hex \<longrightarrow>
          (\<exists>entries new n4 n5. multisend_batches s' = multisend_batches s @ entries
             \<and> entries \<noteq> [] \<and> redeem_shape c entries
             \<and> tx_hex lib c s' = Inr hex
             \<and> sent w' = sent w @ new @ replicate (Suc n4) (build_multisend_data_request c s')
                          @ replicate (Suc n5) (build_safe_tx_hash_request lib c s')
             \<and> new \<noteq> [] \<and> (\<forall>rq\<in>set new. contract_callable rq \<in> redeem_callables)))"
proof -
  from assms obtain found s1 w1 where
    l: "candidates_loop lib c (redeem_info s) False s w = Returned (found, s1, w1)"
    and r: "(if \<not> found then Returned (None, s1, w1)
     else and_then (for_steps (multisend_steps lib c) s1 w1) (\<lambda>(s2, w2).
          raising (tx_hex lib c s2) (\<lambda>hex. Returned (Some hex, s2, w2)))) = Returned (hx, s', w')"
    by (auto simp: redeem_prepare_safe_tx_def and_then_Returned)
  from candidates_loop_Returned[OF l] obtain entries new where
    f: "redeem_info s1 = redeem_info s" "multisend_data s1 = multisend_data s"
       "safe_tx_hash s1 = safe_tx_hash s" "payouts s1 = payouts s"
       "multisend_batches s1 = multisend_batches s @ entries" "redeem_shape c entries"
       "sent w1 = sent w @ new" "\<forall>rq\<in>set new. contract_callable rq \<in> redeem_callables"
    and nf: "\<not> found \<longrightarrow> w1 = w \<and> multisend_batches s1 = multisend_batches s
        \<and> expected_winnings s1 = expected_winnings s"
    and fd: "found \<longrightarrow> multisend_batches s1 \<noteq> multisend_batches s \<and> sent w1 \<noteq> sent w"
    by blast
  show ?thesis
  proof (cases found)
    case False
    with r have "hx = None" "s' = s1" "w' = w1" by auto
    with f nf False show ?thesis by simp
  next
    case True
    with r obtain hex where
      m: "for_steps (multisend_steps lib c) s1 w1 = Returned (s', w')"
      and h: "tx_hex lib c s' = Inr hex" "hx = Some hex"
      by (auto simp: and_then_Returned raising_Returned)
    from multisend_steps_Returned[OF m] obtain n4 n5 tx_hash where
      s': "s' = s1\<lparr>multisend_data := multisend_data s', safe_tx_hash := drop 2 tx_hash\<rparr>"
      and lg: "sent w' = sent w1 @ replicate (Suc n4) (build_multisend_data_request c s1)
                 @ replicate (Suc n5) (build_safe_tx_hash_request lib c s')"
      by blast
    have g: "redeem_info s' = redeem_info s1" "payouts s' = payouts s1"
      "multisend_batches s' = multisend_batches s1"
      by (subst s', simp)+
    have rq: "build_multisend_data_request c s1 = build_multisend_data_request c s'"
      by (simp add: build_multisend_data_request_def multi_send_txs_def g(3))
    have ne: "entries \<noteq> []" "new \<noteq> []" using fd True f(5,7) by auto
    have lg': "sent w' = sent w @ new @ replicate (Suc n4) (build_multisend_data_request c s')
                          @ replicate (Suc n5) (build_safe_tx_hash_request lib c s')"
      by (simp only: lg rq f(7) append_assoc)
    have mb: "multisend_batches s' = multisend_batches s @ entries" using g(3) f(5) by simp
    have "\<exists>entries new n4 n5. multisend_batches s' = multisend_batches s @ entries
             \<and> entries \<noteq> [] \<and> redeem_shape c entries
             \<and> tx_hex lib c s' = Inr hex
             \<and> sent w' = sent w @ new @ replicate (Suc n4) (build_multisend_data_request c s')
                          @ replicate (Suc n5) (build_safe_tx_hash_request lib c s')
             \<and> new \<noteq> [] \<and> (\<forall>rq\<in>set new. contract_callable rq \<in> redeem_callables)"
      using mb ne f(6) h(1) lg' f(8) by blast
    with g f h(2) show ?thesis by simp
  qed
qed

lemma wait_check_balance:
  assumes "wait_for_condition_with_sleep (\<lambda>s. Inr (check_balance_request c), check_balance lib) s w
     = Returned (s', w')"
  shows "\<exists>i n. s' = s\<lparr>balance := i\<rparr> \<and> sent w' = sent w @ replicate (Suc n) (check_balance_request c)
     \<and> set (pending w') \<subseteq> set (pending w)"
proof -
  from wait_sent[OF assms check_balance_fail] obtain rq n r where
    a: "Inr (check_balance_request c) = Inr rq" "sent w' = sent w @ replicate (Suc n) rq"
       "check_balance lib r s = Inr (True, s')" "set (pending w') \<subseteq> set (pending w)" by blast
  from check_balance_True[OF a(3)] obtain i where "s' = s\<lparr>balance := i\<rparr>" by blast
  with a show ?thesis by auto
qed

lemma bet_async_act_Returned:
  assumes "bet_async_act lib c s w = Returned (p, s', w')"
  shows "\<exists>s1 w1 n. sent w1 = sent w @ replicate (Suc n) (check_balance_request c)
      \<and> s1 = s\<lparr>balance := balance s1\<rparr> \<and> set (pending w1) \<subseteq> set (pending w)
      \<and> (if sufficient_balance c s1
          then \<exists>hex. bet_prepare_safe_tx lib c s1 w1 = Returned (hex, s', w')
                 \<and> p = MultisigTxPayload [Some (agent_address c), Some hex]
          else p = MultisigTxPayload [Some (agent_address c), None] \<and> s' = s1 \<and> w' = w1)"
proof -
  from assms obtain s1 w1 where
    a: "wait_for_condition_with_sleep (\<lambda>s. Inr (check_balance_request c), check_balance lib) s w
          = Returned (s1, w1)"
    and b: "(if sufficient_balance c s1 then
       and_then (bet_prepare_safe_tx lib c s1 w1) (\<lambda>(betting_tx_hex, s2, w2).
       Returned (MultisigTxPayload [Some (agent_address c), Some betting_tx_hex], s2, w2))
     else Returned (MultisigTxPayload [Some (agent_address c), None], s1, w1)) = Returned (p, s', w')"
    by (auto simp: bet_async_act_def and_then_Returned)
  from wait_check_balance[OF a] obtain i n where
    c: "s1 = s\<lparr>balance := i\<rparr>" "sent w1 = sent w @ replicate (Suc n) (check_balance_request c)"
       "set (pending w1) \<subseteq> set (pending w)" by blast
  have s1: "s1 = s\<lparr>balance := balance s1\<rparr>" by (subst c(1)) (simp add: c(1))
  have d: "if sufficient_balance c s1
          then \<exists>hex. bet_prepare_safe_tx lib c s1 w1 = Returned (hex, s', w')
                 \<and> p = MultisigTxPayload [Some (agent_address c), Some hex]
          else p = MultisigTxPayload [Some (agent_address c), None] \<and> s' = s1 \<and> w' = w1"
    using b by (auto simp: and_then_Returned split: if_splits)
  from c(2,3) s1 d show ?thesis by blast
qed

lemma check_balance_request_quiet: "\<not> encodes_or_hashes (check_balance_request c)"
  by (simp add: encodes_or_hashes_def check_balance_request_def)

lemma check_already_redeemed_request_quiet:
  "check_already_redeemed_request lib c s = Inr rq \<Longrightarrow> contract_callable rq = ''check_redeemed''"
  by (auto simp: check_already_redeemed_request_def conditional_tokens_request_def)

lemma bet_no_action:
  assumes r: "bet_async_act lib c s w = Returned (p, s', w')"
    and b: "balance s' < investment_amount c"
  shows "p = MultisigTxPayload [Some (agent_address c), None]
     \<and> multisend_batches s' = multisend_batches s
     \<and> (\<exists>new. sent w' = sent w @ new \<and> (\<forall>rq\<in>set new. \<not> encodes_or_hashes rq))"
proof -
  from bet_async_act_Returned[OF r] obtain s1 w1 n where
    l: "sent w1 = sent w @ replicate (Suc n) (check_balance_request c)"
    and s1: "s1 = s\<lparr>balance := balance s1\<rparr>"
    and d: "if sufficient_balance c s1
          then \<exists>hex. bet_prepare_safe_tx lib c s1 w1 = Returned (hex, s', w')
                 \<and> p = MultisigTxPayload [Some (agent_address c), Some hex]
          else p = MultisigTxPayload [Some (agent_address c), None] \<and> s' = s1 \<and> w' = w1"
    by blast
  have ns: "\<not> sufficient_balance c s1"
  proof
    assume su: "sufficient_balance c s1"
    with d obtain hex where "bet_prepare_safe_tx lib c s1 w1 = Returned (hex, s', w')" by auto
    from bet_prepare_safe_tx_Returned[OF this] obtain d1 d2 tx_hash where
      st: "s' = s1\<lparr>multisend_batches := multisend_batches s1 @
               [MultisendBatch (collateral_token c) d1,
                MultisendBatch (market_maker_contract_address c) d2],
             multisend_data := multisend_data s', safe_tx_hash := drop 2 tx_hash,
             buy_amount := buy_amount s'\<rparr>" by blast
    have "balance s' = balance s1" by (subst st) simp
    with su b show False by (simp add: sufficient_balance_def)
  qed
  with d have e: "p = MultisigTxPayload [Some (agent_address c), None]" "s' = s1" "w' = w1" by auto
  have mb: "multisend_batches s' = multisend_batches s" unfolding e(2) by (subst s1) simp
  have "\<forall>rq\<in>set (replicate (Suc n) (check_balance_request c)). \<not> encodes_or_hashes rq"
    using check_balance_request_quiet by simp
  with l e mb show ?thesis by blast
qed

lemma redeem_no_action:
  assumes r: "redeem_async_act lib c s fs trades w = Returned (p, s', w')"
    and nw: "\<forall>info\<in>set (redeem_info s'). \<not> non_dust_winning c info"
  shows "p = MultisigTxPayload [Some (agent_address c), None, None]
     \<and> multisend_batches s' = multisend_batches s
     \<and> (\<exists>new. sent w' = sent w @ new \<and> (\<forall>rq\<in>set new. contract_callable rq = ''check_redeemed''))"
proof -
  from redeem_async_act_Returned[OF r] obtain s1 fs1 rest s2 w2 hx where
    g: "get_redeem_info s fs trades = Returned (s1, fs1, rest)"
    and cl: "clean_redeem_info lib c s1 w = Returned (s2, w2)"
    and pr: "redeem_prepare_safe_tx lib c s2 w2 = Returned (hx, s', w')"
    and p: "p = MultisigTxPayload [Some (agent_address c),
               if hx \<noteq> None then Some (auto_round_id lib) else None, hx]" by blast
  from redeem_prepare_safe_tx_Returned[OF pr] have ri: "redeem_info s' = redeem_info s2" by blast
  with nw have "\<forall>cand\<in>set (redeem_info s2). \<not> non_dust_winning c cand" by simp
  from redeem_prepare_safe_tx_none[OF this, of lib w2] pr
  have hx: "hx = None" and w': "w' = w2"
    and s': "s' = (if redeem_info s2 = [] then s2
                  else s2\<lparr>current_redeem_info_attr := Some (last (redeem_info s2))\<rparr>)"
    by auto
  from clean_redeem_info_Returned[OF cl] obtain P rq n where
    s2: "s2 = s1\<lparr>payouts := PyDict P, redeem_info :=
          (if sum_list (map snd P) > 0
           then filter (\<lambda>info. transactionHash info \<notin> fst ` set P) (redeem_info s1)
           else redeem_info s1)\<rparr>"
    and rq: "check_already_redeemed_request lib c s1 = Inr rq"
    and l: "sent w2 = sent w @ replicate (Suc n) rq" by blast
  from get_redeem_info_Returned[OF g] have s1: "s1 = s\<lparr>redeem_info := redeem_info s1\<rparr>" by blast
  have "multisend_batches s1 = multisend_batches s" by (subst s1) simp
  moreover have "multisend_batches s2 = multisend_batches s1" by (subst s2) simp
  moreover have "multisend_batches s' = multisend_batches s2" unfolding s' by simp
  ultimately have mb: "multisend_batches s' = multisend_batches s" by simp
  have "\<forall>x\<in>set (replicate (Suc n) rq). contract_callable x = ''check_redeemed''"
    using check_already_redeemed_request_quiet[OF rq] by simp
  with l w' have "\<exists>new. sent w' = sent w @ new \<and> (\<forall>rq\<in>set new. contract_callable rq = ''check_redeemed'')"
    by blast
  with p hx mb show ?thesis by simp
qed

lemma last_replicate_Suc: "last (xs @ replicate (Suc n) x) = x"
  by (induction n) (simp_all add: last_append)

lemma redeem_async_act_cong:
  assumes a: "get_redeem_info s fsa ta = Returned (sa, fa, ra)"
    and b: "get_redeem_info s fsb tb = Returned (sb, fb, rb)"
    and e: "redeem_info sa = redeem_info sb"
  shows "redeem_async_act lib c s fsa ta w = redeem_async_act lib c s fsb tb w"
proof -
  from get_redeem_info_Returned[OF a] have "sa = s\<lparr>redeem_info := redeem_info sa\<rparr>" by blast
  moreover from get_redeem_info_Returned[OF b] have "sb = s\<lparr>redeem_info := redeem_info sb\<rparr>" by blast
  ultimately have "sa = sb" using e by simp
  then show ?thesis by (simp add: redeem_async_act_def a b and_then_def)
qed

lemma contract_interact_failed:
  "failed_response RAW_TRANSACTION k r \<Longrightarrow> contract_interact k setter r s = Inr (False, s)"
  by (auto simp: failed_response_def contract_interact_def)

lemma get_block_number_Returned:
  "get_block_number lib s lookups = Returned (ok, s', fs', rest) \<Longrightarrow>
     ok \<and> (fs' \<noteq> SUCCESS \<longrightarrow> s' = s)"
  by (auto simp: get_block_number_def raising_Returned and_then_Returned split: if_splits)

lemma wait_exact:
  assumes "wait_for_condition_with_sleep (rqf, h) s w = Returned (s', w')" and "fail_unchanged h"
  shows "\<exists>cs rq. cs \<noteq> [] \<and> pending w = cs @ pending w' \<and> rqf s = Inr rq
      \<and> sent w' = sent w @ replicate (length cs) rq
      \<and> h (last cs) s = Inr (True, s') \<and> (\<forall>f\<in>set (butlast cs). h f s = Inr (False, s))"
proof -
  from wait_Returned[OF assms] obtain rq fails r where
    a: "rqf s = Inr rq" "h r s = Inr (True, s')" "pending w = fails @ r # pending w'"
       "sent w' = sent w @ replicate (Suc (length fails)) rq"
       "\<forall>f\<in>set fails. h f s = Inr (False, s)" by blast
  show ?thesis
    using a by (intro exI[of _ "fails @ [r]"] exI[of _ rq]) simp
qed

lemma wait_forward:
  assumes "rqf s = Inr rq" and "\<forall>f\<in>set fails. h f s = Inr (False, s)" and "h r s = Inr (True, s')"
  shows "wait_loop (rqf, h) s log (fails @ r # rest)
     = Returned (s', \<lparr>sent = log @ replicate (Suc (length fails)) rq, pending = rest\<rparr>)"
  using assms(2)
proof (induction fails arbitrary: log)
  case Nil
  then show ?case using assms(1,3) by (simp add: raising_def)
next
  case (Cons f fails)
  then have "wait_loop (rqf, h) s (log @ [rq]) (fails @ r # rest)
     = Returned (s', \<lparr>sent = (log @ [rq]) @ replicate (Suc (length fails)) rq, pending = rest\<rparr>)"
    by simp
  with Cons.prems assms(1) show ?case by (simp add: raising_def)
qed

lemma wait_forward_consumed:
  assumes "rqf s = Inr rq" and "cs \<noteq> []" and "\<forall>f\<in>set (butlast cs). h f s = Inr (False, s)"
    and "h (last cs) s = Inr (True, s')"
  shows "wait_for_condition_with_sleep (rqf, h) s \<lparr>sent = log, pending = cs @ rest\<rparr>
     = Returned (s', \<lparr>sent = log @ replicate (length cs) rq, pending = rest\<rparr>)"
proof -
  from assms(2) have cs: "cs = butlast cs @ [last cs]" by simp
  have "wait_loop (rqf, h) s log (butlast cs @ last cs # rest)
     = Returned (s', \<lparr>sent = log @ replicate (Suc (length (butlast cs))) rq, pending = rest\<rparr>)"
    by (rule wait_forward[where rqf=rqf and h=h and s=s, OF assms(1,3,4)])
  moreover have "butlast cs @ last cs # rest = cs @ rest" using assms(2) by simp
  moreover have "Suc (length (butlast cs)) = length cs" using assms(2) by simp
  ultimately have "wait_loop (rqf, h) s log (cs @ rest)
     = Returned (s', \<lparr>sent = log @ replicate (length cs) rq, pending = rest\<rparr>)"
    by (simp only:)
  then show ?thesis by (simp add: wait_for_condition_with_sleep_def)
qed

lemma contract_interact_False:
  "contract_interact k setter r s = Inr (False, s') \<Longrightarrow> failed_response RAW_TRANSACTION k r"
  by (auto simp: contract_interact_def failed_response_def split: if_splits option.splits sum.splits)

lemma builder_False:
  "append_built_data target (contract_interact ''data'' (built_data_setter lib) r s) = Inr (False, s')
   \<Longrightarrow> failed_response RAW_TRANSACTION ''data'' r"
  by (auto simp: append_built_data_def contract_interact_def failed_response_def
       split: if_splits option.splits sum.splits)

lemma builder_True:
  "append_built_data target (contract_interact ''data'' (built_data_setter lib) r s) = Inr (True, s')
   \<Longrightarrow> \<exists>v d. performative r = RAW_TRANSACTION \<and> body r ''data'' = Some v \<and> HexBytes lib v = Inr d
        \<and> s' = s\<lparr>built_data := Some d,
                 multisend_batches := multisend_batches s @ [MultisendBatch target d]\<rparr>"
  by (auto simp: append_built_data_def contract_interact_def built_data_setter_def
       split: if_splits option.splits sum.splits)

lemma builder_good:
  "performative r = RAW_TRANSACTION \<Longrightarrow> body r ''data'' = Some v \<Longrightarrow> HexBytes lib v = Inr d \<Longrightarrow>
   append_built_data target (contract_interact ''data'' (built_data_setter lib) r s)
     = Inr (True, s\<lparr>built_data := Some d,
                 multisend_batches := multisend_batches s @ [MultisendBatch target d]\<rparr>)"
  by (simp add: append_built_data_def contract_interact_def built_data_setter_def)

lemma builder_failed:
  "failed_response RAW_TRANSACTION ''data'' r \<Longrightarrow>
   append_built_data target (contract_interact ''data'' (built_data_setter lib) r s) = Inr (False, s)"
  by (simp add: contract_interact_failed append_built_data_def)

lemma answered_iff:
  "answered expected k cs v \<longleftrightarrow>
     (\<exists>fails r. cs = fails @ [r] \<and> (\<forall>f\<in>set fails. failed_response expected k f)
        \<and> performative r = expected \<and> body r k = Some v)"
proof
  assume a: "answered expected k cs v"
  then have "cs = butlast cs @ [last cs]" by (simp add: answered_def)
  with a show "\<exists>fails r. cs = fails @ [r] \<and> (\<forall>f\<in>set fails. failed_response expected k f)
        \<and> performative r = expected \<and> body r k = Some v"
    by (intro exI[of _ "butlast cs"] exI[of _ "last cs"]) (auto simp: answered_def list_all_iff)
next
  assume "\<exists>fails r. cs = fails @ [r] \<and> (\<forall>f\<in>set fails. failed_response expected k f)
        \<and> performative r = expected \<and> body r k = Some v"
  then show "answered expected k cs v" by (auto simp: answered_def list_all_iff)
qed

text \<open>A builder of the redemption under the controller, exactly.\<close>

lemma wait_builder_exact:
  assumes w: "wait_for_condition_with_sleep
       (rqf, \<lambda>r s. append_built_data target (contract_interact ''data'' (built_data_setter lib) r s)) s w
       = Returned (s', w')"
  shows "\<exists>cs rq v d. pending w = cs @ pending w' \<and> answered RAW_TRANSACTION ''data'' cs v
      \<and> HexBytes lib v = Inr d \<and> rqf s = Inr rq \<and> sent w' = sent w @ replicate (length cs) rq
      \<and> s' = s\<lparr>built_data := Some d,
               multisend_batches := multisend_batches s @ [MultisendBatch target d]\<rparr>"
proof -
  let ?h = "\<lambda>r s. append_built_data target (contract_interact ''data'' (built_data_setter lib) r s)"
  have fu: "fail_unchanged ?h"
    using append_built_data_cases by (fastforce simp: fail_unchanged_def)
  from wait_exact[OF w fu] obtain cs rq where
    a: "cs \<noteq> []" "pending w = cs @ pending w'" "rqf s = Inr rq"
       "sent w' = sent w @ replicate (length cs) rq"
       "?h (last cs) s = Inr (True, s')" "\<forall>f\<in>set (butlast cs). ?h f s = Inr (False, s)" by blast
  from builder_True[OF a(5)] obtain v d where
    b: "performative (last cs) = RAW_TRANSACTION" "body (last cs) ''data'' = Some v"
       "HexBytes lib v = Inr d"
       "s' = s\<lparr>built_data := Some d,
               multisend_batches := multisend_batches s @ [MultisendBatch target d]\<rparr>" by blast
  have "\<forall>f\<in>set (butlast cs). failed_response RAW_TRANSACTION ''data'' f"
    using a(6) builder_False by blast
  with a(1) b(1,2) have "answered RAW_TRANSACTION ''data'' cs v"
    by (simp add: answered_def list_all_iff)
  with a b show ?thesis by blast
qed

lemma wait_builder_forward:
  assumes "answered RAW_TRANSACTION ''data'' cs v" and "HexBytes lib v = Inr d" and "rqf s = Inr rq"
  shows "wait_for_condition_with_sleep
       (rqf, \<lambda>r s. append_built_data target (contract_interact ''data'' (built_data_setter lib) r s)) s
       \<lparr>sent = log, pending = cs @ rest\<rparr>
     = Returned (s\<lparr>built_data := Some d,
               multisend_batches := multisend_batches s @ [MultisendBatch target d]\<rparr>,
         \<lparr>sent = log @ replicate (length cs) rq, pending = rest\<rparr>)"
proof (rule wait_forward_consumed[where rqf=rqf and s=s
      and h="\<lambda>r s. append_built_data target (contract_interact ''data'' (built_data_setter lib) r s)",
      OF assms(3)])
  show "cs \<noteq> []" using assms(1) by (simp add: answered_def)
  show "\<forall>f\<in>set (butlast cs).
       append_built_data target (contract_interact ''data'' (built_data_setter lib) f s) = Inr (False, s)"
    using assms(1) by (auto simp: answered_def list_all_iff builder_failed)
  show "append_built_data target (contract_interact ''data'' (built_data_setter lib) (last cs) s)
     = Inr (True, s\<lparr>built_data := Some d,
               multisend_batches := multisend_batches s @ [MultisendBatch target d]\<rparr>)"
    using assms(1,2) by (intro builder_good) (auto simp: answered_def)
qed

lemma redeem_requests:
  assumes "current_redeem_info_attr s = Some cand"
  shows "check_already_resolved_request c s = Inr (resolved_query c cand)"
    and "build_resolve_data_request c s = Inr (resolve_call c cand)"
    and "build_claim_data_request c s = Inr (claim_call c (from_block s) cand)"
    and "build_redeem_data_request c s = Inr (redeem_call c cand)"
  using assms
  by (simp_all add: check_already_resolved_request_def build_resolve_data_request_def
        build_claim_data_request_def build_redeem_data_request_def
        current_condition_id_def current_condition_def current_fpmm_def current_question_id_def
        current_redeem_info_def conditional_tokens_request_def resolved_query_def resolve_call_def
        claim_call_def redeem_call_def ZERO_BYTES_def)

lemma check_already_resolved_request_current:
  "check_already_resolved_request c s = Inr rq \<Longrightarrow> \<exists>cand. current_redeem_info_attr s = Some cand"
  by (cases "current_redeem_info_attr s")
     (auto simp: check_already_resolved_request_def current_condition_id_def current_condition_def
        current_fpmm_def current_redeem_info_def)

lemma builders_unfold:
  "build_resolve_data lib c = (\<lambda>r s. append_built_data (realitio_proxy_address c)
       (contract_interact ''data'' (built_data_setter lib) r s))"
  "build_claim_data lib c = (\<lambda>r s. append_built_data (realitio_address c)
       (contract_interact ''data'' (built_data_setter lib) r s))"
  "build_redeem_data lib c = (\<lambda>r s. append_built_data (conditional_tokens_address c)
       (contract_interact ''data'' (built_data_setter lib) r s))"
  by (intro ext, simp add: build_resolve_data_def build_claim_data_def build_redeem_data_def)+

lemma wait_check_resolved_exact:
  assumes "wait_for_condition_with_sleep (check_already_resolved_request c, check_already_resolved) s w
     = Returned (s', w')"
  shows "\<exists>cs flag cand. pending w = cs @ pending w' \<and> answered RAW_TRANSACTION ''resolved'' cs flag
      \<and> current_redeem_info_attr s = Some cand
      \<and> sent w' = sent w @ replicate (length cs) (resolved_query c cand)
      \<and> s' = s\<lparr>already_resolved := flag\<rparr>"
proof -
  from wait_exact[OF assms check_already_resolved_fail] obtain cs rq where
    a: "cs \<noteq> []" "pending w = cs @ pending w'" "check_already_resolved_request c s = Inr rq"
       "sent w' = sent w @ replicate (length cs) rq"
       "check_already_resolved (last cs) s = Inr (True, s')"
       "\<forall>f\<in>set (butlast cs). check_already_resolved f s = Inr (False, s)" by blast
  from check_already_resolved_request_current[OF a(3)] obtain cand where
    cur: "current_redeem_info_attr s = Some cand" by blast
  with a(3) have rq: "rq = resolved_query c cand" by (simp add: redeem_requests)
  from a(5) obtain flag where
    f: "performative (last cs) = RAW_TRANSACTION" "body (last cs) ''resolved'' = Some flag"
       "s' = s\<lparr>already_resolved := flag\<rparr>"
    by (auto simp: check_already_resolved_def already_resolved_setter_def dest!: contract_interact_True)
  have "\<forall>f\<in>set (butlast cs). failed_response RAW_TRANSACTION ''resolved'' f"
    using a(6) contract_interact_False by (fastforce simp: check_already_resolved_def)
  with a(1) f(1,2) have "answered RAW_TRANSACTION ''resolved'' cs flag"
    by (simp add: answered_def list_all_iff)
  with a(2,4) cur rq f(3) show ?thesis by blast
qed

lemma wait_check_resolved_forward:
  assumes "answered RAW_TRANSACTION ''resolved'' cs flag" and "current_redeem_info_attr s = Some cand"
  shows "wait_for_condition_with_sleep (check_already_resolved_request c, check_already_resolved) s
       \<lparr>sent = log, pending = cs @ rest\<rparr>
     = Returned (s\<lparr>already_resolved := flag\<rparr>,
         \<lparr>sent = log @ replicate (length cs) (resolved_query c cand), pending = rest\<rparr>)"
proof (rule wait_forward_consumed[where rqf="check_already_resolved_request c" and s=s
      and h=check_already_resolved])
  show "check_already_resolved_request c s = Inr (resolved_query c cand)"
    by (rule redeem_requests[OF assms(2)])
  show "cs \<noteq> []" using assms(1) by (simp add: answered_def)
  show "\<forall>f\<in>set (butlast cs). check_already_resolved f s = Inr (False, s)"
    using assms(1)
    by (auto simp: answered_def list_all_iff check_already_resolved_def contract_interact_failed)
  show "check_already_resolved (last cs) s = Inr (True, s\<lparr>already_resolved := flag\<rparr>)"
    using assms(1)
    by (simp add: answered_def check_already_resolved_def contract_interact_def
          already_resolved_setter_def)
qed

lemma prepare_single_redeem_exact:
  assumes r: "prepare_single_redeem lib c s w = Returned (s', w')"
  shows "\<exists>cand c0 c1 c2 c3 flag v1 v2 v3 d1 d2 d3.
      current_redeem_info_attr s = Some cand
    \<and> pending w = c0 @ c1 @ c2 @ c3 @ pending w'
    \<and> answered RAW_TRANSACTION ''resolved'' c0 flag
    \<and> (if truthy flag then c1 = []
        else answered RAW_TRANSACTION ''data'' c1 v1 \<and> HexBytes lib v1 = Inr d1)
    \<and> answered RAW_TRANSACTION ''data'' c2 v2 \<and> HexBytes lib v2 = Inr d2
    \<and> answered RAW_TRANSACTION ''data'' c3 v3 \<and> HexBytes lib v3 = Inr d3
    \<and> sent w' = sent w @ replicate (length c0) (resolved_query c cand)
                 @ replicate (length c1) (resolve_call c cand)
                 @ replicate (length c2) (claim_call c (from_block s) cand)
                 @ replicate (length c3) (redeem_call c cand)
    \<and> s' = s\<lparr>already_resolved := flag, built_data := Some d3,
             multisend_batches := multisend_batches s @
               (if truthy flag then [] else [MultisendBatch (realitio_proxy_address c) d1])
               @ [MultisendBatch (realitio_address c) d2,
                  MultisendBatch (conditional_tokens_address c) d3]\<rparr>"
proof -
  from r obtain s0 w0 where
    a: "wait_for_condition_with_sleep (check_already_resolved_request c, check_already_resolved) s w = Returned (s0, w0)"
    and b: "for_steps
       ((if truthy (already_resolved s0) then []
         else [(build_resolve_data_request c, build_resolve_data lib c)])
        @ [(build_claim_data_request c, build_claim_data lib c),
           (build_redeem_data_request c, build_redeem_data lib c)]) s0 w0 = Returned (s', w')"
    by (auto simp: prepare_single_redeem_def and_then_Returned)
  from wait_check_resolved_exact[OF a] obtain c0 flag cand where
    p0: "pending w = c0 @ pending w0" and a0: "answered RAW_TRANSACTION ''resolved'' c0 flag"
    and cur: "current_redeem_info_attr s = Some cand"
    and l0: "sent w0 = sent w @ replicate (length c0) (resolved_query c cand)"
    and s0: "s0 = s\<lparr>already_resolved := flag\<rparr>" by blast
  have fl: "already_resolved s0 = flag" by (simp add: s0)
  have cur0: "current_redeem_info_attr s0 = Some cand" and fb0: "from_block s0 = from_block s"
    by (simp_all add: s0 cur)
  show ?thesis
  proof (cases "truthy flag")
    case True
    with b fl obtain s2 w2 where
      c2: "wait_for_condition_with_sleep (build_claim_data_request c, build_claim_data lib c) s0 w0 = Returned (s2, w2)"
      and c3: "wait_for_condition_with_sleep (build_redeem_data_request c, build_redeem_data lib c) s2 w2 = Returned (s', w')"
      by (auto simp: for_steps_Cons_Returned for_steps_Nil_Returned simp del: for_steps.simps)
    from wait_builder_exact[OF c2[unfolded builders_unfold]] obtain cs2 rq2 v2 d2 where
      p2: "pending w0 = cs2 @ pending w2" and a2: "answered RAW_TRANSACTION ''data'' cs2 v2"
        "HexBytes lib v2 = Inr d2"
      and q2: "build_claim_data_request c s0 = Inr rq2"
      and l2: "sent w2 = sent w0 @ replicate (length cs2) rq2"
      and s2: "s2 = s0\<lparr>built_data := Some d2,
               multisend_batches := multisend_batches s0 @ [MultisendBatch (realitio_address c) d2]\<rparr>"
      by blast
    have cur2: "current_redeem_info_attr s2 = Some cand" by (simp add: s2 cur0)
    from wait_builder_exact[OF c3[unfolded builders_unfold]] obtain cs3 rq3 v3 d3 where
      p3: "pending w2 = cs3 @ pending w'" and a3: "answered RAW_TRANSACTION ''data'' cs3 v3"
        "HexBytes lib v3 = Inr d3"
      and q3: "build_redeem_data_request c s2 = Inr rq3"
      and l3: "sent w' = sent w2 @ replicate (length cs3) rq3"
      and s3: "s' = s2\<lparr>built_data := Some d3,
               multisend_batches := multisend_batches s2 @ [MultisendBatch (conditional_tokens_address c) d3]\<rparr>"
      by blast
    have rq2: "rq2 = claim_call c (from_block s) cand"
      using q2 redeem_requests(3)[OF cur0, of c] fb0 by simp
    have rq3: "rq3 = redeem_call c cand" using q3 redeem_requests(4)[OF cur2, of c] by simp
    have pe: "pending w = c0 @ [] @ cs2 @ cs3 @ pending w'" by (simp add: p0 p2 p3)
    have lg: "sent w' = sent w @ replicate (length c0) (resolved_query c cand)
                 @ replicate (length ([]::response_msg list)) (resolve_call c cand)
                 @ replicate (length cs2) (claim_call c (from_block s) cand)
                 @ replicate (length cs3) (redeem_call c cand)"
      by (simp add: l3 l2 l0 rq2 rq3)
    have st: "s' = s\<lparr>already_resolved := flag, built_data := Some d3,
             multisend_batches := multisend_batches s @
               (if truthy flag then [] else [MultisendBatch (realitio_proxy_address c) d2])
               @ [MultisendBatch (realitio_address c) d2,
                  MultisendBatch (conditional_tokens_address c) d3]\<rparr>"
      using True by (simp add: s3 s2 s0)
    have c1: "if truthy flag then ([]::response_msg list) = []
        else answered RAW_TRANSACTION ''data'' [] v2 \<and> HexBytes lib v2 = Inr d2"
      using True by simp
    show ?thesis
      by (rule exI[of _ cand], rule exI[of _ c0], rule exI[of _ "[]"], rule exI[of _ cs2], rule exI[of _ cs3], rule exI[of _ flag], rule exI[of _ v2], rule exI[of _ v2], rule exI[of _ v3], rule exI[of _ d2], rule exI[of _ d2], rule exI[of _ d3], intro conjI) (fact cur pe a0 c1 a2 a3 lg st)+
  next
    case False
    with b fl obtain s1 w1 s2 w2 where
      c1: "wait_for_condition_with_sleep (build_resolve_data_request c, build_resolve_data lib c) s0 w0 = Returned (s1, w1)"
      and c2: "wait_for_condition_with_sleep (build_claim_data_request c, build_claim_data lib c) s1 w1 = Returned (s2, w2)"
      and c3: "wait_for_condition_with_sleep (build_redeem_data_request c, build_redeem_data lib c) s2 w2 = Returned (s', w')"
      by (auto simp: for_steps_Cons_Returned for_steps_Nil_Returned simp del: for_steps.simps)
    from wait_builder_exact[OF c1[unfolded builders_unfold]] obtain cs1 rq1 v1 d1 where
      p1: "pending w0 = cs1 @ pending w1" and a1: "answered RAW_TRANSACTION ''data'' cs1 v1"
        "HexBytes lib v1 = Inr d1"
      and q1: "build_resolve_data_request c s0 = Inr rq1"
      and l1: "sent w1 = sent w0 @ replicate (length cs1) rq1"
      and s1: "s1 = s0\<lparr>built_data := Some d1,
               multisend_batches := multisend_batches s0 @ [MultisendBatch (realitio_proxy_address c) d1]\<rparr>"
      by blast
    have cur1: "current_redeem_info_attr s1 = Some cand" and fb1: "from_block s1 = from_block s"
      by (simp_all add: s1 cur0 fb0)
    from wait_builder_exact[OF c2[unfolded builders_unfold]] obtain cs2 rq2 v2 d2 where
      p2: "pending w1 = cs2 @ pending w2" and a2: "answered RAW_TRANSACTION ''data'' cs2 v2"
        "HexBytes lib v2 = Inr d2"
      and q2: "build_claim_data_request c s1 = Inr rq2"
      and l2: "sent w2 = sent w1 @ replicate (length cs2) rq2"
      and s2: "s2 = s1\<lparr>built_data := Some d2,
               multisend_batches := multisend_batches s1 @ [MultisendBatch (realitio_address c) d2]\<rparr>"
      by blast
    have cur2: "current_redeem_info_attr s2 = Some cand" by (simp add: s2 cur1)
    from wait_builder_exact[OF c3[unfolded builders_unfold]] obtain cs3 rq3 v3 d3 where
      p3: "pending w2 = cs3 @ pending w'" and a3: "answered RAW_TRANSACTION ''data'' cs3 v3"
        "HexBytes lib v3 = Inr d3"
      and q3: "build_redeem_data_request c s2 = Inr rq3"
      and l3: "sent w' = sent w2 @ replicate (length cs3) rq3"
      and s3: "s' = s2\<lparr>built_data := Some d3,
               multisend_batches := multisend_batches s2 @ [MultisendBatch (conditional_tokens_address c) d3]\<rparr>"
      by blast
    have rq1: "rq1 = resolve_call c cand" using q1 redeem_requests(2)[OF cur0, of c] by simp
    have rq2: "rq2 = claim_call c (from_block s) cand"
      using q2 redeem_requests(3)[OF cur1, of c] fb1 by simp
    have rq3: "rq3 = redeem_call c cand" using q3 redeem_requests(4)[OF cur2, of c] by simp
    have pe: "pending w = c0 @ cs1 @ cs2 @ cs3 @ pending w'" by (simp add: p0 p1 p2 p3)
    have lg: "sent w' = sent w @ replicate (length c0) (resolved_query c cand)
                 @ replicate (length cs1) (resolve_call c cand)
                 @ replicate (length cs2) (claim_call c (from_block s) cand)
                 @ replicate (length cs3) (redeem_call c cand)"
      by (simp add: l3 l2 l1 l0 rq1 rq2 rq3)
    have st: "s' = s\<lparr>already_resolved := flag, built_data := Some d3,
             multisend_batches := multisend_batches s @
               (if truthy flag then [] else [MultisendBatch (realitio_proxy_address c) d1])
               @ [MultisendBatch (realitio_address c) d2,
                  MultisendBatch (conditional_tokens_address c) d3]\<rparr>"
      using False by (simp add: s3 s2 s1 s0)
    have c1': "if truthy flag then cs1 = []
        else answered RAW_TRANSACTION ''data'' cs1 v1 \<and> HexBytes lib v1 = Inr d1"
      using False a1 by simp
    show ?thesis
      by (rule exI[of _ cand], rule exI[of _ c0], rule exI[of _ cs1], rule exI[of _ cs2], rule exI[of _ cs3], rule exI[of _ flag], rule exI[of _ v1], rule exI[of _ v2], rule exI[of _ v3], rule exI[of _ d1], rule exI[of _ d2], rule exI[of _ d3], intro conjI) (fact cur pe a0 c1' a2 a3 lg st)+
  qed
qed

lemma wait_resolve_forward:
  assumes "answered RAW_TRANSACTION ''data'' cs v" and "HexBytes lib v = Inr d"
    and "current_redeem_info_attr s = Some cand"
  shows "wait_for_condition_with_sleep (build_resolve_data_request c, build_resolve_data lib c) s
       \<lparr>sent = log, pending = cs @ rest\<rparr>
     = Returned (s\<lparr>built_data := Some d,
               multisend_batches := multisend_batches s @ [MultisendBatch (realitio_proxy_address c) d]\<rparr>,
         \<lparr>sent = log @ replicate (length cs) (resolve_call c cand), pending = rest\<rparr>)"
  unfolding builders_unfold
  by (rule wait_builder_forward[where rqf="build_resolve_data_request c" and s=s, OF assms(1,2) redeem_requests(2)[OF assms(3)]])

lemma wait_claim_forward:
  assumes "answered RAW_TRANSACTION ''data'' cs v" and "HexBytes lib v = Inr d"
    and "current_redeem_info_attr s = Some cand"
  shows "wait_for_condition_with_sleep (build_claim_data_request c, build_claim_data lib c) s
       \<lparr>sent = log, pending = cs @ rest\<rparr>
     = Returned (s\<lparr>built_data := Some d,
               multisend_batches := multisend_batches s @ [MultisendBatch (realitio_address c) d]\<rparr>,
         \<lparr>sent = log @ replicate (length cs) (claim_call c (from_block s) cand), pending = rest\<rparr>)"
  unfolding builders_unfold
  by (rule wait_builder_forward[where rqf="build_claim_data_request c" and s=s, OF assms(1,2) redeem_requests(3)[OF assms(3)]])

lemma wait_redeem_forward:
  assumes "answered RAW_TRANSACTION ''data'' cs v" and "HexBytes lib v = Inr d"
    and "current_redeem_info_attr s = Some cand"
  shows "wait_for_condition_with_sleep (build_redeem_data_request c, build_redeem_data lib c) s
       \<lparr>sent = log, pending = cs @ rest\<rparr>
     = Returned (s\<lparr>built_data := Some d,
               multisend_batches := multisend_batches s @ [MultisendBatch (conditional_tokens_address c) d]\<rparr>,
         \<lparr>sent = log @ replicate (length cs) (redeem_call c cand), pending = rest\<rparr>)"
  unfolding builders_unfold
  by (rule wait_builder_forward[where rqf="build_redeem_data_request c" and s=s, OF assms(1,2) redeem_requests(4)[OF assms(3)]])

lemma prepare_single_redeem_forward:
  assumes cur: "current_redeem_info_attr s = Some cand"
    and a0: "answered RAW_TRANSACTION ''resolved'' c0 flag"
    and a1: "if truthy flag then c1 = []
             else answered RAW_TRANSACTION ''data'' c1 v1 \<and> HexBytes lib v1 = Inr d1"
    and a2: "answered RAW_TRANSACTION ''data'' c2 v2" "HexBytes lib v2 = Inr d2"
    and a3: "answered RAW_TRANSACTION ''data'' c3 v3" "HexBytes lib v3 = Inr d3"
  shows "prepare_single_redeem lib c s \<lparr>sent = log, pending = c0 @ c1 @ c2 @ c3 @ rest\<rparr>
     = Returned (s\<lparr>already_resolved := flag, built_data := Some d3,
             multisend_batches := multisend_batches s @
               (if truthy flag then [] else [MultisendBatch (realitio_proxy_address c) d1])
               @ [MultisendBatch (realitio_address c) d2,
                  MultisendBatch (conditional_tokens_address c) d3]\<rparr>,
         \<lparr>sent = log @ replicate (length c0) (resolved_query c cand)
                 @ replicate (length c1) (resolve_call c cand)
                 @ replicate (length c2) (claim_call c (from_block s) cand)
                 @ replicate (length c3) (redeem_call c cand),
          pending = rest\<rparr>)"
proof -
  let ?s0 = "s\<lparr>already_resolved := flag\<rparr>"
  let ?l0 = "log @ replicate (length c0) (resolved_query c cand)"
  have w0: "wait_for_condition_with_sleep (check_already_resolved_request c, check_already_resolved) s
       \<lparr>sent = log, pending = c0 @ c1 @ c2 @ c3 @ rest\<rparr>
     = Returned (?s0, \<lparr>sent = ?l0, pending = c1 @ c2 @ c3 @ rest\<rparr>)"
    by (rule wait_check_resolved_forward[OF a0 cur])
  have cur0: "current_redeem_info_attr ?s0 = Some cand" by (simp add: cur)
  show ?thesis
  proof (cases "truthy flag")
    case True
    with a1 have c1: "c1 = []" by simp
    let ?s2 = "?s0\<lparr>built_data := Some d2,
               multisend_batches := multisend_batches ?s0 @ [MultisendBatch (realitio_address c) d2]\<rparr>"
    let ?l2 = "?l0 @ replicate (length c2) (claim_call c (from_block ?s0) cand)"
    have w2: "wait_for_condition_with_sleep (build_claim_data_request c, build_claim_data lib c) ?s0
       \<lparr>sent = ?l0, pending = c2 @ c3 @ rest\<rparr>
       = Returned (?s2, \<lparr>sent = ?l2, pending = c3 @ rest\<rparr>)"
      by (rule wait_claim_forward[OF a2 cur0])
    have cur2: "current_redeem_info_attr ?s2 = Some cand" by (simp add: cur)
    have w3: "wait_for_condition_with_sleep (build_redeem_data_request c, build_redeem_data lib c) ?s2
       \<lparr>sent = ?l2, pending = c3 @ rest\<rparr>
       = Returned (?s2\<lparr>built_data := Some d3,
               multisend_batches := multisend_batches ?s2 @ [MultisendBatch (conditional_tokens_address c) d3]\<rparr>,
           \<lparr>sent = ?l2 @ replicate (length c3) (redeem_call c cand), pending = rest\<rparr>)"
      by (rule wait_redeem_forward[OF a3 cur2])
    show ?thesis
      unfolding prepare_single_redeem_def
      using True by (simp add: w0[unfolded c1 append_Nil] c1 and_then_def w2 w3[simplified])
  next
    case False
    with a1 have a1': "answered RAW_TRANSACTION ''data'' c1 v1" "HexBytes lib v1 = Inr d1" by simp_all
    let ?s1 = "?s0\<lparr>built_data := Some d1,
               multisend_batches := multisend_batches ?s0 @ [MultisendBatch (realitio_proxy_address c) d1]\<rparr>"
    let ?l1 = "?l0 @ replicate (length c1) (resolve_call c cand)"
    have w1: "wait_for_condition_with_sleep (build_resolve_data_request c, build_resolve_data lib c) ?s0
       \<lparr>sent = ?l0, pending = c1 @ c2 @ c3 @ rest\<rparr>
       = Returned (?s1, \<lparr>sent = ?l1, pending = c2 @ c3 @ rest\<rparr>)"
      by (rule wait_resolve_forward[OF a1' cur0])
    have cur1: "current_redeem_info_attr ?s1 = Some cand" by (simp add: cur)
    let ?s2 = "?s1\<lparr>built_data := Some d2,
               multisend_batches := multisend_batches ?s1 @ [MultisendBatch (realitio_address c) d2]\<rparr>"
    let ?l2 = "?l1 @ replicate (length c2) (claim_call c (from_block ?s1) cand)"
    have w2: "wait_for_condition_with_sleep (build_claim_data_request c, build_claim_data lib c) ?s1
       \<lparr>sent = ?l1, pending = c2 @ c3 @ rest\<rparr>
       = Returned (?s2, \<lparr>sent = ?l2, pending = c3 @ rest\<rparr>)"
      by (rule wait_claim_forward[OF a2 cur1])
    have cur2: "current_redeem_info_attr ?s2 = Some cand" by (simp add: cur)
    have w3: "wait_for_condition_with_sleep (build_redeem_data_request c, build_redeem_data lib c) ?s2
       \<lparr>sent = ?l2, pending = c3 @ rest\<rparr>
       = Returned (?s2\<lparr>built_data := Some d3,
               multisend_batches := multisend_batches ?s2 @ [MultisendBatch (conditional_tokens_address c) d3]\<rparr>,
           \<lparr>sent = ?l2 @ replicate (length c3) (redeem_call c cand), pending = rest\<rparr>)"
      by (rule wait_redeem_forward[OF a3 cur2])
    show ?thesis
      unfolding prepare_single_redeem_def
      using False by (simp add: w0 and_then_def w1 w2[simplified] w3[simplified])
  qed
qed

lemma process_candidate_forward:
  assumes nd: "non_dust_winning c cand"
    and a0: "answered RAW_TRANSACTION ''resolved'' c0 flag"
    and a1: "if truthy flag then c1 = []
             else answered RAW_TRANSACTION ''data'' c1 v1 \<and> HexBytes lib v1 = Inr d1"
    and a2: "answered RAW_TRANSACTION ''data'' c2 v2" "HexBytes lib v2 = Inr d2"
    and a3: "answered RAW_TRANSACTION ''data'' c3 v3" "HexBytes lib v3 = Inr d3"
  shows "process_candidate lib c cand s \<lparr>sent = log, pending = c0 @ c1 @ c2 @ c3 @ rest\<rparr>
     = Returned (True,
         s\<lparr>already_resolved := flag, built_data := Some d3,
           current_redeem_info_attr := Some cand,
           expected_winnings := expected_winnings s + claimable_amount cand,
           multisend_batches := multisend_batches s @
               (if truthy flag then [] else [MultisendBatch (realitio_proxy_address c) d1])
               @ [MultisendBatch (realitio_address c) d2,
                  MultisendBatch (conditional_tokens_address c) d3]\<rparr>,
         \<lparr>sent = log @ replicate (length c0) (resolved_query c cand)
                 @ replicate (length c1) (resolve_call c cand)
                 @ replicate (length c2) (claim_call c (from_block s) cand)
                 @ replicate (length c3) (redeem_call c cand),
          pending = rest\<rparr>)"
proof -
  let ?s1 = "s\<lparr>current_redeem_info_attr := Some cand\<rparr>"
  have cur: "current_redeem_info_attr ?s1 = Some cand" by simp
  note p = prepare_single_redeem_forward[OF cur a0 a1 a2 a3, of c log rest]
  show ?thesis
    using nd
    by (simp add: process_candidate_def non_dust_winning_def is_winning_position_def is_dust_def
          current_redeem_info_def raising_def Let_def p and_then_def)
qed

lemma process_candidate_exact:
  assumes nd: "non_dust_winning c cand"
    and r: "process_candidate lib c cand s w = Returned (ok, s', w')"
  shows "ok \<and> (\<exists>c0 c1 c2 c3 flag v1 v2 v3 d1 d2 d3.
      pending w = c0 @ c1 @ c2 @ c3 @ pending w'
    \<and> answered RAW_TRANSACTION ''resolved'' c0 flag
    \<and> (if truthy flag then c1 = []
        else answered RAW_TRANSACTION ''data'' c1 v1 \<and> HexBytes lib v1 = Inr d1)
    \<and> answered RAW_TRANSACTION ''data'' c2 v2 \<and> HexBytes lib v2 = Inr d2
    \<and> answered RAW_TRANSACTION ''data'' c3 v3 \<and> HexBytes lib v3 = Inr d3
    \<and> sent w' = sent w @ replicate (length c0) (resolved_query c cand)
                 @ replicate (length c1) (resolve_call c cand)
                 @ replicate (length c2) (claim_call c (from_block s) cand)
                 @ replicate (length c3) (redeem_call c cand)
    \<and> s' = s\<lparr>already_resolved := flag, built_data := Some d3,
             current_redeem_info_attr := Some cand,
             expected_winnings := expected_winnings s + claimable_amount cand,
             multisend_batches := multisend_batches s @
               (if truthy flag then [] else [MultisendBatch (realitio_proxy_address c) d1])
               @ [MultisendBatch (realitio_address c) d2,
                  MultisendBatch (conditional_tokens_address c) d3]\<rparr>)"
proof -
  let ?s1 = "s\<lparr>current_redeem_info_attr := Some cand\<rparr>"
  from nd r obtain s2 w2 info where
    p: "prepare_single_redeem lib c ?s1 w = Returned (s2, w2)"
    and i: "current_redeem_info s2 = Inr info"
    and e: "ok" "s' = s2\<lparr>expected_winnings := expected_winnings s2 + claimable_amount info\<rparr>" "w' = w2"
    by (auto simp: process_candidate_def non_dust_winning_def is_winning_position_def is_dust_def
         current_redeem_info_def raising_def Let_def and_then_Returned split: option.splits)
  from prepare_single_redeem_exact[OF p] obtain cand' c0 c1 c2 c3 flag v1 v2 v3 d1 d2 d3 where
    x: "current_redeem_info_attr ?s1 = Some cand'"
      "pending w = c0 @ c1 @ c2 @ c3 @ pending w2"
      "answered RAW_TRANSACTION ''resolved'' c0 flag"
      "if truthy flag then c1 = []
        else answered RAW_TRANSACTION ''data'' c1 v1 \<and> HexBytes lib v1 = Inr d1"
      "answered RAW_TRANSACTION ''data'' c2 v2" "HexBytes lib v2 = Inr d2"
      "answered RAW_TRANSACTION ''data'' c3 v3" "HexBytes lib v3 = Inr d3"
      "sent w2 = sent w @ replicate (length c0) (resolved_query c cand')
                 @ replicate (length c1) (resolve_call c cand')
                 @ replicate (length c2) (claim_call c (from_block ?s1) cand')
                 @ replicate (length c3) (redeem_call c cand')"
      "s2 = ?s1\<lparr>already_resolved := flag, built_data := Some d3,
             multisend_batches := multisend_batches ?s1 @
               (if truthy flag then [] else [MultisendBatch (realitio_proxy_address c) d1])
               @ [MultisendBatch (realitio_address c) d2,
                  MultisendBatch (conditional_tokens_address c) d3]\<rparr>"
    by blast
  from x(1) have cd: "cand' = cand" by simp
  have cur2: "current_redeem_info_attr s2 = Some cand" by (subst x(10)) simp
  with i have info: "info = cand" by (simp add: current_redeem_info_def)
  have ew: "expected_winnings s2 = expected_winnings s" by (subst x(10)) simp
  have pe: "pending w = c0 @ c1 @ c2 @ c3 @ pending w'" using x(2) e(3) by simp
  have lg: "sent w' = sent w @ replicate (length c0) (resolved_query c cand)
                 @ replicate (length c1) (resolve_call c cand)
                 @ replicate (length c2) (claim_call c (from_block s) cand)
                 @ replicate (length c3) (redeem_call c cand)"
    using x(9) e(3) cd by simp
  have st: "s' = s\<lparr>already_resolved := flag, built_data := Some d3,
             current_redeem_info_attr := Some cand,
             expected_winnings := expected_winnings s + claimable_amount cand,
             multisend_batches := multisend_batches s @
               (if truthy flag then [] else [MultisendBatch (realitio_proxy_address c) d1])
               @ [MultisendBatch (realitio_address c) d2,
                  MultisendBatch (conditional_tokens_address c) d3]\<rparr>"
    unfolding e(2) info ew by (subst x(10)) simp
  have "\<exists>c0 c1 c2 c3 flag v1 v2 v3 d1 d2 d3.
      pending w = c0 @ c1 @ c2 @ c3 @ pending w'
    \<and> answered RAW_TRANSACTION ''resolved'' c0 flag
    \<and> (if truthy flag then c1 = []
        else answered RAW_TRANSACTION ''data'' c1 v1 \<and> HexBytes lib v1 = Inr d1)
    \<and> answered RAW_TRANSACTION ''data'' c2 v2 \<and> HexBytes lib v2 = Inr d2
    \<and> answered RAW_TRANSACTION ''data'' c3 v3 \<and> HexBytes lib v3 = Inr d3
    \<and> sent w' = sent w @ replicate (length c0) (resolved_query c cand)
                 @ replicate (length c1) (resolve_call c cand)
                 @ replicate (length c2) (claim_call c (from_block s) cand)
                 @ replicate (length c3) (redeem_call c cand)
    \<and> s' = s\<lparr>already_resolved := flag, built_data := Some d3,
             current_redeem_info_attr := Some cand,
             expected_winnings := expected_winnings s + claimable_amount cand,
             multisend_batches := multisend_batches s @
               (if truthy flag then [] else [MultisendBatch (realitio_proxy_address c) d1])
               @ [MultisendBatch (realitio_address c) d2,
                  MultisendBatch (conditional_tokens_address c) d3]\<rparr>"
    by (rule exI[of _ c0], rule exI[of _ c1], rule exI[of _ c2], rule exI[of _ c3],
        rule exI[of _ flag], rule exI[of _ v1], rule exI[of _ v2], rule exI[of _ v3],
        rule exI[of _ d1], rule exI[of _ d2], rule exI[of _ d3], intro conjI)
       (fact pe x(3-8) lg st)+
  with e(1) show ?thesis by blast
qed

lemma for_steps_consumes:
  assumes "list_all (\<lambda>st. fail_unchanged (snd st)) sts"
    and "for_steps sts s w = Returned (s', w')"
  shows "\<exists>cs new. pending w = cs @ pending w' \<and> sent w' = sent w @ new"
  using assms
proof (induction sts arbitrary: s w)
  case Nil
  then show ?case by simp
next
  case (Cons st sts)
  from Cons.prems(2) obtain s1 w1 where
    a: "wait_for_condition_with_sleep st s w = Returned (s1, w1)"
    and b: "for_steps sts s1 w1 = Returned (s', w')"
    by (auto simp: for_steps_Cons_Returned simp del: for_steps.simps)
  from Cons.prems(1) have fu: "fail_unchanged (snd st)" and rest: "list_all (\<lambda>st. fail_unchanged (snd st)) sts"
    by simp_all
  from a have a': "wait_for_condition_with_sleep (fst st, snd st) s w = Returned (s1, w1)" by simp
  from wait_exact[OF a' fu] obtain cs rq where
    c: "pending w = cs @ pending w1" "sent w1 = sent w @ replicate (length cs) rq" by blast
  from Cons.IH[OF rest b] obtain cs' new where
    d: "pending w1 = cs' @ pending w'" "sent w' = sent w1 @ new" by blast
  have "pending w = (cs @ cs') @ pending w'" using c(1) d(1) by simp
  moreover have "sent w' = sent w @ (replicate (length cs) rq @ new)" using c(2) d(2) by simp
  ultimately show ?case by blast
qed

lemma multisend_steps_fail: "list_all (\<lambda>st. fail_unchanged (snd st)) (multisend_steps lib c)"
  by (simp add: multisend_steps_def build_multisend_data_fail build_safe_tx_hash_fail)

lemma build_approval_tx_False:
  "build_approval_tx lib c r s = Inr (False, s') \<Longrightarrow> failed_response STATE ''data'' r"
  by (auto simp: build_approval_tx_def failed_response_def split: if_splits option.splits sum.splits)

lemma build_approval_tx_exact:
  "build_approval_tx lib c r s = Inr (True, s') \<Longrightarrow>
     \<exists>v d. performative r = STATE \<and> body r ''data'' = Some v \<and> HexBytes lib v = Inr d
       \<and> s' = s\<lparr>multisend_batches := multisend_batches s @ [MultisendBatch (collateral_token c) d]\<rparr>"
  by (auto simp: build_approval_tx_def split: if_splits option.splits sum.splits)

lemma calc_buy_amount_False:
  "calc_buy_amount lib r s = Inr (False, s') \<Longrightarrow> failed_response RAW_TRANSACTION ''amount'' r"
  by (auto simp: calc_buy_amount_def failed_response_def split: if_splits option.splits sum.splits)

lemma calc_buy_amount_exact:
  "calc_buy_amount lib r s = Inr (True, s') \<Longrightarrow>
     \<exists>v i. performative r = RAW_TRANSACTION \<and> body r ''amount'' = Some v \<and> py_int lib v = Inr i
       \<and> s' = s\<lparr>buy_amount := i\<rparr>"
  by (auto simp: calc_buy_amount_def split: if_splits option.splits sum.splits)

lemma build_buy_tx_False:
  "build_buy_tx lib c r s = Inr (False, s') \<Longrightarrow> failed_response STATE ''data'' r"
  by (auto simp: build_buy_tx_def failed_response_def split: if_splits option.splits sum.splits)

lemma build_buy_tx_exact:
  "build_buy_tx lib c r s = Inr (True, s') \<Longrightarrow>
     \<exists>v d. performative r = STATE \<and> body r ''data'' = Some v \<and> HexBytes lib v = Inr d
       \<and> s' = s\<lparr>multisend_batches := multisend_batches s @ [MultisendBatch (market_maker_contract_address c) d]\<rparr>"
  by (auto simp: build_buy_tx_def split: if_splits option.splits sum.splits)

lemma wait_approval_exact:
  assumes w: "wait_for_condition_with_sleep (\<lambda>s. Inr (build_approval_tx_request c), build_approval_tx lib c) s w
       = Returned (s', w')"
  shows "\<exists>cs v d. pending w = cs @ pending w' \<and> answered STATE ''data'' cs v
      \<and> HexBytes lib v = Inr d
      \<and> sent w' = sent w @ replicate (length cs) (build_approval_tx_request c)
      \<and> s' = s\<lparr>multisend_batches := multisend_batches s @ [MultisendBatch (collateral_token c) d]\<rparr>"
proof -
  from wait_exact[OF w build_approval_tx_fail] obtain cs rq where
    a: "cs \<noteq> []" "pending w = cs @ pending w'" "Inr (build_approval_tx_request c) = (Inr rq :: error + request)"
       "sent w' = sent w @ replicate (length cs) rq"
       "build_approval_tx lib c (last cs) s = Inr (True, s')"
       "\<forall>f\<in>set (butlast cs). build_approval_tx lib c f s = Inr (False, s)" by blast
  from build_approval_tx_exact[OF a(5)] obtain v d where
    b: "performative (last cs) = STATE" "body (last cs) ''data'' = Some v" "HexBytes lib v = Inr d"
       "s' = s\<lparr>multisend_batches := multisend_batches s @ [MultisendBatch (collateral_token c) d]\<rparr>"
    by blast
  have "\<forall>f\<in>set (butlast cs). failed_response STATE ''data'' f"
    using a(6) build_approval_tx_False by blast
  with a(1) b(1,2) have "answered STATE ''data'' cs v" by (simp add: answered_def list_all_iff)
  moreover from a(3) have "rq = build_approval_tx_request c" by simp
  ultimately show ?thesis using a(2,4) b(3,4) by blast
qed

lemma wait_calc_exact:
  assumes w: "wait_for_condition_with_sleep (\<lambda>s. Inr (calc_buy_amount_request c), calc_buy_amount lib) s w
       = Returned (s', w')"
  shows "\<exists>cs v i. pending w = cs @ pending w' \<and> answered RAW_TRANSACTION ''amount'' cs v
      \<and> py_int lib v = Inr i
      \<and> sent w' = sent w @ replicate (length cs) (calc_buy_amount_request c)
      \<and> s' = s\<lparr>buy_amount := i\<rparr>"
proof -
  from wait_exact[OF w calc_buy_amount_fail] obtain cs rq where
    a: "cs \<noteq> []" "pending w = cs @ pending w'" "Inr (calc_buy_amount_request c) = (Inr rq :: error + request)"
       "sent w' = sent w @ replicate (length cs) rq"
       "calc_buy_amount lib (last cs) s = Inr (True, s')"
       "\<forall>f\<in>set (butlast cs). calc_buy_amount lib f s = Inr (False, s)" by blast
  from calc_buy_amount_exact[OF a(5)] obtain v i where
    b: "performative (last cs) = RAW_TRANSACTION" "body (last cs) ''amount'' = Some v" "py_int lib v = Inr i"
       "s' = s\<lparr>buy_amount := i\<rparr>"
    by blast
  have "\<forall>f\<in>set (butlast cs). failed_response RAW_TRANSACTION ''amount'' f"
    using a(6) calc_buy_amount_False by blast
  with a(1) b(1,2) have "answered RAW_TRANSACTION ''amount'' cs v" by (simp add: answered_def list_all_iff)
  moreover from a(3) have "rq = calc_buy_amount_request c" by simp
  ultimately show ?thesis using a(2,4) b(3,4) by blast
qed

lemma wait_buy_exact:
  assumes w: "wait_for_condition_with_sleep (\<lambda>s. Inr (build_buy_tx_request c s), build_buy_tx lib c) s w
       = Returned (s', w')"
  shows "\<exists>cs v d. pending w = cs @ pending w' \<and> answered STATE ''data'' cs v
      \<and> HexBytes lib v = Inr d
      \<and> sent w' = sent w @ replicate (length cs) (build_buy_tx_request c s)
      \<and> s' = s\<lparr>multisend_batches := multisend_batches s @ [MultisendBatch (market_maker_contract_address c) d]\<rparr>"
proof -
  from wait_exact[OF w build_buy_tx_fail] obtain cs rq where
    a: "cs \<noteq> []" "pending w = cs @ pending w'" "Inr (build_buy_tx_request c s) = (Inr rq :: error + request)"
       "sent w' = sent w @ replicate (length cs) rq"
       "build_buy_tx lib c (last cs) s = Inr (True, s')"
       "\<forall>f\<in>set (butlast cs). build_buy_tx lib c f s = Inr (False, s)" by blast
  from build_buy_tx_exact[OF a(5)] obtain v d where
    b: "performative (last cs) = STATE" "body (last cs) ''data'' = Some v" "HexBytes lib v = Inr d"
       "s' = s\<lparr>multisend_batches := multisend_batches s @ [MultisendBatch (market_maker_contract_address c) d]\<rparr>"
    by blast
  have "\<forall>f\<in>set (butlast cs). failed_response STATE ''data'' f"
    using a(6) build_buy_tx_False by blast
  with a(1) b(1,2) have "answered STATE ''data'' cs v" by (simp add: answered_def list_all_iff)
  moreover from a(3) have "rq = build_buy_tx_request c s" by simp
  ultimately show ?thesis using a(2,4) b(3,4) by blast
qed

lemma bet_prepare_safe_tx_exact:
  assumes "bet_prepare_safe_tx lib c s w = Returned (hex, s', w')"
  shows "\<exists>ca cb cc later va vm vb da db more.
      pending w = ca @ cb @ cc @ later @ pending w'
    \<and> answered STATE ''data'' ca va \<and> HexBytes lib va = Inr da
    \<and> answered RAW_TRANSACTION ''amount'' cb vm \<and> py_int lib vm = Inr (buy_amount s')
    \<and> answered STATE ''data'' cc vb \<and> HexBytes lib vb = Inr db
    \<and> sent w' = sent w @ replicate (length ca) (build_approval_tx_request c)
                 @ replicate (length cb) (calc_buy_amount_request c)
                 @ replicate (length cc) (build_buy_tx_request c s') @ more
    \<and> multisend_batches s' = multisend_batches s @
               [MultisendBatch (collateral_token c) da,
                MultisendBatch (market_maker_contract_address c) db]"
proof -
  from assms obtain s3 w3 where
    a: "for_steps [(\<lambda>s. Inr (build_approval_tx_request c), build_approval_tx lib c),
      (\<lambda>s. Inr (calc_buy_amount_request c), calc_buy_amount lib),
      (\<lambda>s. Inr (build_buy_tx_request c s), build_buy_tx lib c)] s w = Returned (s3, w3)"
    and b: "for_steps (multisend_steps lib c) s3 w3 = Returned (s', w')"
    unfolding bet_prepare_safe_tx_def bet_steps_split for_steps_append
    by (auto simp: and_then_Returned raising_Returned)
  from a obtain s1 w1 s2 w2 where
    x: "wait_for_condition_with_sleep (\<lambda>s. Inr (build_approval_tx_request c), build_approval_tx lib c) s w = Returned (s1, w1)"
    and y: "wait_for_condition_with_sleep (\<lambda>s. Inr (calc_buy_amount_request c), calc_buy_amount lib) s1 w1 = Returned (s2, w2)"
    and z: "wait_for_condition_with_sleep (\<lambda>s. Inr (build_buy_tx_request c s), build_buy_tx lib c) s2 w2 = Returned (s3, w3)"
    by (auto simp: for_steps_Cons_Returned for_steps_Nil_Returned simp del: for_steps.simps)
  from wait_approval_exact[OF x] obtain ca va da where
    x1: "pending w = ca @ pending w1" "answered STATE ''data'' ca va" "HexBytes lib va = Inr da"
      "sent w1 = sent w @ replicate (length ca) (build_approval_tx_request c)"
      "s1 = s\<lparr>multisend_batches := multisend_batches s @ [MultisendBatch (collateral_token c) da]\<rparr>"
    by blast
  from wait_calc_exact[OF y] obtain cb vm i where
    y1: "pending w1 = cb @ pending w2" "answered RAW_TRANSACTION ''amount'' cb vm" "py_int lib vm = Inr i"
      "sent w2 = sent w1 @ replicate (length cb) (calc_buy_amount_request c)"
      "s2 = s1\<lparr>buy_amount := i\<rparr>"
    by blast
  from wait_buy_exact[OF z] obtain cc vb db where
    z1: "pending w2 = cc @ pending w3" "answered STATE ''data'' cc vb" "HexBytes lib vb = Inr db"
      "sent w3 = sent w2 @ replicate (length cc) (build_buy_tx_request c s2)"
      "s3 = s2\<lparr>multisend_batches := multisend_batches s2 @ [MultisendBatch (market_maker_contract_address c) db]\<rparr>"
    by blast
  from for_steps_consumes[OF multisend_steps_fail b] obtain later more where
    m: "pending w3 = later @ pending w'" "sent w' = sent w3 @ more" by blast
  from multisend_steps_Returned[OF b] obtain tx_hash where
    s5: "s' = s3\<lparr>multisend_data := multisend_data s', safe_tx_hash := drop 2 tx_hash\<rparr>" by blast
  have ba: "buy_amount s' = i" by (subst s5) (simp add: z1(5) y1(5))
  have mb: "multisend_batches s' = multisend_batches s @
               [MultisendBatch (collateral_token c) da,
                MultisendBatch (market_maker_contract_address c) db]"
    by (subst s5) (simp add: z1(5) y1(5) x1(5))
  have rq: "build_buy_tx_request c s2 = build_buy_tx_request c s'"
    by (simp add: build_buy_tx_request_def ba y1(5))
  have pe: "pending w = ca @ cb @ cc @ later @ pending w'"
    using x1(1) y1(1) z1(1) m(1) by simp
  have lg: "sent w' = sent w @ replicate (length ca) (build_approval_tx_request c)
                 @ replicate (length cb) (calc_buy_amount_request c)
                 @ replicate (length cc) (build_buy_tx_request c s') @ more"
    using x1(4) y1(4) z1(4) m(2) rq by simp
  have pi: "py_int lib vm = Inr (buy_amount s')" using y1(3) ba by simp
  show ?thesis
    by (rule exI[of _ ca], rule exI[of _ cb], rule exI[of _ cc], rule exI[of _ later],
        rule exI[of _ va], rule exI[of _ vm], rule exI[of _ vb], rule exI[of _ da],
        rule exI[of _ db], rule exI[of _ more], intro conjI)
       (fact pe x1(2,3) y1(2) pi z1(2,3) lg mb)+
qed

section \<open>The claims\<close>




text \<open>
  C7. \<^verbatim>\<open>_process_candidate\<close>. When the candidate's outcome index differs from the
  market's current answer index, or its claimable amount is strictly below the dust
  threshold, the step returns false at once: the state changes in the current candidate
  only, so nothing is appended to the batch, and no request is sent and no response
  consumed. Otherwise the candidate's calls are built. A step that returned has returned
  true, and what it did is determined by the responses it consumed: they split into those
  to the resolved query, ending in a flag, those to the resolve call (none when the flag
  is true), those to the claim call and those to the redeem call, each ending in the data
  of the call; the step sent exactly these calls for this candidate, once per response,
  in this order; the batch grew by the resolve entry (when the flag is not true), the
  claim entry and the redeem entry holding these data; the claimable amount was added to
  the expected winnings. Conversely, on responses that split in this way the step
  returns, with this result.
\<close>

theorem process_candidate_eligibility:
  "(outcomeIndex cand \<noteq> current_answer_index (fpmm cand) \<or> claimable_amount cand < dust_threshold c
      \<longrightarrow> process_candidate lib c cand s w
            = Returned (False, s\<lparr>current_redeem_info_attr := Some cand\<rparr>, w))
   \<and> (\<not> (outcomeIndex cand \<noteq> current_answer_index (fpmm cand) \<or> claimable_amount cand < dust_threshold c)
        \<and> process_candidate lib c cand s w = Returned (ok, s', w')
      \<longrightarrow> ok \<and> (\<exists>c0 c1 c2 c3 flag v1 v2 v3 d1 d2 d3.
            pending w = c0 @ c1 @ c2 @ c3 @ pending w'
          \<and> answered RAW_TRANSACTION ''resolved'' c0 flag
          \<and> (if truthy flag then c1 = []
              else answered RAW_TRANSACTION ''data'' c1 v1 \<and> HexBytes lib v1 = Inr d1)
          \<and> answered RAW_TRANSACTION ''data'' c2 v2 \<and> HexBytes lib v2 = Inr d2
          \<and> answered RAW_TRANSACTION ''data'' c3 v3 \<and> HexBytes lib v3 = Inr d3
          \<and> sent w' = sent w @ replicate (length c0) (resolved_query c cand)
                       @ replicate (length c1) (resolve_call c cand)
                       @ replicate (length c2) (claim_call c (from_block s) cand)
                       @ replicate (length c3) (redeem_call c cand)
          \<and> s' = s\<lparr>already_resolved := flag, built_data := Some d3,
                   current_redeem_info_attr := Some cand,
                   expected_winnings := expected_winnings s + claimable_amount cand,
                   multisend_batches := multisend_batches s @
                     (if truthy flag then [] else [MultisendBatch (realitio_proxy_address c) d1])
                     @ [MultisendBatch (realitio_address c) d2,
                        MultisendBatch (conditional_tokens_address c) d3]\<rparr>))
   \<and> (\<not> (outcomeIndex cand \<noteq> current_answer_index (fpmm cand) \<or> claimable_amount cand < dust_threshold c)
        \<and> answered RAW_TRANSACTION ''resolved'' c0 flag
        \<and> (if truthy flag then c1 = []
            else answered RAW_TRANSACTION ''data'' c1 v1 \<and> HexBytes lib v1 = Inr d1)
        \<and> answered RAW_TRANSACTION ''data'' c2 v2 \<and> HexBytes lib v2 = Inr d2
        \<and> answered RAW_TRANSACTION ''data'' c3 v3 \<and> HexBytes lib v3 = Inr d3
      \<longrightarrow> process_candidate lib c cand s \<lparr>sent = log, pending = c0 @ c1 @ c2 @ c3 @ rest\<rparr>
          = Returned (True,
              s\<lparr>already_resolved := flag, built_data := Some d3,
                current_redeem_info_attr := Some cand,
                expected_winnings := expected_winnings s + claimable_amount cand,
                multisend_batches := multisend_batches s @
                  (if truthy flag then [] else [MultisendBatch (realitio_proxy_address c) d1])
                  @ [MultisendBatch (realitio_address c) d2,
                     MultisendBatch (conditional_tokens_address c) d3]\<rparr>,
              \<lparr>sent = log @ replicate (length c0) (resolved_query c cand)
                      @ replicate (length c1) (resolve_call c cand)
                      @ replicate (length c2) (claim_call c (from_block s) cand)
                      @ replicate (length c3) (redeem_call c cand),
               pending = rest\<rparr>))"
proof (rule conjI, rule impI, rule_tac [2] conjI, rule_tac [2] impI, rule_tac [3] impI)
  assume "outcomeIndex cand \<noteq> current_answer_index (fpmm cand) \<or> claimable_amount cand < dust_threshold c"
  then have "\<not> non_dust_winning c cand" by (auto simp: non_dust_winning_def)
  then show "process_candidate lib c cand s w
            = Returned (False, s\<lparr>current_redeem_info_attr := Some cand\<rparr>, w)"
    by (rule process_candidate_skip)
next
  assume a: "\<not> (outcomeIndex cand \<noteq> current_answer_index (fpmm cand) \<or> claimable_amount cand < dust_threshold c)
             \<and> process_candidate lib c cand s w = Returned (ok, s', w')"
  then have nd: "non_dust_winning c cand" by (auto simp: non_dust_winning_def)
  from a have r: "process_candidate lib c cand s w = Returned (ok, s', w')" by simp
  show "ok \<and> (\<exists>c0 c1 c2 c3 flag v1 v2 v3 d1 d2 d3.
            pending w = c0 @ c1 @ c2 @ c3 @ pending w'
          \<and> answered RAW_TRANSACTION ''resolved'' c0 flag
          \<and> (if truthy flag then c1 = []
              else answered RAW_TRANSACTION ''data'' c1 v1 \<and> HexBytes lib v1 = Inr d1)
          \<and> answered RAW_TRANSACTION ''data'' c2 v2 \<and> HexBytes lib v2 = Inr d2
          \<and> answered RAW_TRANSACTION ''data'' c3 v3 \<and> HexBytes lib v3 = Inr d3
          \<and> sent w' = sent w @ replicate (length c0) (resolved_query c cand)
                       @ replicate (length c1) (resolve_call c cand)
                       @ replicate (length c2) (claim_call c (from_block s) cand)
                       @ replicate (length c3) (redeem_call c cand)
          \<and> s' = s\<lparr>already_resolved := flag, built_data := Some d3,
                   current_redeem_info_attr := Some cand,
                   expected_winnings := expected_winnings s + claimable_amount cand,
                   multisend_batches := multisend_batches s @
                     (if truthy flag then [] else [MultisendBatch (realitio_proxy_address c) d1])
                     @ [MultisendBatch (realitio_address c) d2,
                        MultisendBatch (conditional_tokens_address c) d3]\<rparr>)"
    by (rule process_candidate_exact[OF nd r])
next
  assume a: "\<not> (outcomeIndex cand \<noteq> current_answer_index (fpmm cand) \<or> claimable_amount cand < dust_threshold c)
        \<and> answered RAW_TRANSACTION ''resolved'' c0 flag
        \<and> (if truthy flag then c1 = []
            else answered RAW_TRANSACTION ''data'' c1 v1 \<and> HexBytes lib v1 = Inr d1)
        \<and> answered RAW_TRANSACTION ''data'' c2 v2 \<and> HexBytes lib v2 = Inr d2
        \<and> answered RAW_TRANSACTION ''data'' c3 v3 \<and> HexBytes lib v3 = Inr d3"
  then have nd: "non_dust_winning c cand" by (auto simp: non_dust_winning_def)
  from a have p: "answered RAW_TRANSACTION ''resolved'' c0 flag"
    "if truthy flag then c1 = []
            else answered RAW_TRANSACTION ''data'' c1 v1 \<and> HexBytes lib v1 = Inr d1"
    "answered RAW_TRANSACTION ''data'' c2 v2" "HexBytes lib v2 = Inr d2"
    "answered RAW_TRANSACTION ''data'' c3 v3" "HexBytes lib v3 = Inr d3"
    by blast+
  show "process_candidate lib c cand s \<lparr>sent = log, pending = c0 @ c1 @ c2 @ c3 @ rest\<rparr>
          = Returned (True,
              s\<lparr>already_resolved := flag, built_data := Some d3,
                current_redeem_info_attr := Some cand,
                expected_winnings := expected_winnings s + claimable_amount cand,
                multisend_batches := multisend_batches s @
                  (if truthy flag then [] else [MultisendBatch (realitio_proxy_address c) d1])
                  @ [MultisendBatch (realitio_address c) d2,
                     MultisendBatch (conditional_tokens_address c) d3]\<rparr>,
              \<lparr>sent = log @ replicate (length c0) (resolved_query c cand)
                      @ replicate (length c1) (resolve_call c cand)
                      @ replicate (length c2) (claim_call c (from_block s) cand)
                      @ replicate (length c3) (redeem_call c cand),
               pending = rest\<rparr>)"
    by (rule process_candidate_forward[OF nd p])
qed

theorem process_candidate_eligibility_witness:
  "process_candidate example_lib example_env (example_trade ''0xdd'' 0 1 50) redeem_init no_world
     = Returned (False,
         redeem_init\<lparr>current_redeem_info_attr := Some (example_trade ''0xdd'' 0 1 50)\<rparr>, no_world)
   \<and> process_candidate example_lib example_env (example_trade ''0xcc'' 1 1 70) redeem_init
        \<lparr>sent = [], pending = example_bad_reply # example_redeem_replies\<rparr>
     = Returned (True,
         redeem_init\<lparr>already_resolved := PyBool False, built_data := Some [3],
           current_redeem_info_attr := Some (example_trade ''0xcc'' 1 1 70),
           expected_winnings := 70,
           multisend_batches := [MultisendBatch ''0xProxy'' [1], MultisendBatch ''0xRealitio'' [2],
              MultisendBatch ''0xCT'' [3]]\<rparr>,
         \<lparr>sent = [resolved_query example_env (example_trade ''0xcc'' 1 1 70),
                  resolved_query example_env (example_trade ''0xcc'' 1 1 70),
                  resolve_call example_env (example_trade ''0xcc'' 1 1 70),
                  claim_call example_env (BlockTag DEFAULT_FROM_BLOCK) (example_trade ''0xcc'' 1 1 70),
                  redeem_call example_env (example_trade ''0xcc'' 1 1 70)],
          pending = []\<rparr>)"
proof
  have "outcomeIndex (example_trade ''0xdd'' 0 1 50)
          \<noteq> current_answer_index (fpmm (example_trade ''0xdd'' 0 1 50))"
    by (simp add: example_trade_def example_fpmm_def)
  with process_candidate_eligibility[of "example_trade ''0xdd'' 0 1 50" example_env example_lib
      redeem_init no_world]
  show "process_candidate example_lib example_env (example_trade ''0xdd'' 0 1 50) redeem_init no_world
     = Returned (False,
         redeem_init\<lparr>current_redeem_info_attr := Some (example_trade ''0xdd'' 0 1 50)\<rparr>, no_world)"
    by blast
next
  let ?cand = "example_trade ''0xcc'' 1 1 70"
  let ?c0 = "[example_bad_reply, reply RAW_TRANSACTION ''resolved'' (PyBool False)]"
  let ?c1 = "[reply RAW_TRANSACTION ''data'' (PyStr ''0x01'')]"
  let ?c2 = "[reply RAW_TRANSACTION ''data'' (PyStr ''0x02'')]"
  let ?c3 = "[reply RAW_TRANSACTION ''data'' (PyStr ''0x03'')]"
  have h: "\<not> (outcomeIndex ?cand \<noteq> current_answer_index (fpmm ?cand)
           \<or> claimable_amount ?cand < dust_threshold example_env)"
    by (simp add: example_trade_def example_fpmm_def example_env_def)
  have a0: "answered RAW_TRANSACTION ''resolved'' ?c0 (PyBool False)"
    by (simp add: answered_def failed_response_def reply_def example_bad_reply_def)
  have a1: "if truthy (PyBool False) then ?c1 = []
            else answered RAW_TRANSACTION ''data'' ?c1 (PyStr ''0x01'')
                 \<and> HexBytes example_lib (PyStr ''0x01'') = Inr [1]"
    by (simp add: answered_def reply_def example_lib_def example_bytes_fromhex_def)
  have a2: "answered RAW_TRANSACTION ''data'' ?c2 (PyStr ''0x02'')
            \<and> HexBytes example_lib (PyStr ''0x02'') = Inr [2]"
    by (simp add: answered_def reply_def example_lib_def example_bytes_fromhex_def)
  have a3: "answered RAW_TRANSACTION ''data'' ?c3 (PyStr ''0x03'')
            \<and> HexBytes example_lib (PyStr ''0x03'') = Inr [3]"
    by (simp add: answered_def reply_def example_lib_def example_bytes_fromhex_def)
  note t = process_candidate_eligibility[where cand="?cand" and c=example_env and lib=example_lib
      and s=redeem_init and ?c0.0="?c0" and ?c1.0="?c1" and ?c2.0="?c2" and ?c3.0="?c3"
      and flag="PyBool False" and ?v1.0="PyStr ''0x01''" and ?v2.0="PyStr ''0x02''"
      and ?v3.0="PyStr ''0x03''" and ?d1.0="[1]" and ?d2.0="[2]" and ?d3.0="[3]"
      and log="[]" and rest="[]", THEN conjunct2, THEN conjunct2, rule_format]
  from h a0 a1 a2 a3
  have "process_candidate example_lib example_env ?cand redeem_init
          \<lparr>sent = [], pending = ?c0 @ ?c1 @ ?c2 @ ?c3 @ []\<rparr>
      = Returned (True,
              redeem_init\<lparr>already_resolved := PyBool False, built_data := Some [3],
                current_redeem_info_attr := Some ?cand,
                expected_winnings := expected_winnings redeem_init + claimable_amount ?cand,
                multisend_batches := multisend_batches redeem_init @
                  (if truthy (PyBool False) then [] else [MultisendBatch (realitio_proxy_address example_env) [1]])
                  @ [MultisendBatch (realitio_address example_env) [2],
                     MultisendBatch (conditional_tokens_address example_env) [3]]\<rparr>,
              \<lparr>sent = [] @ replicate (length ?c0) (resolved_query example_env ?cand)
                      @ replicate (length ?c1) (resolve_call example_env ?cand)
                      @ replicate (length ?c2) (claim_call example_env (from_block redeem_init) ?cand)
                      @ replicate (length ?c3) (redeem_call example_env ?cand),
               pending = []\<rparr>)"
    by (intro t conjI) blast+
  then show "process_candidate example_lib example_env ?cand redeem_init
        \<lparr>sent = [], pending = example_bad_reply # example_redeem_replies\<rparr>
     = Returned (True,
         redeem_init\<lparr>already_resolved := PyBool False, built_data := Some [3],
           current_redeem_info_attr := Some ?cand,
           expected_winnings := 70,
           multisend_batches := [MultisendBatch ''0xProxy'' [1], MultisendBatch ''0xRealitio'' [2],
              MultisendBatch ''0xCT'' [3]]\<rparr>,
         \<lparr>sent = [resolved_query example_env ?cand,
                  resolved_query example_env ?cand,
                  resolve_call example_env ?cand,
                  claim_call example_env (BlockTag DEFAULT_FROM_BLOCK) ?cand,
                  redeem_call example_env ?cand],
          pending = []\<rparr>)"
    by (simp add: example_redeem_replies_def redeem_init_def example_env_def example_trade_def
          numeral_2_eq_2)
qed



text \<open>
  C4. A run that produces no eligible call emits a payload without hash and never asks
  for the multisend encoding or the safe transaction hash. Bet placement: when the balance
  found is below the investment amount, the payload is \<^verbatim>\<open>(agent, None)\<close>, the batch is
  as it was, and no request sent during the run is a \<^verbatim>\<open>get_tx_data\<close> or a
  \<^verbatim>\<open>get_raw_safe_transaction_hash\<close>. Redemption: when no candidate left by the filter
  is a winning one whose claimable amount reaches the dust threshold, the payload is
  \<^verbatim>\<open>(agent, None, None)\<close>, the batch is as it was, and no such request is sent.
\<close>

theorem no_action_empty_payload:
  "(bet_async_act lib c s w = Returned (p, s', w') \<and> balance s' < investment_amount c \<longrightarrow>
      p = MultisigTxPayload [Some (agent_address c), None]
      \<and> multisend_batches s' = multisend_batches s
      \<and> (\<exists>new. sent w' = sent w @ new \<and> (\<forall>rq\<in>set new. \<not> encodes_or_hashes rq)))
   \<and> (redeem_async_act lib c rs fs trades rw = Returned (rp, rs', rw')
       \<and> (\<forall>info\<in>set (redeem_info rs').
             outcomeIndex info \<noteq> current_answer_index (fpmm info)
             \<or> claimable_amount info < dust_threshold c) \<longrightarrow>
      rp = MultisigTxPayload [Some (agent_address c), None, None]
      \<and> multisend_batches rs' = multisend_batches rs
      \<and> (\<exists>new. sent rw' = sent rw @ new \<and> (\<forall>rq\<in>set new. \<not> encodes_or_hashes rq)))"
proof (rule conjI; rule impI)
  assume "bet_async_act lib c s w = Returned (p, s', w') \<and> balance s' < investment_amount c"
  then show "p = MultisigTxPayload [Some (agent_address c), None]
      \<and> multisend_batches s' = multisend_batches s
      \<and> (\<exists>new. sent w' = sent w @ new \<and> (\<forall>rq\<in>set new. \<not> encodes_or_hashes rq))"
    using bet_no_action by blast
next
  assume a: "redeem_async_act lib c rs fs trades rw = Returned (rp, rs', rw')
       \<and> (\<forall>info\<in>set (redeem_info rs').
             outcomeIndex info \<noteq> current_answer_index (fpmm info)
             \<or> claimable_amount info < dust_threshold c)"
  then have "\<forall>info\<in>set (redeem_info rs'). \<not> non_dust_winning c info"
    by (auto simp: non_dust_winning_def)
  from redeem_no_action[OF conjunct1[OF a] this] obtain new where
    e: "rp = MultisigTxPayload [Some (agent_address c), None, None]"
       "multisend_batches rs' = multisend_batches rs"
       "sent rw' = sent rw @ new" "\<forall>rq\<in>set new. contract_callable rq = ''check_redeemed''"
    by blast
  from e(4) have "\<forall>rq\<in>set new. \<not> encodes_or_hashes rq" by (simp add: encodes_or_hashes_def)
  with e show "rp = MultisigTxPayload [Some (agent_address c), None, None]
      \<and> multisend_batches rs' = multisend_batches rs
      \<and> (\<exists>new. sent rw' = sent rw @ new \<and> (\<forall>rq\<in>set new. \<not> encodes_or_hashes rq))"
    by blast
qed

theorem no_action_empty_payload_witness:
  "(\<exists>s' w'. example_poor_run = Returned (MultisigTxPayload [Some ''agent'', None], s', w')
      \<and> multisend_batches s' = [])
   \<and> (\<exists>s' w'. example_losing_run = Returned (MultisigTxPayload [Some ''agent'', None, None], s', w')
      \<and> multisend_batches s' = [])"
proof
  have "returned example_poor_run" by code_simp
  then obtain p s' w' where r: "example_poor_run = Returned (p, s', w')"
    by (auto simp: returned_iff)
  have "map_option balance (final_state example_poor_run) = Some 100" by code_simp
  then have b: "balance s' < investment_amount example_env"
    unfolding r by (simp add: example_env_def)
  from r have r': "bet_async_act example_lib example_env bet_init
       \<lparr>sent = [], pending = [reply RAW_TRANSACTION ''balance'' (PyInt 100)]\<rparr> = Returned (p, s', w')"
    by (simp add: example_poor_run_def)
  from no_action_empty_payload[THEN conjunct1, rule_format, OF conjI[OF r' b]]
  have "p = MultisigTxPayload [Some ''agent'', None] \<and> multisend_batches s' = []"
    by (simp add: example_env_def bet_init_def)
  with r show "\<exists>s' w'. example_poor_run = Returned (MultisigTxPayload [Some ''agent'', None], s', w')
      \<and> multisend_batches s' = []" by blast
next
  have "returned example_losing_run" by code_simp
  then obtain p s' w' where r: "example_losing_run = Returned (p, s', w')"
    by (auto simp: returned_iff)
  have "map_option redeem_info (final_state example_losing_run) = Some [example_trade ''0xdd'' 0 1 50]"
    by code_simp
  then have ri: "redeem_info s' = [example_trade ''0xdd'' 0 1 50]" unfolding r by simp
  have h: "\<forall>info\<in>set (redeem_info s').
             outcomeIndex info \<noteq> current_answer_index (fpmm info)
             \<or> claimable_amount info < dust_threshold example_env"
    unfolding ri by (simp add: example_trade_def example_fpmm_def)
  from r have r': "redeem_async_act example_lib example_env redeem_init IN_PROGRESS
       [Page (Some [example_trade ''0xdd'' 0 1 50]) SUCCESS, NoMore] example_nothing_world
       = Returned (p, s', w')"
    by (simp add: example_losing_run_def)
  from no_action_empty_payload[THEN conjunct2, rule_format, OF conjI[OF r' h]]
  have "p = MultisigTxPayload [Some ''agent'', None, None] \<and> multisend_batches s' = []"
    by (simp add: example_env_def redeem_init_def)
  with r show "\<exists>s' w'. example_losing_run = Returned (MultisigTxPayload [Some ''agent'', None, None], s', w')
      \<and> multisend_batches s' = []" by blast
qed



text \<open>
  C6. When the bet placement has prepared its transaction: the last request sent is the
  one that asks the safe contract for the transaction hash, with the multisend contract as
  \<^verbatim>\<open>to_address\<close>, value zero, the gas constant \<^verbatim>\<open>SAFE_GAS\<close>, the delegate-call
  operation, and as data the encoded batch, which is the answer to the \<^verbatim>\<open>get_tx_data\<close>
  request that carried the final batch, decoded after its first two characters. The
  payload hex is \<^verbatim>\<open>hash_payload_to_hex\<close> of the hash answered without its first two
  characters, value zero, the gas constant, the multisend address, the encoded batch and
  the delegate-call operation. When the hash answered starts with \<^verbatim>\<open>0x\<close>, what is
  embedded is the rest of it. The redemption builds its payload hex in the same way.
\<close>

theorem safe_tx_hash_parameters:
  "(bet_prepare_safe_tx lib c s w = Returned (hex, s', w') \<longrightarrow>
      (\<exists>tx_hash encoded r4 r5.
         last (sent w') = build_safe_tx_hash_request lib c s'
         \<and> contract_callable (last (sent w')) = ''get_raw_safe_transaction_hash''
         \<and> kwargs (last (sent w')) =
              [(''to_address'', ArgStr (multisend_address c)), (''value'', ArgInt 0),
               (''data'', ArgBytes (multisend_data s')), (''safe_tx_gas'', ArgInt (SAFE_GAS lib)),
               (''operation'', ArgInt (DELEGATE_CALL lib))]
         \<and> build_multisend_data_request c s' \<in> set (sent w')
         \<and> kwargs (build_multisend_data_request c s') = [(''multi_send_txs'', ArgTxs (multisend_batches s'))]
         \<and> r4 \<in> set (pending w) \<and> body r4 ''data'' = Some encoded
         \<and> bytes_fromhex lib (drop 2 (py_str lib encoded)) = Inr (multisend_data s')
         \<and> r5 \<in> set (pending w) \<and> body r5 ''tx_hash'' = Some (PyStr tx_hash)
         \<and> safe_tx_hash s' = drop 2 tx_hash
         \<and> (\<forall>h. tx_hash = ''0x'' @ h \<longrightarrow> safe_tx_hash s' = h)
         \<and> hash_payload_to_hex lib (drop 2 tx_hash) 0 (SAFE_GAS lib) (multisend_address c)
              (multisend_data s') (DELEGATE_CALL lib) = Inr hex))
   \<and> (redeem_prepare_safe_tx lib c rs rw = Returned (Some rhex, rs', rw') \<longrightarrow>
         last (sent rw') = build_safe_tx_hash_request lib c rs'
         \<and> hash_payload_to_hex lib (safe_tx_hash rs') 0 (SAFE_GAS lib) (multisend_address c)
              (multisend_data rs') (DELEGATE_CALL lib) = Inr rhex)"
proof (rule conjI; rule impI)
  assume "bet_prepare_safe_tx lib c s w = Returned (hex, s', w')"
  from bet_prepare_safe_tx_Returned[OF this] obtain n1 n2 n3 n4 n5 d1 d2 r4 r5 d tx_hash where
    st: "s' = s\<lparr>multisend_batches := multisend_batches s @
               [MultisendBatch (collateral_token c) d1,
                MultisendBatch (market_maker_contract_address c) d2],
             multisend_data := multisend_data s', safe_tx_hash := drop 2 tx_hash,
             buy_amount := buy_amount s'\<rparr>"
    and lg: "sent w' = sent w @ replicate (Suc n1) (build_approval_tx_request c)
                 @ replicate (Suc n2) (calc_buy_amount_request c)
                 @ replicate (Suc n3) (build_buy_tx_request c s')
                 @ replicate (Suc n4) (build_multisend_data_request c s')
                 @ replicate (Suc n5) (build_safe_tx_hash_request lib c s')"
    and r: "r4 \<in> set (pending w)" "body r4 ''data'' = Some d"
      "bytes_fromhex lib (drop 2 (py_str lib d)) = Inr (multisend_data s')"
      "r5 \<in> set (pending w)" "body r5 ''tx_hash'' = Some (PyStr tx_hash)"
    and h: "hash_payload_to_hex lib (drop 2 tx_hash) ETHER_VALUE (SAFE_GAS lib) (multisend_address c)
         (multisend_data s') (DELEGATE_CALL lib) = Inr hex"
    by blast
  have la: "last (sent w') = build_safe_tx_hash_request lib c s'"
    unfolding lg append_assoc[symmetric] by (rule last_replicate_Suc)
  have cc: "contract_callable (last (sent w')) = ''get_raw_safe_transaction_hash''"
    and kw: "kwargs (last (sent w')) =
              [(''to_address'', ArgStr (multisend_address c)), (''value'', ArgInt 0),
               (''data'', ArgBytes (multisend_data s')), (''safe_tx_gas'', ArgInt (SAFE_GAS lib)),
               (''operation'', ArgInt (DELEGATE_CALL lib))]"
    unfolding la by (simp_all add: build_safe_tx_hash_request_def ETHER_VALUE_def)
  have ms: "build_multisend_data_request c s' \<in> set (sent w')" unfolding lg by simp
  have mk: "kwargs (build_multisend_data_request c s') = [(''multi_send_txs'', ArgTxs (multisend_batches s'))]"
    by (simp add: build_multisend_data_request_def multi_send_txs_def)
  have sh: "safe_tx_hash s' = drop 2 tx_hash" by (subst st) simp
  have px: "\<forall>h. tx_hash = ''0x'' @ h \<longrightarrow> safe_tx_hash s' = h" unfolding sh by simp
  have hh: "hash_payload_to_hex lib (drop 2 tx_hash) 0 (SAFE_GAS lib) (multisend_address c)
              (multisend_data s') (DELEGATE_CALL lib) = Inr hex"
    using h by (simp add: ETHER_VALUE_def)
  show "\<exists>tx_hash encoded r4 r5.
         last (sent w') = build_safe_tx_hash_request lib c s'
         \<and> contract_callable (last (sent w')) = ''get_raw_safe_transaction_hash''
         \<and> kwargs (last (sent w')) =
              [(''to_address'', ArgStr (multisend_address c)), (''value'', ArgInt 0),
               (''data'', ArgBytes (multisend_data s')), (''safe_tx_gas'', ArgInt (SAFE_GAS lib)),
               (''operation'', ArgInt (DELEGATE_CALL lib))]
         \<and> build_multisend_data_request c s' \<in> set (sent w')
         \<and> kwargs (build_multisend_data_request c s') = [(''multi_send_txs'', ArgTxs (multisend_batches s'))]
         \<and> r4 \<in> set (pending w) \<and> body r4 ''data'' = Some encoded
         \<and> bytes_fromhex lib (drop 2 (py_str lib encoded)) = Inr (multisend_data s')
         \<and> r5 \<in> set (pending w) \<and> body r5 ''tx_hash'' = Some (PyStr tx_hash)
         \<and> safe_tx_hash s' = drop 2 tx_hash
         \<and> (\<forall>h. tx_hash = ''0x'' @ h \<longrightarrow> safe_tx_hash s' = h)
         \<and> hash_payload_to_hex lib (drop 2 tx_hash) 0 (SAFE_GAS lib) (multisend_address c)
              (multisend_data s') (DELEGATE_CALL lib) = Inr hex"
    using la cc kw ms mk r sh px hh
    by (intro exI[of _ tx_hash] exI[of _ d] exI[of _ r4] exI[of _ r5]) (simp only: simp_thms)
next
  assume "redeem_prepare_safe_tx lib c rs rw = Returned (Some rhex, rs', rw')"
  from redeem_prepare_safe_tx_Returned[OF this] obtain new n4 n5 where
    t: "tx_hex lib c rs' = Inr rhex"
    and lg: "sent rw' = sent rw @ new @ replicate (Suc n4) (build_multisend_data_request c rs')
                          @ replicate (Suc n5) (build_safe_tx_hash_request lib c rs')"
    by blast
  have "last (sent rw') = build_safe_tx_hash_request lib c rs'"
    unfolding lg append_assoc[symmetric] by (rule last_replicate_Suc)
  with t show "last (sent rw') = build_safe_tx_hash_request lib c rs'
         \<and> hash_payload_to_hex lib (safe_tx_hash rs') 0 (SAFE_GAS lib) (multisend_address c)
              (multisend_data rs') (DELEGATE_CALL lib) = Inr rhex"
    by (simp add: tx_hex_def ETHER_VALUE_def)
qed

theorem safe_tx_hash_parameters_witness:
  "\<exists>hex s' w'. example_prepare_run = Returned (hex, s', w')
      \<and> kwargs (last (sent w')) =
              [(''to_address'', ArgStr example_multisend), (''value'', ArgInt 0),
               (''data'', ArgBytes (multisend_data s')), (''safe_tx_gas'', ArgInt 0),
               (''operation'', ArgInt 1)]"
proof -
  have "returned example_prepare_run" by code_simp
  then obtain hex s' w' where r: "example_prepare_run = Returned (hex, s', w')"
    by (auto simp: returned_iff)
  from safe_tx_hash_parameters[THEN conjunct1, rule_format, OF r[unfolded example_prepare_run_def]]
  have "kwargs (last (sent w')) =
              [(''to_address'', ArgStr (multisend_address example_env)), (''value'', ArgInt 0),
               (''data'', ArgBytes (multisend_data s')), (''safe_tx_gas'', ArgInt (SAFE_GAS example_lib)),
               (''operation'', ArgInt (DELEGATE_CALL example_lib))]"
    by blast
  then have "kwargs (last (sent w')) =
              [(''to_address'', ArgStr example_multisend), (''value'', ArgInt 0),
               (''data'', ArgBytes (multisend_data s')), (''safe_tx_gas'', ArgInt 0),
               (''operation'', ArgInt 1)]"
    by (simp add: example_env_def example_lib_def)
  with r show ?thesis by (intro exI conjI)
qed

text \<open>
  C8. When the discovery of the trades ends with a status other than success, the
  candidates are emptied; a run that goes on from there appends nothing to the batch,
  sends no request besides the batched lookup of the payouts, and ends with the payload
  \<^verbatim>\<open>(agent, None, None)\<close>.
\<close>

theorem failed_discovery_redeems_nothing:
  "(get_redeem_info s fs trades = Returned (s1, fs1, rest) \<and> fs1 \<noteq> SUCCESS \<longrightarrow>
      redeem_info s1 = [])
   \<and> (get_redeem_info s fs trades = Returned (s1, fs1, rest) \<and> fs1 \<noteq> SUCCESS
       \<and> redeem_async_act lib c s fs trades w = Returned (p, s', w') \<longrightarrow>
      p = MultisigTxPayload [Some (agent_address c), None, None]
      \<and> redeem_info s' = [] \<and> multisend_batches s' = multisend_batches s
      \<and> (\<exists>new. sent w' = sent w @ new \<and> (\<forall>rq\<in>set new. contract_callable rq = ''check_redeemed'')))"
proof (rule conjI; rule impI)
  assume "get_redeem_info s fs trades = Returned (s1, fs1, rest) \<and> fs1 \<noteq> SUCCESS"
  then show "redeem_info s1 = []" using get_redeem_info_Returned by blast
next
  assume a: "get_redeem_info s fs trades = Returned (s1, fs1, rest) \<and> fs1 \<noteq> SUCCESS
       \<and> redeem_async_act lib c s fs trades w = Returned (p, s', w')"
  then have g: "get_redeem_info s fs trades = Returned (s1, fs1, rest)" and f: "fs1 \<noteq> SUCCESS"
    and r: "redeem_async_act lib c s fs trades w = Returned (p, s', w')" by blast+
  from get_redeem_info_Returned[OF g] f have e1: "redeem_info s1 = []" by blast
  from redeem_async_act_Returned[OF r] g obtain s2 w2 hx where
    cl: "clean_redeem_info lib c s1 w = Returned (s2, w2)"
    and pr: "redeem_prepare_safe_tx lib c s2 w2 = Returned (hx, s', w')" by auto
  from clean_redeem_info_Returned[OF cl] obtain P where
    s2: "s2 = s1\<lparr>payouts := PyDict P, redeem_info :=
          (if sum_list (map snd P) > 0
           then filter (\<lambda>info. transactionHash info \<notin> fst ` set P) (redeem_info s1)
           else redeem_info s1)\<rparr>" by blast
  have e2: "redeem_info s2 = []" by (subst s2) (simp add: e1)
  from redeem_prepare_safe_tx_Returned[OF pr] have "redeem_info s' = redeem_info s2" by blast
  with e2 have e3: "redeem_info s' = []" by simp
  then have "\<forall>info\<in>set (redeem_info s'). \<not> non_dust_winning c info" by simp
  from redeem_no_action[OF r this] e3
  show "p = MultisigTxPayload [Some (agent_address c), None, None]
      \<and> redeem_info s' = [] \<and> multisend_batches s' = multisend_batches s
      \<and> (\<exists>new. sent w' = sent w @ new \<and> (\<forall>rq\<in>set new. contract_callable rq = ''check_redeemed''))"
    by blast
qed

theorem failed_discovery_redeems_nothing_witness:
  "\<exists>s1 rest s' w'.
     get_redeem_info redeem_init IN_PROGRESS example_failed_discovery = Returned (s1, FAIL, rest)
     \<and> redeem_info s1 = []
     \<and> redeem_async_act example_lib example_env redeem_init IN_PROGRESS example_failed_discovery
          example_nothing_world = Returned (MultisigTxPayload [Some ''agent'', None, None], s', w')
     \<and> multisend_batches s' = []"
proof -
  have g: "get_redeem_info redeem_init IN_PROGRESS example_failed_discovery
     = Returned (redeem_init\<lparr>redeem_info := []\<rparr>, FAIL, [])"
    by (simp add: example_failed_discovery_def)
  have f: "FAIL \<noteq> SUCCESS" by simp
  have "returned (redeem_async_act example_lib example_env redeem_init IN_PROGRESS
     example_failed_discovery example_nothing_world)" by code_simp
  then obtain p s' w' where r: "redeem_async_act example_lib example_env redeem_init IN_PROGRESS
     example_failed_discovery example_nothing_world = Returned (p, s', w')"
    by (auto simp: returned_iff)
  from failed_discovery_redeems_nothing[THEN conjunct1, rule_format, OF conjI[OF g f]]
  have e: "redeem_info (redeem_init\<lparr>redeem_info := []\<rparr>) = []" .
  from failed_discovery_redeems_nothing[THEN conjunct2, rule_format, OF conjI[OF g conjI[OF f r]]]
  have "p = MultisigTxPayload [Some ''agent'', None, None] \<and> multisend_batches s' = []"
    by (simp add: example_env_def redeem_init_def)
  with g e r show ?thesis by blast
qed






text \<open>
  C2 fails on the code. With \<^verbatim>\<open>redeeming_batch_size\<close> 4 and two winning candidates
  whose markets are not resolved, the first candidate leaves 3 entries, which is not 4,
  the second leaves 6, which is not 4 either: the batch of the run holds 6 entries.
\<close>

theorem batch_exceeds_redeeming_batch_size:
  "map_option (\<lambda>s. length (multisend_batches s)) (final_state example_redeem_run) = Some 6
   \<and> redeeming_batch_size example_env = 4"
  by code_simp

end
